(* ===== verification/Prelude.thy ===== *)
theory Prelude
  imports Main "HOL-Library.Multiset" "HOL-Library.Product_Lexorder"
begin

text \<open>
  Shared vocabulary of the pyMatch development: the names of the model's types
  (paths, voxel indices, millimetre coordinates), the collections of facts the
  component theories add to, and the generic lemmas on lists, multisets and
  association lists that several components use.
\<close>

section \<open>Types of the model\<close>

text \<open>A file-system path, as the Python string the script builds.\<close>
type_synonym path = string

text \<open>A voxel index \<open>(i, j, k)\<close> into a 3D volume (numpy's native index order).\<close>
type_synonym vox = "nat \<times> nat \<times> nat"

text \<open>A reference-space (MNI) coordinate in millimetres.\<close>
type_synonym mm = "int \<times> int \<times> int"

text \<open>A Python dictionary, as the association list of its items in insertion order.\<close>
type_synonym ('k, 'v) pydict = "('k \<times> 'v) list"

section \<open>Fact collections\<close>

text \<open>
  \<open>eval_simps\<close> collects the equations witnesses need to evaluate a model on a
  concrete input; \<open>inv_intros\<close> the rules that establish the components'
  invariants.
\<close>

named_theorems eval_simps
named_theorems inv_intros

section \<open>Python dictionary assignment\<close>

text \<open>
  \<open>d[k] = v\<close>: an existing key keeps its position and takes the new value, a new
  key goes to the end (the order of insertion).
\<close>

fun dict_set :: "('k, 'v) pydict \<Rightarrow> 'k \<Rightarrow> 'v \<Rightarrow> ('k, 'v) pydict" where
  "dict_set [] k v = [(k, v)]"
| "dict_set ((a, b) # ps) k v = (if a = k then (k, v) # ps else (a, b) # dict_set ps k v)"

lemma map_of_dict_set [simp]: "map_of (dict_set d k v) = (map_of d)(k \<mapsto> v)"
  by (induction d) (auto simp: fun_upd_twist)

lemma keys_dict_set [simp]: "fst ` set (dict_set d k v) = insert k (fst ` set d)"
  by (induction d) (auto simp: rev_image_eqI split: if_splits)

lemma distinct_dict_set [simp, intro]:
  "distinct (map fst d) \<Longrightarrow> distinct (map fst (dict_set d k v))"
  by (induction d) auto

lemma dict_set_fresh: "k \<notin> set (map fst d) \<Longrightarrow> dict_set d k v = d @ [(k, v)]"
  by (induction d) auto

section \<open>Sums over lists\<close>

text \<open>A sum over a list depends on the list's elements only as a multiset.\<close>

lemma sum_list_map_mset: "sum_list (map f xs) = (\<Sum>x \<in># mset xs. f x)"
  by (simp flip: mset_map add: sum_mset_sum_list)

lemma sum_list_map_perm:
  "mset xs = mset ys \<Longrightarrow> sum_list (map f xs) = sum_list (map f ys)"
  for f :: "'a \<Rightarrow> 'b::comm_monoid_add"
  by (simp add: sum_list_map_mset)

lemma abs_sum_list_le:
  "\<bar>sum_list (map f xs)\<bar> \<le> sum_list (map (\<lambda>x. \<bar>f x\<bar>) (xs :: 'a list)) "
  for f :: "'a \<Rightarrow> 'v::linordered_idom"
proof (induction xs)
  case (Cons x xs)
  have "\<bar>f x + sum_list (map f xs)\<bar> \<le> \<bar>f x\<bar> + \<bar>sum_list (map f xs)\<bar>"
    by (rule abs_triangle_ineq)
  with Cons.IH show ?case by simp
qed simp

lemma sum_list_map_abs_nonneg:
  "0 \<le> sum_list (map (\<lambda>x. \<bar>f x\<bar>) xs)"
  for f :: "'a \<Rightarrow> 'v::linordered_idom"
  by (induction xs) auto

lemma sum_list_map_scale:
  "sum_list (map (\<lambda>x. c * f x) xs) = c * sum_list (map f xs)"
  for f :: "'a \<Rightarrow> 'v::linordered_idom"
  by (induction xs) (simp_all add: distrib_left)

section \<open>Sorted enumeration of a finite set\<close>

text \<open>
  A strictly sorted list is the sorted enumeration of its element set; the
  index-selection theorems use it to characterise a traversal order.
\<close>

lemma strict_sorted_eq_sorted_list_of_set:
  "sorted_wrt (<) xs \<Longrightarrow> xs = sorted_list_of_set (set xs)"
  for xs :: "'a::linorder list"
  by (simp add: sorted_list_of_set_sort_remdups strict_sorted_iff distinct_remdups_id
      sorted_sort_id)

text \<open>
  Nested loops over two strictly increasing ranges enumerate the pairs in strictly
  increasing lexicographic order.
\<close>

lemma sorted_wrt_product_lex:
  fixes xs :: "'a::linorder list" and ys :: "'b::linorder list"
  assumes "sorted_wrt (<) xs" and "sorted_wrt (<) ys"
  shows "sorted_wrt (<) (List.product xs ys)"
  using assms(1)
proof (induction xs)
  case (Cons x xs)
  have head: "sorted_wrt (<) (map (Pair x) ys)"
    using assms(2) by (simp add: sorted_wrt_map)
  have across: "\<forall>p \<in> set (map (Pair x) ys). \<forall>q \<in> set (List.product xs ys). p < q"
    using Cons.prems by auto
  from head across Cons show ?case
    by (simp add: sorted_wrt_append)
qed simp

lemma case_replicate:
  "(case replicate n d of [] \<Rightarrow> a | x # _ \<Rightarrow> f x) = (if n = 0 then a else f d)"
  by (cases n) simp_all


lemma sum_list_map_le_length:
  "\<forall>x \<in> set xs. f x \<le> B \<Longrightarrow> sum_list (map f xs) \<le> of_nat (length xs) * (B :: 'b::linordered_idom)"
  by (induction xs) (auto simp: algebra_simps intro: add_mono)

end
