(* ===== verification/Volume.thy ===== *)
theory Volume
  imports Prelude
begin

text \<open>
  The Image Provider: the part of MRtools that pyMatch calls as
  \<open>MRtools.Data(path, '3D')\<close> (src/pyMatch.py lines 171 and 216). Its code is not
  under src/, so this theory models the contract the specification gives it
  (spec sections 2, 3 and 4.1): an image is a list of 3D timepoints with an
  affine map to reference space; loading picks the first timepoint that is not
  entirely zero, falling back to the second, and fails otherwise. The affine
  is axis-aligned with integer scale and offset per axis (the form of the
  standard-space templates the tool is used with); the inverse map reads a
  voxel only where a millimetre coordinate lies on the image's own grid.
\<close>

section \<open>Data\<close>

record affine =
  sx :: int
  ox :: int
  sy :: int
  oy :: int
  sz :: int
  oz :: int

text \<open>A 3D volume: its shape and its value at each voxel index inside the shape.\<close>

record 'v volume =
  dims :: "nat \<times> nat \<times> nat"
  voxel :: "vox \<Rightarrow> 'v"

text \<open>A 3D or 4D image as read from disk: its timepoints and its affine.\<close>

record 'v image =
  timepoints :: "'v volume list"
  img_affine :: affine

text \<open>An \<open>MRtools.Data\<close> object: the path it was read from, the resolved 3D volume, the affine.\<close>

record 'v data =
  name :: path
  vol :: "'v volume"
  aff :: affine

datatype mr_error = ImageUnreadable path | ImageEmpty path

section \<open>Operations\<close>

text \<open>Every voxel index of a shape, in numpy's native (C, lexicographic) order.\<close>

fun vox_coords :: "nat \<times> nat \<times> nat \<Rightarrow> vox list" where
  "vox_coords (nx, ny, nz) = List.product [0..<nx] (List.product [0..<ny] [0..<nz])"

fun in_box :: "nat \<times> nat \<times> nat \<Rightarrow> vox \<Rightarrow> bool" where
  "in_box (nx, ny, nz) (i, j, k) = (i < nx \<and> j < ny \<and> k < nz)"

definition vol_empty :: "'v::zero volume \<Rightarrow> bool" where
  "vol_empty v = list_all (\<lambda>c. voxel v c = 0) (vox_coords (dims v))"

text \<open>
  The timepoint the Image Provider resolves: the first one unless it is entirely
  zero, then the second, and none when that is entirely zero too or missing.
\<close>

fun resolve_volume :: "'v::zero volume list \<Rightarrow> 'v volume option" where
  "resolve_volume [] = None"
| "resolve_volume (v # vs) =
     (if \<not> vol_empty v then Some v
      else (case vs of
              [] \<Rightarrow> None
            | w # _ \<Rightarrow> if \<not> vol_empty w then Some w else None))"

text \<open>
  \<open>MRtools.Data(path, '3D')\<close>, given what the file system holds at each path
  (\<open>None\<close> where no readable image is).
\<close>

definition load_data ::
  "(path \<Rightarrow> 'v::zero image option) \<Rightarrow> path \<Rightarrow> mr_error + 'v data" where
  "load_data fs p =
     (case fs p of
        None \<Rightarrow> Inl (ImageUnreadable p)
      | Some img \<Rightarrow>
          (case resolve_volume (timepoints img) of
             None \<Rightarrow> Inl (ImageEmpty p)
           | Some v \<Rightarrow> Inr \<lparr>name = p, vol = v, aff = img_affine img\<rparr>))"

text \<open>Voxel index to millimetres through the affine.\<close>

definition mm_of_vox :: "affine \<Rightarrow> vox \<Rightarrow> mm" where
  "mm_of_vox a c =
     (case c of (i, j, k) \<Rightarrow> (sx a * int i + ox a, sy a * int j + oy a, sz a * int k + oz a))"

text \<open>
  One axis of the inverse map: the index whose coordinate is \<open>x\<close>, when \<open>x\<close> lies
  on the axis' grid inside the extent \<open>n\<close>.
\<close>

definition axis_index :: "int \<Rightarrow> int \<Rightarrow> nat \<Rightarrow> int \<Rightarrow> nat option" where
  "axis_index s off n x =
     (if s \<noteq> 0 \<and> s dvd (x - off) \<and> 0 \<le> (x - off) div s \<and> (x - off) div s < int n
      then Some (nat ((x - off) div s)) else None)"

fun vox_of_mm :: "affine \<Rightarrow> nat \<times> nat \<times> nat \<Rightarrow> mm \<Rightarrow> vox option" where
  "vox_of_mm a (nx, ny, nz) (x, y, z) =
     (case (axis_index (sx a) (ox a) nx x, axis_index (sy a) (oy a) ny y,
            axis_index (sz a) (oz a) nz z) of
        (Some i, Some j, Some k) \<Rightarrow> Some (i, j, k)
      | _ \<Rightarrow> None)"

text \<open>The candidate's value at a reference-space point; zero off the volume.\<close>

definition value_at :: "'v::zero data \<Rightarrow> mm \<Rightarrow> 'v" where
  "value_at d p =
     (case vox_of_mm (aff d) (dims (vol d)) p of
        None \<Rightarrow> 0
      | Some c \<Rightarrow> voxel (vol d) c)"

definition affine_ok :: "affine \<Rightarrow> bool" where
  "affine_ok a = (sx a \<noteq> 0 \<and> sy a \<noteq> 0 \<and> sz a \<noteq> 0)"

section \<open>Lemmas\<close>

lemma set_vox_coords [simp]: "set (vox_coords d) = {c. in_box d c}"
  by (cases d) auto

lemma sorted_vox_coords: "sorted_wrt (<) (vox_coords d)"
  by (cases d) (simp add: sorted_wrt_product_lex)

lemma distinct_vox_coords: "distinct (vox_coords d)"
  using sorted_vox_coords strict_sorted_iff by blast

lemma vol_empty_iff: "vol_empty v \<longleftrightarrow> (\<forall>c. in_box (dims v) c \<longrightarrow> voxel v c = 0)"
  by (auto simp: vol_empty_def list_all_iff)

lemma resolve_volume_nonempty:
  "resolve_volume vs = Some v \<Longrightarrow> \<not> vol_empty v"
  by (cases vs rule: resolve_volume.cases) (auto split: if_splits list.splits)

lemma resolve_volume_first_or_second:
  "resolve_volume vs = Some v \<Longrightarrow> v = vs ! 0 \<or> (1 < length vs \<and> v = vs ! 1)"
  by (cases vs rule: resolve_volume.cases) (auto split: if_splits list.splits)

lemma load_data_name: "load_data fs p = Inr d \<Longrightarrow> name d = p"
  by (auto simp: load_data_def split: option.splits)

lemma load_data_nonempty: "load_data fs p = Inr d \<Longrightarrow> \<not> vol_empty (vol d)"
  by (auto simp: load_data_def split: option.splits dest: resolve_volume_nonempty)

lemma axis_index_of_grid:
  "s \<noteq> 0 \<Longrightarrow> i < n \<Longrightarrow> axis_index s off n (s * int i + off) = Some i"
  by (simp add: axis_index_def)

lemma axis_index_Some:
  "axis_index s off n x = Some i \<Longrightarrow> i < n \<and> s * int i + off = x"
  by (auto simp: axis_index_def split: if_splits)

text \<open>The inverse map undoes the affine on every voxel of the volume, and only there.\<close>

lemma vox_of_mm_of_vox [simp]:
  "affine_ok a \<Longrightarrow> in_box d c \<Longrightarrow> vox_of_mm a d (mm_of_vox a c) = Some c"
  by (cases d; cases c) (simp add: affine_ok_def axis_index_of_grid mm_of_vox_def)

lemma vox_of_mm_Some:
  "vox_of_mm a d p = Some c \<Longrightarrow> in_box d c \<and> mm_of_vox a c = p"
  by (cases d; cases p)
     (auto simp: mm_of_vox_def split: option.splits dest!: axis_index_Some)

lemma mm_of_vox_inj:
  "affine_ok a \<Longrightarrow> inj_on (mm_of_vox a) {c. in_box d c}"
  by (rule inj_onI) (metis mem_Collect_eq option.inject vox_of_mm_of_vox)

lemma value_at_mm_of_vox [simp]:
  "affine_ok (aff d) \<Longrightarrow> in_box (dims (vol d)) c \<Longrightarrow> value_at d (mm_of_vox (aff d) c) = voxel (vol d) c"
  by (simp add: value_at_def)

text \<open>The inverse map and the affine are mutually inverse on the volume.\<close>

lemma vox_of_mm_iff:
  "affine_ok a \<Longrightarrow> vox_of_mm a d p = Some c \<longleftrightarrow> in_box d c \<and> mm_of_vox a c = p"
  by (auto dest: vox_of_mm_Some)

end
