(* ===== verification/IndexSelector.thy ===== *)
theory IndexSelector
  imports Volume
begin

text \<open>
  The Index Selector: \<open>Match.setIndexCrit(op, value)\<close> and \<open>Match.genIndexMNI()\<close>
  of MRtools, which pyMatch calls at src/pyMatch.py lines 182-183 with the
  criterion \<open>'>', 0\<close>. Modelled from spec section 4.1: every voxel of the
  template's resolved volume is visited in numpy's native order, the criterion
  is applied to its value, and each voxel that passes is converted to
  millimetres through the template's affine. The lemmas characterise the result
  against a reference (the sorted enumeration of the passing voxels), and show
  that it holds exactly the passing points, without repetition.
\<close>

section \<open>Definitions\<close>

text \<open>The comparison operators \<open>setIndexCrit\<close> takes, as the strings of its first argument.\<close>

datatype cmp_op = Gt | Ge | Lt | Le | Eq

datatype 'v crit = Crit cmp_op 'v

fun crit_holds :: "'v::linorder crit \<Rightarrow> 'v \<Rightarrow> bool" where
  "crit_holds (Crit Gt t) x = (t < x)"
| "crit_holds (Crit Ge t) x = (t \<le> x)"
| "crit_holds (Crit Lt t) x = (x < t)"
| "crit_holds (Crit Le t) x = (x \<le> t)"
| "crit_holds (Crit Eq t) x = (x = t)"

text \<open>The passing voxels, in traversal order.\<close>

definition select_vox :: "'v::linorder crit \<Rightarrow> 'v volume \<Rightarrow> vox list" where
  "select_vox c v = filter (\<lambda>p. crit_holds c (voxel v p)) (vox_coords (dims v))"

text \<open>\<open>genIndexMNI\<close>: the passing voxels as reference-space coordinates.\<close>

definition select_indices :: "'v::linorder crit \<Rightarrow> 'v data \<Rightarrow> mm list" where
  "select_indices c d = map (mm_of_vox (aff d)) (select_vox c (vol d))"

text \<open>The reference: the set of passing voxels, enumerated in increasing order.\<close>

definition passing :: "'v::linorder crit \<Rightarrow> 'v volume \<Rightarrow> vox set" where
  "passing c v = {p. in_box (dims v) p \<and> crit_holds c (voxel v p)}"

section \<open>Lemmas\<close>

lemma set_select_vox [simp]: "set (select_vox c v) = passing c v"
  by (auto simp: select_vox_def passing_def)

lemma sorted_select_vox: "sorted_wrt (<) (select_vox c v)"
  by (simp add: select_vox_def sorted_wrt_filter sorted_vox_coords)

lemma select_vox_reference: "select_vox c v = sorted_list_of_set (passing c v)"
  using strict_sorted_eq_sorted_list_of_set [OF sorted_select_vox] by simp

lemma finite_passing: "finite (passing c v)"
  by (metis List.finite_set set_select_vox)

lemma mem_select_indices:
  "p \<in> set (select_indices c d) \<longleftrightarrow>
     (\<exists>q. in_box (dims (vol d)) q \<and> crit_holds c (voxel (vol d) q) \<and> p = mm_of_vox (aff d) q)"
  by (auto simp: select_indices_def passing_def image_iff)

lemma distinct_select_indices:
  "affine_ok (aff d) \<Longrightarrow> distinct (select_indices c d)"
proof -
  assume ok: "affine_ok (aff d)"
  have "inj_on (mm_of_vox (aff d)) (set (select_vox c (vol d)))"
    by (rule inj_on_subset [OF mm_of_vox_inj [OF ok]]) (auto simp: passing_def)
  moreover have "distinct (select_vox c (vol d))"
    using sorted_select_vox strict_sorted_iff by blast
  ultimately show ?thesis
    by (simp add: select_indices_def distinct_map)
qed

text \<open>Every selected point reads back, through the template's own inverse map, a value that passes.\<close>

lemma select_indices_value_passes:
  "affine_ok (aff d) \<Longrightarrow> p \<in> set (select_indices c d) \<Longrightarrow> crit_holds c (value_at d p)"
  by (auto simp: mem_select_indices)

lemma length_select_indices: "length (select_indices c d) = card (passing c (vol d))"
  by (metis distinct_card length_map select_indices_def set_select_vox
      sorted_select_vox strict_sorted_iff)

text \<open>genIndexMNI returns every passing voxel exactly once, in millimetres, and each point reads back a passing value.\<close>

lemma select_indices_spec:
  "affine_ok (aff d) \<Longrightarrow>
   distinct (select_indices c d) \<and>
   set (select_indices c d) = mm_of_vox (aff d) ` passing c (vol d) \<and>
   (\<forall>p \<in> set (select_indices c d). crit_holds c (value_at d p))"
proof -
  assume ok: "affine_ok (aff d)"
  have "set (select_indices c d) = mm_of_vox (aff d) ` passing c (vol d)"
    by (simp add: select_indices_def)
  with distinct_select_indices [OF ok] select_indices_value_passes [OF ok] show ?thesis
    by blast
qed

end
