(* ===== verification/Scorer.thy ===== *)
theory Scorer
  imports IndexSelector
begin

text \<open>
  The Overlap Scorer of MRtools (spec section 4.2), which pyMatch reaches
  through \<open>Match.matchOverlapMatrix()\<close> at src/pyMatch.py line 257. For each
  reference-space point of the index set the candidate's value there is read
  (zero off the candidate's volume) and the values are summed, either signed or
  by absolute value. The lemmas show that the score depends on the index set
  only as a multiset (it equals the sum over the multiset, the reference the
  spec names), bound the signed score by the absolute one, scale linearly with
  the candidate, and compute the score of the template against its own index
  set.
\<close>

section \<open>Definitions\<close>

datatype mode = Signed | Absolute

fun weigh :: "mode \<Rightarrow> 'v::linordered_idom \<Rightarrow> 'v" where
  "weigh Signed x = x"
| "weigh Absolute x = \<bar>x\<bar>"

definition score :: "mode \<Rightarrow> mm list \<Rightarrow> 'v::linordered_idom data \<Rightarrow> 'v" where
  "score m idx d = sum_list (map (\<lambda>p. weigh m (value_at d p)) idx)"

text \<open>A candidate whose volume is the template's scaled by \<open>k\<close>.\<close>

definition scale_data :: "'v::linordered_idom \<Rightarrow> 'v data \<Rightarrow> 'v data" where
  "scale_data k d = d\<lparr>vol := (vol d)\<lparr>voxel := (\<lambda>p. k * voxel (vol d) p)\<rparr>\<rparr>"

section \<open>Lemmas\<close>

lemma score_Nil [simp]: "score m [] d = 0"
  by (simp add: score_def)

lemma score_Cons [simp]: "score m (p # idx) d = weigh m (value_at d p) + score m idx d"
  by (simp add: score_def)

lemma score_mset: "score m idx d = (\<Sum>p \<in># mset idx. weigh m (value_at d p))"
  by (simp add: score_def sum_list_map_mset)

lemma score_perm: "mset idx = mset idx' \<Longrightarrow> score m idx d = score m idx' d"
  by (simp add: score_mset)

lemma score_abs_nonneg: "0 \<le> score Absolute idx d"
  by (simp add: score_def sum_list_map_abs_nonneg)

text \<open>The signed score is bounded by the absolute one.\<close>

lemma score_signed_le_abs: "\<bar>score Signed idx d\<bar> \<le> score Absolute idx d"
  by (simp add: score_def abs_sum_list_le)

lemma value_at_scale: "value_at (scale_data k d) p = k * value_at d p"
  by (simp add: value_at_def scale_data_def split: option.splits)

lemma weigh_scale: "0 \<le> k \<Longrightarrow> weigh m (k * x) = k * weigh m x"
  by (cases m) (simp_all add: abs_mult)

text \<open>Scaling the candidate by a non-negative factor scales the score.\<close>

lemma score_scale: "0 \<le> k \<Longrightarrow> score m idx (scale_data k d) = k * score m idx d"
  by (simp add: score_def value_at_scale weigh_scale sum_list_map_scale)

text \<open>
  The template scored against its own index set: each selected point reads back
  the voxel it came from, so the score is the sum over the passing voxels.
\<close>

lemma score_self:
  "affine_ok (aff d) \<Longrightarrow>
   score m (select_indices c d) d = sum_list (map (\<lambda>q. weigh m (voxel (vol d) q)) (select_vox c (vol d)))"
proof -
  assume ok: "affine_ok (aff d)"
  have "\<forall>q \<in> set (select_vox c (vol d)). in_box (dims (vol d)) q"
    by (simp add: passing_def)
  then have "map (\<lambda>p. weigh m (value_at d p)) (select_indices c d) =
      map (\<lambda>q. weigh m (voxel (vol d) q)) (select_vox c (vol d))"
    using ok by (simp add: select_indices_def)
  then show ?thesis by (simp add: score_def)
qed

text \<open>Under the criterion \<open>> 0\<close> every selected value is positive, so the absolute score is the plain sum.\<close>

lemma score_self_pos:
  "affine_ok (aff d) \<Longrightarrow>
   score Absolute (select_indices (Crit Gt 0) d) d = sum_list (map (voxel (vol d)) (select_vox (Crit Gt 0) (vol d)))"
proof -
  assume ok: "affine_ok (aff d)"
  have "\<forall>q \<in> set (select_vox (Crit Gt 0) (vol d)). \<bar>voxel (vol d) q\<bar> = voxel (vol d) q"
    by (simp add: passing_def)
  then have eq: "map (\<lambda>q. weigh Absolute (voxel (vol d) q)) (select_vox (Crit Gt 0) (vol d)) =
      map (voxel (vol d)) (select_vox (Crit Gt 0) (vol d))"
    by (simp add: map_eq_conv)
  from score_self [OF ok, of Absolute "Crit Gt 0"] eq show ?thesis by (simp only:)
qed

text \<open>A candidate whose values are bounded by \<open>B\<close> scores at most \<open>B\<close> per index point.\<close>

lemma score_abs_bound:
  "\<forall>q. \<bar>voxel (vol d) q\<bar> \<le> B \<Longrightarrow> score Absolute idx d \<le> of_nat (length idx) * B"
proof -
  assume b: "\<forall>q. \<bar>voxel (vol d) q\<bar> \<le> B"
  then have "0 \<le> B" by (meson abs_ge_zero order_trans)
  with b have "\<forall>p \<in> set idx. weigh Absolute (value_at d p) \<le> B"
    by (auto simp: value_at_def split: option.splits)
  then show ?thesis by (simp add: score_def sum_list_map_le_length)
qed

end
