(* ===== verification/Matcher.thy ===== *)
theory Matcher
  imports Scorer
begin

text \<open>
  The Match Aggregator: the \<open>MRtools.Match\<close> object pyMatch creates at
  src/pyMatch.py line 181 and drives through \<open>setIndexCrit\<close>, \<open>genIndexMNI\<close>,
  \<open>addComp\<close>, \<open>components\<close>, \<open>matchOverlapMatrix\<close> and \<open>reset\<close> (lines 182-183,
  218, 223, 257, 263). Its code is not under src/; it is modelled from spec
  section 4.3: a session holds the template, the criterion, the index set once
  generated, and the candidates added since the last reset.
  \<open>matchOverlapMatrix\<close> scores every held candidate against the index set by
  absolute value (the variant the active code path uses, spec section 9) into a
  dictionary keyed by the candidate's path. A session that is asked to generate
  indices before it has a criterion, or to score before it has indices, fails;
  pyMatch never does either.
  The operations are also an event-driven machine (\<open>session_step\<close>) with its
  reachable states (\<open>session_reachable\<close>), whose invariant is that the index set,
  once generated, is the template's selection under some criterion and the
  template never changes.
\<close>

section \<open>State and operations\<close>

record 'v session =
  mtemplate :: "'v data"
  mcrit :: "'v crit option"
  indexes :: "mm list option"
  components :: "'v data list"

datatype match_error = NoCriterion | NoIndexSet

definition new_session :: "'v data \<Rightarrow> 'v session" where
  "new_session t = \<lparr>mtemplate = t, mcrit = None, indexes = None, components = []\<rparr>"

definition set_index_crit :: "'v crit \<Rightarrow> 'v session \<Rightarrow> 'v session" where
  "set_index_crit c s = s\<lparr>mcrit := Some c\<rparr>"

definition gen_index_mni :: "'v::linorder session \<Rightarrow> match_error + 'v session" where
  "gen_index_mni s =
     (case mcrit s of
        None \<Rightarrow> Inl NoCriterion
      | Some c \<Rightarrow> Inr (s\<lparr>indexes := Some (select_indices c (mtemplate s))\<rparr>))"

definition add_comp :: "'v data \<Rightarrow> 'v session \<Rightarrow> 'v session" where
  "add_comp d s = s\<lparr>components := components s @ [d]\<rparr>"

text \<open>The dictionary of scores: one assignment per held candidate, in order.\<close>

definition score_dict :: "mm list \<Rightarrow> 'v::linordered_idom data list \<Rightarrow> (path, 'v) pydict" where
  "score_dict idx ds = fold (\<lambda>d r. dict_set r (name d) (score Absolute idx d)) ds []"

definition match_overlap_matrix ::
  "'v::linordered_idom session \<Rightarrow> match_error + (path, 'v) pydict" where
  "match_overlap_matrix s =
     (case indexes s of
        None \<Rightarrow> Inl NoIndexSet
      | Some idx \<Rightarrow> Inr (score_dict idx (components s)))"

definition reset :: "'v session \<Rightarrow> 'v session" where
  "reset s = s\<lparr>components := []\<rparr>"

section \<open>The session as a machine\<close>

datatype 'v event = SetCrit "'v crit" | GenIndex | AddComp "'v data" | MatchAll | Reset

fun session_step :: "'v::linordered_idom session \<Rightarrow> 'v event \<Rightarrow> match_error + 'v session" where
  "session_step s (SetCrit c) = Inr (set_index_crit c s)"
| "session_step s GenIndex = gen_index_mni s"
| "session_step s (AddComp d) = Inr (add_comp d s)"
| "session_step s MatchAll = (case match_overlap_matrix s of Inl e \<Rightarrow> Inl e | Inr _ \<Rightarrow> Inr s)"
| "session_step s Reset = Inr (reset s)"

inductive session_reachable :: "'v::linordered_idom data \<Rightarrow> 'v session \<Rightarrow> bool" where
  start: "session_reachable t (new_session t)"
| step: "session_reachable t s \<Longrightarrow> session_step s e = Inr s' \<Longrightarrow> session_reachable t s'"

definition session_inv :: "'v::linordered_idom data \<Rightarrow> 'v session \<Rightarrow> bool" where
  "session_inv t s \<longleftrightarrow>
     mtemplate s = t \<and>
     (case indexes s of None \<Rightarrow> True | Some idx \<Rightarrow> (\<exists>c. idx = select_indices c t))"

section \<open>Lemmas\<close>

lemma session_simps [simp]:
  "mtemplate (add_comp d s) = mtemplate s" "indexes (add_comp d s) = indexes s"
  "components (add_comp d s) = components s @ [d]"
  "mtemplate (reset s) = mtemplate s" "indexes (reset s) = indexes s"
  "components (reset s) = []"
  "mtemplate (set_index_crit c s) = mtemplate s" "indexes (set_index_crit c s) = indexes s"
  "components (set_index_crit c s) = components s"
  by (simp_all add: add_comp_def reset_def set_index_crit_def)

lemma gen_index_mni_crit:
  "mcrit s = Some c \<Longrightarrow>
   gen_index_mni s = Inr (s\<lparr>indexes := Some (select_indices c (mtemplate s))\<rparr>)"
  by (simp add: gen_index_mni_def)

lemma score_dict_Nil [simp]: "score_dict idx [] = []"
  by (simp add: score_dict_def)

lemma score_dict_snoc:
  "score_dict idx (ds @ [d]) = dict_set (score_dict idx ds) (name d) (score Absolute idx d)"
  by (simp add: score_dict_def)

lemma keys_score_dict: "fst ` set (score_dict idx ds) = name ` set ds"
  by (induction ds rule: rev_induct) (simp_all add: score_dict_snoc)

lemma distinct_score_dict: "distinct (map fst (score_dict idx ds))"
  by (induction ds rule: rev_induct) (simp_all add: score_dict_snoc)

text \<open>With distinct paths, one entry per candidate, in the order they were added.\<close>

lemma score_dict_distinct:
  "distinct (map name ds) \<Longrightarrow> score_dict idx ds = map (\<lambda>d. (name d, score Absolute idx d)) ds"
proof (induction ds rule: rev_induct)
  case (snoc d ds)
  then have "name d \<notin> set (map fst (score_dict idx ds))"
    by (simp add: keys_score_dict)
  with snoc show ?case
    by (simp add: score_dict_snoc dict_set_fresh)
qed simp

text \<open>The dictionary maps a path to the score of the last candidate added under it.\<close>

lemma map_of_score_dict:
  "map_of (score_dict idx ds) k =
     (case filter (\<lambda>d. name d = k) (rev ds) of [] \<Rightarrow> None | d # _ \<Rightarrow> Some (score Absolute idx d))"
  by (induction ds rule: rev_induct) (simp_all add: score_dict_snoc)

lemma session_step_template:
  "session_step s e = Inr s' \<Longrightarrow> mtemplate s' = mtemplate s"
  by (cases e) (auto simp: gen_index_mni_def split: option.splits sum.splits)

lemma session_step_inv:
  "session_inv t s \<Longrightarrow> session_step s e = Inr s' \<Longrightarrow> session_inv t s'"
  by (cases e)
     (auto simp: session_inv_def gen_index_mni_def split: option.splits sum.splits)

text \<open>Every reachable session keeps its template and holds only index sets selected from it.\<close>

lemma session_reachable_inv: "session_reachable t s \<Longrightarrow> session_inv t s"
proof (induction rule: session_reachable.induct)
  case start
  show ?case by (simp add: session_inv_def new_session_def)
next
  case (step s e s')
  then show ?case by (blast intro: session_step_inv)
qed

lemma score_dict_perm: "mset idx = mset idx' \<Longrightarrow> score_dict idx ds = score_dict idx' ds"
  by (induction ds rule: rev_induct) (simp_all add: score_dict_snoc score_perm [of idx idx'])

end
