(* ===== verification/PyRuntime.thy ===== *)
theory PyRuntime
  imports Matcher
begin

text \<open>
  The parts of the Python 2 runtime that the lines of src/pyMatch.py depend on:
  the values whose type matters (\<open>str\<close> against \<open>list\<close> in \<open>+\<close>), the exceptions
  and exit statuses a run can end with, the string methods and \<open>os.path\<close>
  functions the script calls (\<open>rstrip\<close>, \<open>basename\<close>, \<open>splitext\<close>), the line
  iteration of a text file, and the environment a run sees (the file system,
  \<open>os.getcwd()\<close>, \<open>str()\<close> of a score, and the iteration order of the two
  dictionaries, which Python 2 leaves to the hash table). Effects on files are
  threaded through an explicit store with a small state-and-exception monad.
\<close>

section \<open>Values, exceptions, outcomes\<close>

datatype pyval = PyStr string | PyList "pyval list"

datatype exn =
    TypeError
  | UnboundLocalError string
  | AttributeError string
  | MRtoolsError mr_error
  | MatchError match_error

text \<open>How a run ends: \<open>sys.exit(n)\<close>, an exception that nothing catches, or the end of \<open>main\<close>.\<close>

datatype outcome = SysExit nat | Raised exn | Finished

text \<open>Python's \<open>a + b\<close> on the two kinds of value the script concatenates.\<close>

fun py_add :: "pyval \<Rightarrow> pyval \<Rightarrow> exn + pyval" where
  "py_add (PyStr a) (PyStr b) = Inr (PyStr (a @ b))"
| "py_add (PyList a) (PyList b) = Inr (PyList (a @ b))"
| "py_add _ _ = Inl TypeError"

section \<open>Strings and paths\<close>

abbreviation nl :: char where "nl \<equiv> CHR 0x0A"
abbreviation tab :: char where "tab \<equiv> CHR 0x09"

text \<open>\<open>str.isspace\<close> on one byte (Python 2 \<open>str\<close>, C locale).\<close>

definition py_isspace :: "char \<Rightarrow> bool" where
  "py_isspace c = (c \<in> set [CHR '' '', CHR 0x09, CHR 0x0A, CHR 0x0B, CHR 0x0C, CHR 0x0D])"

definition py_rstrip_chars :: "char list \<Rightarrow> string \<Rightarrow> string" where
  "py_rstrip_chars cs s = rev (dropWhile (\<lambda>c. c \<in> set cs) (rev s))"

definition py_rstrip :: "string \<Rightarrow> string" where
  "py_rstrip s = rev (dropWhile py_isspace (rev s))"

text \<open>\<open>s.rfind(c)\<close>: the last index of \<open>c\<close> in \<open>s\<close>, or -1.\<close>

definition py_rfind :: "char \<Rightarrow> string \<Rightarrow> int" where
  "py_rfind c s =
     (case find (\<lambda>i. s ! i = c) (rev [0..<length s]) of None \<Rightarrow> -1 | Some i \<Rightarrow> int i)"

text \<open>\<open>posixpath.basename\<close>: what follows the last slash.\<close>

definition basename :: "path \<Rightarrow> path" where
  "basename p = drop (nat (py_rfind (CHR ''/'') p + 1)) p"

text \<open>
  \<open>posixpath.splitext\<close> (\<open>genericpath._splitext\<close>): split at the last dot of
  the last path component, unless everything before that dot in the component
  is dots (a leading-dot name has no extension).
\<close>

definition splitext :: "path \<Rightarrow> path \<times> string" where
  "splitext p =
     (let si = py_rfind (CHR ''/'') p; di = py_rfind (CHR ''.'') p
      in if si < di \<and> list_ex (\<lambda>i. p ! i \<noteq> CHR ''.'') [nat (si + 1)..<nat di]
         then (take (nat di) p, drop (nat di) p)
         else (p, ''''))"

text \<open>Iterating over a file opened in text mode: each line keeps its newline.\<close>

fun py_lines_from :: "string \<Rightarrow> string \<Rightarrow> string list" where
  "py_lines_from cur [] = (if cur = [] then [] else [cur])"
| "py_lines_from cur (c # cs) =
     (if c = nl then (cur @ [c]) # py_lines_from [] cs else py_lines_from (cur @ [c]) cs)"

definition py_lines :: "string \<Rightarrow> string list" where
  "py_lines s = py_lines_from [] s"

section \<open>Environment and effects\<close>

text \<open>
  What a run of the script sees of its environment. The two \<open>order\<close> fields are
  the iteration orders of the dictionaries \<open>found\<close> and \<open>resultitem\<close>; a
  faithful host permutes the items (\<open>host_ok\<close>).
\<close>

record 'v host =
  isfile :: "path \<Rightarrow> bool"
  image_at :: "path \<Rightarrow> 'v image option"
  file_text :: "path \<Rightarrow> string option"
  writable :: "path \<Rightarrow> bool"
  cwd :: path
  show_score :: "'v \<Rightarrow> string"
  sub_order :: "(path \<times> path list) list \<Rightarrow> (path \<times> path list) list"
  score_order :: "(path \<times> 'v) list \<Rightarrow> (path \<times> 'v) list"

definition host_ok :: "'v host \<Rightarrow> bool" where
  "host_ok h \<longleftrightarrow>
     (\<forall>xs. mset (sub_order h xs) = mset xs) \<and> (\<forall>xs. mset (score_order h xs) = mset xs)"

text \<open>The files the run writes: path to content.\<close>

type_synonym store = "path \<rightharpoonup> string"

text \<open>A computation on the store that returns a value or ends the run.\<close>

type_synonym 'a io = "store \<Rightarrow> (outcome + 'a) \<times> store"

definition io_return :: "'a \<Rightarrow> 'a io" where
  "io_return x st = (Inr x, st)"

definition io_stop :: "outcome \<Rightarrow> 'a io" where
  "io_stop r st = (Inl r, st)"

definition io_bind :: "'a io \<Rightarrow> ('a \<Rightarrow> 'b io) \<Rightarrow> 'b io" where
  "io_bind m f st = (case m st of (Inl r, st') \<Rightarrow> (Inl r, st') | (Inr x, st') \<Rightarrow> f x st')"

text \<open>\<open>open(p, 'w')\<close> truncates the file; \<open>write\<close> on a file opened with \<open>'a'\<close> appends.\<close>

definition truncate_file :: "path \<Rightarrow> store \<Rightarrow> store" where
  "truncate_file p st = st(p \<mapsto> '''')"

definition append_file :: "path \<Rightarrow> string \<Rightarrow> store \<Rightarrow> store" where
  "append_file p s st = st(p \<mapsto> (case st p of None \<Rightarrow> s | Some c \<Rightarrow> c @ s))"

section \<open>Lemmas\<close>

lemma io_bind_return [simp]: "io_bind (io_return x) f = f x"
  by (simp add: io_bind_def io_return_def fun_eq_iff)

lemma io_bind_stop [simp]: "io_bind (io_stop r) f = io_stop r"
  by (simp add: io_bind_def io_stop_def fun_eq_iff)

lemma io_bind_assoc: "io_bind (io_bind m f) g = io_bind m (\<lambda>x. io_bind (f x) g)"
  by (simp add: io_bind_def fun_eq_iff split: prod.splits sum.splits)

lemma snd_io_bind_const:
  "snd (io_bind m (\<lambda>_. io_return a) st) = snd (io_bind m (\<lambda>_. io_return b) st)"
  by (simp add: io_bind_def io_return_def split: prod.splits sum.splits)

lemma io_bind_apply:
  "io_bind m f st = (case m st of (Inl r, st') \<Rightarrow> (Inl r, st') | (Inr x, st') \<Rightarrow> f x st')"
  by (simp add: io_bind_def)

lemma append_file_Some [simp]: "append_file p s st p = Some (case st p of None \<Rightarrow> s | Some c \<Rightarrow> c @ s)"
  by (simp add: append_file_def)

lemma append_file_other [simp]: "q \<noteq> p \<Longrightarrow> append_file p s st q = st q"
  by (simp add: append_file_def)

lemma append_file_append: "st p = Some c \<Longrightarrow> append_file p s st p = Some (c @ s)"
  by simp

lemma py_rstrip_no_trailing_space:
  "s = [] \<or> \<not> py_isspace (last s) \<Longrightarrow> py_rstrip s = s"
  by (induction s rule: rev_induct) (auto simp: py_rstrip_def)

lemma py_rstrip_append_space:
  "py_isspace c \<Longrightarrow> py_rstrip (s @ [c]) = py_rstrip s"
  by (simp add: py_rstrip_def)

lemma py_rstrip_chars_nl: "py_rstrip_chars [nl] (s @ [nl]) = py_rstrip_chars [nl] s"
  by (simp add: py_rstrip_chars_def)

lemma py_isspace_nl [simp]: "py_isspace nl"
  by (simp add: py_isspace_def)

lemma py_lines_from_line:
  "nl \<notin> set l \<Longrightarrow> py_lines_from cur (l @ nl # rest) = (cur @ l @ [nl]) # py_lines_from [] rest"
  by (induction l arbitrary: cur) auto

text \<open>Reading back lines written one per line gives each line with its newline.\<close>

lemma py_lines_concat:
  "\<forall>l \<in> set ls. nl \<notin> set l \<Longrightarrow> py_lines (concat (map (\<lambda>l. l @ [nl]) ls)) = map (\<lambda>l. l @ [nl]) ls"
proof (induction ls)
  case Nil
  then show ?case by (simp add: py_lines_def)
next
  case (Cons l ls)
  then have "py_lines_from [] (l @ nl # concat (map (\<lambda>l. l @ [nl]) ls)) =
      (l @ [nl]) # py_lines_from [] (concat (map (\<lambda>l. l @ [nl]) ls))"
    by (simp add: py_lines_from_line)
  with Cons show ?case by (simp add: py_lines_def)
qed

lemma host_ok_sub_order: "host_ok h \<Longrightarrow> mset (sub_order h xs) = mset xs"
  by (simp add: host_ok_def)

lemma host_ok_score_order: "host_ok h \<Longrightarrow> mset (score_order h xs) = mset xs"
  by (simp add: host_ok_def)

text \<open>Where \<open>rfind\<close> lands, and so what \<open>basename\<close> and \<open>splitext\<close> return for a path of the form \<open>dir/stem.ext\<close>.\<close>

lemma find_rev_upt_last:
  "k < n \<Longrightarrow> P k \<Longrightarrow> \<forall>i. k < i \<and> i < n \<longrightarrow> \<not> P i \<Longrightarrow> find P (rev [0..<n]) = Some k"
proof (induction n)
  case (Suc n)
  then show ?case by (cases "k = n") auto
qed simp

lemma py_rfind_notin: "c \<notin> set s \<Longrightarrow> py_rfind c s = -1"
proof -
  assume "c \<notin> set s"
  then have "\<forall>i < length s. s ! i \<noteq> c" using nth_mem by blast
  then have "find (\<lambda>i. s ! i = c) (rev [0..<length s]) = None" by (simp add: find_None_iff)
  then show ?thesis by (simp add: py_rfind_def)
qed

lemma py_rfind_last: "c \<notin> set t \<Longrightarrow> py_rfind c (s @ c # t) = int (length s)"
proof -
  assume t: "c \<notin> set t"
  have "\<forall>i. length s < i \<and> i < length (s @ c # t) \<longrightarrow> (s @ c # t) ! i \<noteq> c"
  proof (intro allI impI)
    fix i assume i: "length s < i \<and> i < length (s @ c # t)"
    then have "(s @ c # t) ! i = t ! (i - length s - 1)"
      by (simp add: nth_append nth_Cons')
    moreover have "i - length s - 1 < length t" using i by simp arith
    then have "t ! (i - length s - 1) \<in> set t" by (rule nth_mem)
    ultimately show "(s @ c # t) ! i \<noteq> c" using t by auto
  qed
  then have "find (\<lambda>i. (s @ c # t) ! i = c) (rev [0..<length (s @ c # t)]) = Some (length s)"
    by (intro find_rev_upt_last) simp_all
  then show ?thesis by (simp add: py_rfind_def)
qed

lemma basename_append: "CHR ''/'' \<notin> set f \<Longrightarrow> basename (dir @ ''/'' @ f) = f"
proof -
  assume "CHR ''/'' \<notin> set f"
  moreover have "nat (int (length dir) + 1) = Suc (length dir)" by simp
  ultimately show ?thesis by (simp add: basename_def py_rfind_last)
qed

lemma splitext_last_dot:
  "CHR ''/'' \<notin> set (stem @ ext) \<Longrightarrow> CHR ''.'' \<notin> set ext \<Longrightarrow> list_ex (\<lambda>ch. ch \<noteq> CHR ''.'') stem \<Longrightarrow>
   splitext (stem @ ''.'' @ ext) = (stem, ''.'' @ ext)"
proof -
  assume sl: "CHR ''/'' \<notin> set (stem @ ext)" and dt: "CHR ''.'' \<notin> set ext"
    and ex: "list_ex (\<lambda>ch. ch \<noteq> CHR ''.'') stem"
  have si: "py_rfind (CHR ''/'') (stem @ ''.'' @ ext) = -1"
    using sl by (intro py_rfind_notin) auto
  have di: "py_rfind (CHR ''.'') (stem @ ''.'' @ ext) = int (length stem)"
    using dt by (simp add: py_rfind_last)
  obtain i where i: "i < length stem" "stem ! i \<noteq> CHR ''.''"
    using ex by (auto simp: list_ex_iff in_set_conv_nth)
  then have "list_ex (\<lambda>i. (stem @ ''.'' @ ext) ! i \<noteq> CHR ''.'') [0..<length stem]"
    by (auto simp: list_ex_iff nth_append intro!: bexI [of _ i])
  then show ?thesis using si di by (simp add: splitext_def)
qed

end
