(* ===== verification/PyMatchRes.thy ===== *)
theory PyMatchRes
  imports PyRuntime
begin

text \<open>
  The Result Sink: class \<open>pyMatchRes\<close> of src/pyMatch.py (lines 51-97). The
  object is a record of its attributes; \<open>imagepath\<close>, which no method assigns,
  is an attribute that is absent (\<open>None\<close>), so reading it raises
  \<open>AttributeError\<close>. Each method is a computation on the file store: an
  \<open>open\<close> that fails, or any exception inside the \<open>try\<close>, reaches the bare
  \<open>except\<close>, which prints and calls \<open>sys.exit()\<close> (exit status 0).
\<close>

section \<open>State and methods\<close>

record pymatchres =
  res_output :: path
  res_file :: path
  res_name :: "string option"
  res_fullpath :: "path option"
  res_imagepath :: "path option"

text \<open>\<open>setPath\<close> (lines 65-68).\<close>

definition set_path :: "pymatchres \<Rightarrow> pymatchres" where
  "set_path r =
     (case splitext (basename (res_file r)) of
        (base, ext) \<Rightarrow>
          r\<lparr>res_fullpath := Some (res_output r @ ''/'' @ base @ ''_beststats.txt''),
            res_name := Some base\<rparr>)"

text \<open>\<open>__init__\<close> (lines 52-57).\<close>

definition new_pymatchres :: "path \<Rightarrow> path \<Rightarrow> pymatchres" where
  "new_pymatchres output filename =
     set_path \<lparr>res_output = output, res_file = filename, res_name = None,
               res_fullpath = None, res_imagepath = None\<rparr>"

text \<open>\<open>getFullPath\<close> and \<open>getImPath\<close> (lines 59-63).\<close>

definition get_full_path :: "pymatchres \<Rightarrow> path option" where
  "get_full_path r = res_fullpath r"

definition get_im_path :: "pymatchres \<Rightarrow> exn + path" where
  "get_im_path r =
     (case res_imagepath r of None \<Rightarrow> Inl (AttributeError ''imagepath'') | Some p \<Rightarrow> Inr p)"

text \<open>
  \<open>writeHeader\<close> (lines 71-78): \<open>open(fullpath, 'w')\<close> truncates the file, then
  \<open>header + "\n"\<close> is written; both sit in the \<open>try\<close>.
\<close>

definition write_header :: "'v host \<Rightarrow> pymatchres \<Rightarrow> pyval \<Rightarrow> unit io" where
  "write_header h r header st =
     (case res_fullpath r of
        None \<Rightarrow> (Inl (SysExit 0), st)
      | Some p \<Rightarrow>
          if \<not> writable h p then (Inl (SysExit 0), st)
          else
            (let st1 = truncate_file p st
             in case py_add header (PyStr [nl]) of
                  Inr (PyStr s) \<Rightarrow> (Inr (), append_file p s st1)
                | _ \<Rightarrow> (Inl (SysExit 0), st1)))"

text \<open>\<open>addResult\<close> (lines 80-90): append the line, then a newline.\<close>

definition add_result :: "'v host \<Rightarrow> pymatchres \<Rightarrow> string \<Rightarrow> unit io" where
  "add_result h r result st =
     (case res_fullpath r of
        None \<Rightarrow> (Inl (SysExit 0), st)
      | Some p \<Rightarrow>
          if \<not> writable h p then (Inl (SysExit 0), st)
          else (Inr (), append_file p [nl] (append_file p result st)))"

text \<open>\<open>addImages\<close> (lines 93-97): no \<open>try\<close>; \<open>self.imagepath\<close> is read first.\<close>

definition add_images :: "'v host \<Rightarrow> pymatchres \<Rightarrow> string list \<Rightarrow> unit io" where
  "add_images h r imagelist st =
     (case get_im_path r of
        Inl e \<Rightarrow> (Inl (Raised e), st)
      | Inr ip \<Rightarrow>
          if \<not> writable h ip then (Inl (Raised (AttributeError ''open'')), st)
          else (Inr (), fold (\<lambda>img. append_file ip (img @ [nl])) imagelist st))"

section \<open>Lemmas\<close>

lemma res_fullpath_new:
  "res_fullpath (new_pymatchres out f) =
     Some (out @ ''/'' @ fst (splitext (basename f)) @ ''_beststats.txt'')"
  by (simp add: new_pymatchres_def set_path_def split: prod.splits)

lemma res_imagepath_new [simp]: "res_imagepath (new_pymatchres out f) = None"
  by (simp add: new_pymatchres_def set_path_def split: prod.splits)

lemma write_header_str:
  "res_fullpath r = Some p \<Longrightarrow> writable h p \<Longrightarrow>
   write_header h r (PyStr s) st = (Inr (), st(p \<mapsto> s @ [nl]))"
  by (simp add: write_header_def truncate_file_def append_file_def)

lemma write_header_list:
  "res_fullpath r = Some p \<Longrightarrow> writable h p \<Longrightarrow>
   write_header h r (PyList xs) st = (Inl (SysExit 0), st(p \<mapsto> ''''))"
  by (simp add: write_header_def truncate_file_def)

lemma add_result_ok:
  "res_fullpath r = Some p \<Longrightarrow> writable h p \<Longrightarrow> st p = Some c \<Longrightarrow>
   add_result h r line st = (Inr (), st(p \<mapsto> c @ line @ [nl]))"
  by (simp add: add_result_def append_file_def)

text \<open>C21: addResult on a report file that cannot be opened for appending ends the run with sys.exit(), exit status 0, and leaves every file as it was.\<close>

theorem add_result_fail:
  "res_fullpath r = Some p \<Longrightarrow> \<not> writable h p \<Longrightarrow> add_result h r line st = (Inl (SysExit 0), st)"
  by (simp add: add_result_def)

text \<open>C15: addImages always raises AttributeError: no method assigns the imagepath attribute it opens.\<close>

theorem add_images_attribute_error:
  "add_images h (new_pymatchres out f) imagelist st = (Inl (Raised (AttributeError ''imagepath'')), st)"
  by (simp add: add_images_def get_im_path_def)

text \<open>C17: for a template path whose last component is a stem (holding a character other than a dot) followed by a dot and an extension without dots, setPath names the report output/stem_beststats.txt: the directory and only the last extension are removed, so a template x.nii.gz gives x.nii_beststats.txt.\<close>

theorem res_fullpath_stem:
  "CHR ''/'' \<notin> set (stem @ ext) \<Longrightarrow> CHR ''.'' \<notin> set ext \<Longrightarrow> list_ex (\<lambda>ch. ch \<noteq> CHR ''.'') stem \<Longrightarrow>
   res_fullpath (new_pymatchres out (dir @ ''/'' @ stem @ ''.'' @ ext)) =
     Some (out @ ''/'' @ stem @ ''_beststats.txt'')"
proof -
  assume sl: "CHR ''/'' \<notin> set (stem @ ext)" and dt: "CHR ''.'' \<notin> set ext"
    and ex: "list_ex (\<lambda>ch. ch \<noteq> CHR ''.'') stem"
  have "basename (dir @ ''/'' @ stem @ ''.'' @ ext) = stem @ ''.'' @ ext"
    using sl by (intro basename_append) auto
  then show ?thesis
    using splitext_last_dot [OF sl dt ex] by (simp add: res_fullpath_new)
qed

lemma res_fullpath_stem_witness:
  "res_fullpath (new_pymatchres ''/out'' (''/data'' @ ''/'' @ ''tmpl.nii'' @ ''.'' @ ''gz'')) =
     Some (''/out'' @ ''/'' @ ''tmpl.nii'' @ ''_beststats.txt'')"
  by (rule res_fullpath_stem) simp_all

lemma add_result_fail_witness:
  "res_fullpath (new_pymatchres ''/out'' ''/t.nii'') = Some ''/out/t_beststats.txt'' \<and>
   \<not> writable \<lparr>isfile = (\<lambda>_. False), image_at = (\<lambda>_. None :: int image option),
      file_text = (\<lambda>_. None), writable = (\<lambda>_. False), cwd = '''', show_score = (\<lambda>_. ''''),
      sub_order = id, score_order = id\<rparr> ''/out/t_beststats.txt'' \<and>
   add_result \<lparr>isfile = (\<lambda>_. False), image_at = (\<lambda>_. None :: int image option),
      file_text = (\<lambda>_. None), writable = (\<lambda>_. False), cwd = '''', show_score = (\<lambda>_. ''''),
      sub_order = id, score_order = id\<rparr> (new_pymatchres ''/out'' ''/t.nii'') ''x'' Map.empty =
     (Inl (SysExit 0), Map.empty)"
  (is "?p \<and> \<not> writable ?h _ \<and> _")
proof -
  have p: ?p by code_simp
  have w: "\<not> writable ?h ''/out/t_beststats.txt''" by simp
  show ?thesis using p w add_result_fail [OF p w] by simp
qed

text \<open>C27: given a writable report path, writeHeader succeeds exactly when its argument is a str: header + newline is defined only for a str, and any list header ends the run.\<close>

theorem write_header_type:
  "res_fullpath r = Some p \<Longrightarrow> writable h p \<Longrightarrow>
   (\<exists>st'. write_header h r hdr st = (Inr (), st')) \<longleftrightarrow> (\<exists>s. hdr = PyStr s)"
  by (cases hdr) (simp_all add: write_header_str write_header_list)

end
