(* ===== verification/Driver.thy ===== *)
theory Driver
  imports PyMatchRes
begin

text \<open>
  The pipeline orchestration of src/pyMatch.py: \<open>readInput\<close> (lines 105-117),
  \<open>checkInput\<close> (lines 121-137) and \<open>main\<close> (lines 140-266), whose parts are
  the option loop (lines 149-160), the subject loop (lines 201-266) with its
  candidate loop (lines 207-221) and its result loop (lines 260-262), and the
  sequence of calls that leads into them (lines 163-199). Each is a computation
  on the file store of \<open>PyRuntime\<close>; every \<open>sys.exit\<close> and every exception that
  nothing catches ends it with the corresponding \<open>outcome\<close>.
\<close>

section \<open>Reading the input lists\<close>

definition read_input :: "'v host \<Rightarrow> path \<Rightarrow> path list io" where
  "read_input h readfile st =
     (case file_text h readfile of
        None \<Rightarrow> (Inl (SysExit 0), st)
      | Some txt \<Rightarrow> (Inr (map (\<lambda>line. py_rstrip (py_rstrip_chars [nl] line)) (py_lines txt)), st))"

section \<open>Finding the candidate files\<close>

text \<open>The inner loop over the candidate names for one subject (lines 128-131).\<close>

fun scan_comps :: "'v host \<Rightarrow> path \<Rightarrow> path list \<Rightarrow> path list \<times> nat \<Rightarrow> path list \<times> nat" where
  "scan_comps h sub [] acc = acc"
| "scan_comps h sub (compname # comps) (tmp, cnt) =
     scan_comps h sub comps
       (if isfile h (sub @ ''/'' @ compname)
        then (tmp @ [sub @ ''/'' @ compname], Suc cnt) else (tmp, cnt))"

text \<open>The outer loop over the subjects (lines 125-133).\<close>

fun scan_subs ::
  "'v host \<Rightarrow> path list \<Rightarrow> path list \<Rightarrow> (path, path list) pydict \<times> nat
     \<Rightarrow> (path, path list) pydict \<times> nat" where
  "scan_subs h [] compinput acc = acc"
| "scan_subs h (sub # subs) compinput (found, cnt) =
     scan_subs h subs compinput
       (if sub \<noteq> ''''
        then (case scan_comps h sub compinput ([], cnt) of
                (tmp, cnt') \<Rightarrow> (dict_set found sub tmp, cnt'))
        else (found, cnt))"

definition check_input :: "'v host \<Rightarrow> path list \<Rightarrow> path list \<Rightarrow> (path, path list) pydict io" where
  "check_input h subinput compinput st =
     (case scan_subs h subinput compinput ([], 0) of
        (found, cnt) \<Rightarrow> if cnt = 0 then (Inl (SysExit 32), st) else (Inr found, st))"

text \<open>The reference: the candidate paths of one subject that exist, in list order.\<close>

definition existing :: "'v host \<Rightarrow> path \<Rightarrow> path list \<Rightarrow> path list" where
  "existing h sub comps = filter (isfile h) (map (\<lambda>compname. sub @ ''/'' @ compname) comps)"

section \<open>The option loop\<close>

text \<open>
  The four local variables the loop assigns; \<open>None\<close> is a variable that no
  option assigned, whose later use raises \<open>UnboundLocalError\<close>.
\<close>

record opt_vars =
  v_input1 :: "string option"
  v_input2 :: "string option"
  v_sublist :: "string option"
  v_output :: "string option"

definition unbound_vars :: opt_vars where
  "unbound_vars = \<lparr>v_input1 = None, v_input2 = None, v_sublist = None, v_output = None\<rparr>"

fun collect_opts :: "(string \<times> string) list \<Rightarrow> opt_vars \<Rightarrow> outcome + opt_vars" where
  "collect_opts [] v = Inr v"
| "collect_opts ((opt, arg) # opts) v =
     (if opt \<in> set [''-h'', ''--help''] then Inl (SysExit 0)
      else collect_opts opts
        (v\<lparr>v_input1 := if opt \<in> set [''-t'', ''--template''] then Some arg else v_input1 v,
           v_input2 := if opt \<in> set [''-i'', ''--images''] then Some arg else v_input2 v,
           v_sublist := if opt \<in> set [''-s'', ''--subs''] then Some arg else v_sublist v,
           v_output := if opt \<in> set [''-o'', ''--output''] then Some arg else v_output v\<rparr>))"

definition local_var :: "string \<Rightarrow> string option \<Rightarrow> string io" where
  "local_var x v st = (case v of None \<Rightarrow> (Inl (Raised (UnboundLocalError x)), st) | Some a \<Rightarrow> (Inr a, st))"

section \<open>The subject loop\<close>

text \<open>The candidate loop (lines 207-221): load each path, add it to the session.\<close>

fun process_images ::
  "'v::linordered_idom host \<Rightarrow> path list \<Rightarrow> 'v session \<Rightarrow> outcome + 'v session" where
  "process_images h [] s = Inr s"
| "process_images h (img # imgs) s =
     (if img = '''' then process_images h imgs s
      else (case load_data (image_at h) img of
              Inl _ \<Rightarrow> Inl (SysExit 0)
            | Inr contender \<Rightarrow> process_images h imgs (add_comp contender s)))"

text \<open>The result loop (lines 260-262).\<close>

fun write_results :: "'v host \<Rightarrow> pymatchres \<Rightarrow> (path \<times> 'v) list \<Rightarrow> unit io" where
  "write_results h r [] = io_return ()"
| "write_results h r ((i, sc) # rest) =
     io_bind (add_result h r (i @ [tab] @ show_score h sc)) (\<lambda>_. write_results h r rest)"

text \<open>One subject (lines 202-266).\<close>

definition process_subject ::
  "'v::linordered_idom host \<Rightarrow> pymatchres \<Rightarrow> path \<Rightarrow> path list \<Rightarrow> 'v session \<Rightarrow> 'v session io" where
  "process_subject h r subject images s =
     (case process_images h images s of
        Inl res \<Rightarrow> io_stop res
      | Inr s' \<Rightarrow>
          if 0 < length (components s') then
            (case match_overlap_matrix s' of
               Inl e \<Rightarrow> io_stop (Raised (MatchError e))
             | Inr resultitem \<Rightarrow>
                 io_bind (write_results h r (score_order h resultitem)) (\<lambda>_. io_return (reset s')))
          else io_return s')"

fun run_subjects ::
  "'v::linordered_idom host \<Rightarrow> pymatchres \<Rightarrow> (path \<times> path list) list \<Rightarrow> 'v session \<Rightarrow> 'v session io" where
  "run_subjects h r [] s = io_return s"
| "run_subjects h r ((subject, images) # rest) s =
     io_bind (process_subject h r subject images s) (run_subjects h r rest)"

text \<open>The template work and the subject loop (lines 179-266), from the loaded template on.\<close>

definition run_matching ::
  "'v::linordered_idom host \<Rightarrow> pymatchres \<Rightarrow> 'v data \<Rightarrow> (path, path list) pydict \<Rightarrow> unit io" where
  "run_matching h r template found =
     (case gen_index_mni (set_index_crit (Crit Gt 0) (new_session template)) of
        Inl e \<Rightarrow> io_stop (Raised (MatchError e))
      | Inr m \<Rightarrow> io_bind (run_subjects h r (sub_order h found) m) (\<lambda>_. io_return ()))"

section \<open>main\<close>

text \<open>\<open>MRtools.Data(input1, '3D')\<close> at line 171, outside any \<open>try\<close>.\<close>

definition load_template :: "'v::zero host \<Rightarrow> path \<Rightarrow> 'v data io" where
  "load_template h p st =
     (case load_data (image_at h) p of
        Inl e \<Rightarrow> (Inl (Raised (MRtoolsError e)), st)
      | Inr d \<Rightarrow> (Inr d, st))"

text \<open>
  \<open>main(argv)\<close>, given what \<open>getopt\<close> returned: \<open>None\<close> for \<open>GetoptError\<close>,
  otherwise the list of (option, argument) pairs.
\<close>

definition main :: "'v::linordered_idom host \<Rightarrow> (string \<times> string) list option \<Rightarrow> unit io" where
  "main h opts =
     (case opts of
        None \<Rightarrow> io_stop (SysExit 2)
      | Some os \<Rightarrow>
          (case collect_opts os unbound_vars of
             Inl res \<Rightarrow> io_stop res
           | Inr v \<Rightarrow>
               io_bind (local_var ''sublist'' (v_sublist v)) (\<lambda>sublist.
               io_bind (read_input h sublist) (\<lambda>subfile.
               io_bind (local_var ''input2'' (v_input2 v)) (\<lambda>input2.
               io_bind (read_input h input2) (\<lambda>imgfiles.
               io_bind (check_input h subfile imgfiles) (\<lambda>found.
               io_bind (local_var ''input1'' (v_input1 v)) (\<lambda>input1.
               io_bind (load_template h input1) (\<lambda>template.
               io_bind (local_var ''output'' (v_output v)) (\<lambda>output.
               (let output' = (if output = '''' then cwd h else output);
                    result = new_pymatchres output' (name template)
                in io_bind (write_header h result (PyList [PyStr (input1 @ '':template'')])) (\<lambda>_.
                   run_matching h result template found))))))))))))"

section \<open>Reference behaviour\<close>

text \<open>
  Definitions that state what the loops are meant to produce, used to
  characterise them: the candidates of a subject that load, the lines a list of
  score entries becomes, the report one subject contributes when processed from
  a session with no candidates, and the two variants of the subject loop the
  specification recommends (reset on every path, spec section 4.3; a fresh
  session per subject, spec section 9).
\<close>

definition loads :: "'v::zero host \<Rightarrow> path \<Rightarrow> bool" where
  "loads h p = (p = '''' \<or> (case load_data (image_at h) p of Inl _ \<Rightarrow> False | Inr _ \<Rightarrow> True))"

definition loaded :: "'v::zero host \<Rightarrow> path list \<Rightarrow> 'v data list" where
  "loaded h imgs =
     concat (map (\<lambda>p. if p = '''' then []
                      else (case load_data (image_at h) p of Inl _ \<Rightarrow> [] | Inr d \<Rightarrow> [d])) imgs)"

definition result_lines :: "'v host \<Rightarrow> (path \<times> 'v) list \<Rightarrow> string" where
  "result_lines h items = concat (map (\<lambda>(i, sc). i @ [tab] @ show_score h sc @ [nl]) items)"

definition subject_report :: "'v::linordered_idom host \<Rightarrow> mm list \<Rightarrow> path list \<Rightarrow> string" where
  "subject_report h idx imgs =
     (if loaded h imgs = [] then []
      else result_lines h (score_order h (score_dict idx (loaded h imgs))))"

definition fresh_session :: "'v data \<Rightarrow> 'v crit \<Rightarrow> mm list \<Rightarrow> 'v session" where
  "fresh_session t c idx = \<lparr>mtemplate = t, mcrit = Some c, indexes = Some idx, components = []\<rparr>"

fun run_fresh ::
  "'v::linordered_idom host \<Rightarrow> pymatchres \<Rightarrow> 'v session \<Rightarrow> (path \<times> path list) list \<Rightarrow> unit io" where
  "run_fresh h r s0 [] = io_return ()"
| "run_fresh h r s0 ((subject, images) # rest) =
     io_bind (process_subject h r subject images s0) (\<lambda>_. run_fresh h r s0 rest)"

definition process_subject_always_reset ::
  "'v::linordered_idom host \<Rightarrow> pymatchres \<Rightarrow> path \<Rightarrow> path list \<Rightarrow> 'v session \<Rightarrow> 'v session io" where
  "process_subject_always_reset h r subject images s =
     (case process_images h images s of
        Inl res \<Rightarrow> io_stop res
      | Inr s' \<Rightarrow>
          if 0 < length (components s') then
            (case match_overlap_matrix s' of
               Inl e \<Rightarrow> io_stop (Raised (MatchError e))
             | Inr resultitem \<Rightarrow>
                 io_bind (write_results h r (score_order h resultitem)) (\<lambda>_. io_return (reset s')))
          else io_return (reset s'))"

text \<open>The value an option loop leaves in one variable: the argument of the last option among \<open>names\<close>, or the value it had before.\<close>

definition last_opt :: "string list \<Rightarrow> (string \<times> string) list \<Rightarrow> string option \<Rightarrow> string option" where
  "last_opt names os d =
     (case filter (\<lambda>(opt, _). opt \<in> set names) (rev os) of [] \<Rightarrow> d | (_, a) # _ \<Rightarrow> Some a)"

section \<open>Lemmas\<close>

lemma scan_comps_eq:
  "scan_comps h sub comps (tmp, n) = (tmp @ existing h sub comps, n + length (existing h sub comps))"
  by (induction comps arbitrary: tmp n) (auto simp: existing_def)

lemma scan_subs_count:
  "snd (scan_subs h subs comps (found, n)) =
     n + sum_list (map (\<lambda>sub. if sub = '''' then 0 else length (existing h sub comps)) subs)"
  by (induction subs arbitrary: found n) (auto simp: scan_comps_eq)

lemma scan_subs_map_of:
  "map_of (fst (scan_subs h subs comps (found, n))) sub =
     (if sub \<in> set subs \<and> sub \<noteq> '''' then Some (existing h sub comps) else map_of found sub)"
  by (induction subs arbitrary: found n) (auto simp: scan_comps_eq)

lemma scan_subs_distinct:
  "distinct (map fst found) \<Longrightarrow> distinct (map fst (fst (scan_subs h subs comps (found, n))))"
  by (induction subs arbitrary: found n) (auto simp: scan_comps_eq)

lemma check_input_eq:
  "check_input h subs comps st =
     (if \<forall>sub \<in> set subs. sub \<noteq> '''' \<longrightarrow> existing h sub comps = []
      then (Inl (SysExit 32), st) else (Inr (fst (scan_subs h subs comps ([], 0))), st))"
proof -
  obtain fd n where sc: "scan_subs h subs comps ([], 0) = (fd, n)"
    by (cases "scan_subs h subs comps ([], 0)")
  have "n = sum_list (map (\<lambda>sub. if sub = '''' then 0 else length (existing h sub comps)) subs)"
    using scan_subs_count [of h subs comps "[]" 0] sc by simp
  then have "n = 0 \<longleftrightarrow> (\<forall>sub \<in> set subs. sub \<noteq> '''' \<longrightarrow> existing h sub comps = [])"
    by (auto simp: sum_list_eq_0_iff)
  with sc show ?thesis by (auto simp: check_input_def)
qed

lemma check_input_ok:
  "\<exists>sub \<in> set subs. sub \<noteq> '''' \<and> existing h sub comps \<noteq> [] \<Longrightarrow>
   check_input h subs comps st = (Inr (fst (scan_subs h subs comps ([], 0))), st)"
  by (auto simp: check_input_eq)

text \<open>C6: when checkInput returns, its dictionary has one entry for each distinct non-empty subject, holding that subject joined with each candidate name that is an existing file, in list order; and at least one candidate exists.\<close>

theorem check_input_found:
  "check_input h subs comps st = (Inr found, st') \<Longrightarrow>
   st' = st \<and> distinct (map fst found) \<and>
   (\<forall>sub. map_of found sub =
      (if sub \<in> set subs \<and> sub \<noteq> '''' then Some (existing h sub comps) else None)) \<and>
   (\<exists>sub \<in> set subs. sub \<noteq> '''' \<and> existing h sub comps \<noteq> [])"
proof -
  assume ci: "check_input h subs comps st = (Inr found, st')"
  then have some: "\<exists>sub \<in> set subs. sub \<noteq> '''' \<and> existing h sub comps \<noteq> []"
    and eq: "found = fst (scan_subs h subs comps ([], 0))" "st' = st"
    by (auto simp: check_input_eq split: if_splits)
  have "distinct (map fst found)"
    using scan_subs_distinct [of "[]" h subs comps 0] eq by simp
  moreover have "\<forall>sub. map_of found sub =
      (if sub \<in> set subs \<and> sub \<noteq> '''' then Some (existing h sub comps) else None)"
    using scan_subs_map_of [of h subs comps "[]" 0] eq by simp
  ultimately show ?thesis using eq some by blast
qed

text \<open>C7: checkInput exits with status 32 exactly when no non-empty subject has any existing candidate file, and touches no file.\<close>

theorem check_input_exit:
  "check_input h subs comps st = (Inl r, st') \<longleftrightarrow>
   r = SysExit 32 \<and> st' = st \<and> (\<forall>sub \<in> set subs. sub \<noteq> '''' \<longrightarrow> existing h sub comps = [])"
  by (auto simp: check_input_eq)

lemma py_rstrip_chars_no_nl: "nl \<notin> set l \<Longrightarrow> py_rstrip_chars [nl] l = l"
  by (induction l rule: rev_induct) (auto simp: py_rstrip_chars_def)

text \<open>C8: readInput of a file whose lines each end with a newline and carry no trailing whitespace returns exactly those lines, and writes nothing.\<close>

theorem read_input_roundtrip:
  "file_text h p = Some (concat (map (\<lambda>l. l @ [nl]) ls)) \<Longrightarrow>
   \<forall>l \<in> set ls. nl \<notin> set l \<and> (l = [] \<or> \<not> py_isspace (last l)) \<Longrightarrow>
   read_input h p st = (Inr ls, st)"
proof -
  assume ftext: "file_text h p = Some (concat (map (\<lambda>l. l @ [nl]) ls))"
    and ok: "\<forall>l \<in> set ls. nl \<notin> set l \<and> (l = [] \<or> \<not> py_isspace (last l))"
  have lines: "py_lines (concat (map (\<lambda>l. l @ [nl]) ls)) = map (\<lambda>l. l @ [nl]) ls"
    using ok by (simp add: py_lines_concat)
  have "map (\<lambda>line. py_rstrip (py_rstrip_chars [nl] line)) (map (\<lambda>l. l @ [nl]) ls) = ls"
    using ok by (induction ls)
      (simp_all add: py_rstrip_chars_nl py_rstrip_chars_no_nl py_rstrip_no_trailing_space)
  with ftext lines show ?thesis by (simp add: read_input_def)
qed

lemma loaded_Cons [simp]:
  "loaded h (p # ps) =
     (if p = '''' then [] else (case load_data (image_at h) p of Inl _ \<Rightarrow> [] | Inr d \<Rightarrow> [d]))
     @ loaded h ps"
  by (simp add: loaded_def)

lemma loaded_Nil [simp]: "loaded h [] = []"
  by (simp add: loaded_def)

lemma loads_iff: "loads h p \<longleftrightarrow> p = [] \<or> (\<exists>d. load_data (image_at h) p = Inr d)"
  by (auto simp: loads_def split: sum.splits)

lemma process_images_Inr:
  "process_images h imgs s = Inr s' \<Longrightarrow>
   s' = s\<lparr>components := components s @ loaded h imgs\<rparr> \<and> list_all (loads h) imgs"
proof (induction imgs arbitrary: s)
  case Nil
  then show ?case by simp
next
  case (Cons p ps)
  show ?case
  proof (cases "p = []")
    case True
    with Cons show ?thesis by (simp add: loads_iff)
  next
    case False
    show ?thesis
    proof (cases "load_data (image_at h) p")
      case (Inl e)
      with False Cons.prems show ?thesis by simp
    next
      case (Inr d)
      with False Cons.prems have "process_images h ps (add_comp d s) = Inr s'" by simp
      from Cons.IH [OF this] Inr False show ?thesis by (simp add: add_comp_def loads_iff)
    qed
  qed
qed

lemma process_images_Inl:
  "process_images h imgs s = Inl res \<Longrightarrow> res = SysExit 0 \<and> \<not> list_all (loads h) imgs"
proof (induction imgs arbitrary: s)
  case Nil
  then show ?case by simp
next
  case (Cons p ps)
  show ?case
  proof (cases "p = []")
    case True
    with Cons show ?thesis by (simp add: loads_iff)
  next
    case False
    show ?thesis
    proof (cases "load_data (image_at h) p")
      case (Inl e)
      with False Cons.prems show ?thesis by (simp add: loads_iff)
    next
      case (Inr d)
      with False Cons.prems have "process_images h ps (add_comp d s) = Inl res" by simp
      from Cons.IH [OF this] show ?thesis by simp
    qed
  qed
qed

lemma process_images_fail:
  "\<not> list_all (loads h) imgs \<Longrightarrow> process_images h imgs s = Inl (SysExit 0)"
  by (cases "process_images h imgs s") (auto dest: process_images_Inr process_images_Inl)

lemma process_images_ok:
  "list_all (loads h) imgs \<Longrightarrow>
   process_images h imgs s = Inr (s\<lparr>components := components s @ loaded h imgs\<rparr>)"
  by (cases "process_images h imgs s") (auto dest: process_images_Inr process_images_Inl)

lemma names_loaded: "name ` set (loaded h imgs) = set (filter (\<lambda>p. p \<noteq> '''') imgs)"
  if "list_all (loads h) imgs"
  using that
  by (induction imgs) (auto simp: loads_iff load_data_name)

lemma result_lines_Cons [simp]:
  "result_lines h ((i, sc) # items) = i @ [tab] @ show_score h sc @ [nl] @ result_lines h items"
  by (simp add: result_lines_def)

lemma write_results_ok:
  "res_fullpath r = Some p \<Longrightarrow> writable h p \<Longrightarrow> st p = Some c \<Longrightarrow>
   write_results h r items st = (Inr (), st(p \<mapsto> c @ result_lines h items))"
proof (induction items arbitrary: c st)
  case Nil
  then show ?case by (simp add: io_return_def result_lines_def fun_upd_idem)
next
  case (Cons it items)
  obtain i sc where it: "it = (i, sc)" by (cases it)
  let ?st1 = "st(p \<mapsto> c @ i @ [tab] @ show_score h sc @ [nl])"
  have "add_result h r (i @ [tab] @ show_score h sc) st = (Inr (), ?st1)"
    using Cons.prems by (simp add: add_result_ok)
  moreover have "write_results h r items ?st1 =
      (Inr (), ?st1(p \<mapsto> (c @ i @ [tab] @ show_score h sc @ [nl]) @ result_lines h items))"
    using Cons.prems by (intro Cons.IH) simp_all
  ultimately show ?case
    using it by (simp add: io_bind_apply fun_eq_iff)
qed

lemma process_subject_ok:
  assumes "res_fullpath r = Some p" and "writable h p" and "st p = Some c"
    and "indexes s = Some idx" and "components s = []" and "list_all (loads h) imgs"
  shows "process_subject h r sub imgs s st = (Inr s, st(p \<mapsto> c @ subject_report h idx imgs))"
proof (cases "loaded h imgs = []")
  case True
  with assms show ?thesis
    by (simp add: process_subject_def process_images_ok subject_report_def io_return_def fun_upd_idem)
next
  case False
  let ?s' = "s\<lparr>components := loaded h imgs\<rparr>"
  have "match_overlap_matrix ?s' = Inr (score_dict idx (loaded h imgs))"
    using assms by (simp add: match_overlap_matrix_def)
  moreover have "reset ?s' = s"
    using assms by (simp add: reset_def)
  ultimately show ?thesis
    using False assms
    by (simp add: process_subject_def process_images_ok subject_report_def io_bind_apply
        write_results_ok io_return_def)
qed

lemma process_subject_session:
  "process_subject h r sub imgs s st = (Inr s', st') \<Longrightarrow> components s = [] \<Longrightarrow> s' = s"
  by (auto simp: process_subject_def io_bind_apply io_return_def io_stop_def reset_def
      split: sum.splits if_splits prod.splits dest!: process_images_Inr)

lemma run_subjects_ok:
  assumes "res_fullpath r = Some p" and "writable h p" and "st p = Some c"
    and "indexes s = Some idx" and "components s = []"
    and "\<forall>(sub, imgs) \<in> set subs. list_all (loads h) imgs"
  shows "run_subjects h r subs s st =
           (Inr s, st(p \<mapsto> c @ concat (map (\<lambda>(sub, imgs). subject_report h idx imgs) subs)))"
  using assms(3,6)
proof (induction subs arbitrary: c st)
  case Nil
  then show ?case by (simp add: io_return_def fun_upd_idem)
next
  case (Cons si subs)
  obtain sub imgs where si: "si = (sub, imgs)" by (cases si)
  let ?st1 = "st(p \<mapsto> c @ subject_report h idx imgs)"
  have one: "process_subject h r sub imgs s st = (Inr s, ?st1)"
    using assms(1,2,4,5) Cons.prems si by (simp add: process_subject_ok)
  have rest: "run_subjects h r subs s ?st1 =
      (Inr s, ?st1(p \<mapsto> (c @ subject_report h idx imgs) @
         concat (map (\<lambda>(sub, imgs). subject_report h idx imgs) subs)))"
    using Cons.prems by (intro Cons.IH) auto
  show ?case
    using one rest si by (simp add: io_bind_apply fun_eq_iff)
qed

text \<open>C2: when every candidate of every subject loads and the report file is writable, the subject loop leaves the session as it found it and appends, subject after subject in iteration order, exactly the lines each subject yields from its own candidates.\<close>

theorem run_subjects_report:
  assumes "res_fullpath r = Some p" and "writable h p" and "st p = Some c"
    and "indexes s = Some idx" and "components s = []"
    and "\<forall>(sub, imgs) \<in> set subs. list_all (loads h) imgs"
  shows "run_subjects h r subs s st =
           (Inr s, st(p \<mapsto> c @ concat (map (\<lambda>(sub, imgs). subject_report h idx imgs) subs)))"
  using assms by (rule run_subjects_ok)

text \<open>C3: the subject loop over one long-lived session that is reset after each subject behaves exactly like processing every subject from a fresh copy of the initial session (the design of spec section 9), on every input, failures included.\<close>

theorem run_subjects_fresh:
  "components s = [] \<Longrightarrow> run_subjects h r subs s = io_bind (run_fresh h r s subs) (\<lambda>_. io_return s)"
proof (induction subs)
  case Nil
  then show ?case by simp
next
  case (Cons si subs)
  obtain sub imgs where si: "si = (sub, imgs)" by (cases si)
  show ?case
  proof (rule ext)
    fix st
    show "run_subjects h r (si # subs) s st = io_bind (run_fresh h r s (si # subs)) (\<lambda>_. io_return s) st"
    proof (cases "process_subject h r sub imgs s st")
      case (Pair res st')
      show ?thesis
      proof (cases res)
        case (Inl o)
        with Pair si show ?thesis by (simp add: io_bind_apply)
      next
        case (Inr s')
        with Pair Cons.prems have "s' = s" by (simp add: process_subject_session)
        with Inr Pair si Cons show ?thesis by (simp add: io_bind_apply)
      qed
    qed
  qed
qed

text \<open>C11: calling reset only when the subject had candidates (as the code does) is equivalent to resetting on every path (as the specification requires), for a session that starts the subject empty.\<close>

theorem process_subject_reset_equiv:
  "components s = [] \<Longrightarrow> process_subject h r sub imgs s = process_subject_always_reset h r sub imgs s"
  by (auto simp: process_subject_def process_subject_always_reset_def reset_def
      split: sum.splits dest!: process_images_Inr)

lemma local_var_Some [simp]: "local_var x (Some a) st = (Inr a, st)"
  by (simp add: local_var_def)

lemma local_var_None [simp]: "local_var x None st = (Inl (Raised (UnboundLocalError x)), st)"
  by (simp add: local_var_def)

lemma load_template_ok: "load_data (image_at h) p = Inr d \<Longrightarrow> load_template h p st = (Inr d, st)"
  by (simp add: load_template_def)

text \<open>C1: when every earlier step of main succeeds (options given, both lists readable, at least one candidate file found, template loadable, report writable), main ends with exit status 0 and an empty report: writeHeader is passed a list, the list-plus-string concatenation raises TypeError inside its try, and no subject is ever scored.\<close>

theorem main_header_exit:
  assumes opts: "collect_opts os unbound_vars = Inr v"
    and vars: "v_sublist v = Some sl" "v_input2 v = Some il" "v_input1 v = Some tp"
      "v_output v = Some out"
    and reads: "read_input h sl st = (Inr subs, st)" "read_input h il st = (Inr comps, st)"
    and some: "\<exists>sub \<in> set subs. sub \<noteq> '''' \<and> existing h sub comps \<noteq> []"
    and tmpl: "load_data (image_at h) tp = Inr t"
    and path: "res_fullpath (new_pymatchres (if out = '''' then cwd h else out) tp) = Some p"
    and wr: "writable h p"
  shows "main h (Some os) st = (Inl (SysExit 0), st(p \<mapsto> ''''))"
proof -
  obtain found where fd: "check_input h subs comps st = (Inr found, st)"
    using check_input_ok [OF some] by blast
  have nm: "name t = tp" using tmpl by (rule load_data_name)
  show ?thesis
    using opts vars reads fd tmpl path wr nm
    by (simp add: main_def io_bind_apply load_template_ok write_header_list Let_def)
qed

lemma process_subject_Inr_loads:
  "process_subject h r sub imgs s st = (Inr s', st') \<Longrightarrow> list_all (loads h) imgs"
  by (auto simp: process_subject_def io_stop_def split: sum.splits dest: process_images_Inr)

text \<open>C4: a subject processed after a reset writes lines keyed by exactly its own non-empty candidate paths, and hands an empty candidate list to the next subject: no candidate leaks across subjects.\<close>

theorem process_subject_no_leak:
  assumes run: "process_subject h r sub imgs s st = (Inr s', st')"
    and empty: "components s = []" and idx: "indexes s = Some idx"
    and out: "res_fullpath r = Some p" "writable h p" "st p = Some c"
    and ok: "host_ok h"
  shows "s' = s \<and>
    (\<exists>items. st' = st(p \<mapsto> c @ result_lines h items) \<and>
       fst ` set items = set (filter (\<lambda>q. q \<noteq> '''') imgs))"
proof -
  have loads: "list_all (loads h) imgs"
    using run by (rule process_subject_Inr_loads)
  have eq: "(Inr s', st') = (Inr s, st(p \<mapsto> c @ subject_report h idx imgs))"
    using run process_subject_ok [where st = st and p = p and c = c, OF out idx empty loads]
    by simp
  let ?items = "if loaded h imgs = [] then [] else score_order h (score_dict idx (loaded h imgs))"
  have "subject_report h idx imgs = result_lines h ?items"
    by (simp add: subject_report_def result_lines_def)
  moreover have "fst ` set ?items = set (filter (\<lambda>q. q \<noteq> '''') imgs)"
  proof -
    have "set (score_order h (score_dict idx (loaded h imgs))) = set (score_dict idx (loaded h imgs))"
      using host_ok_score_order [OF ok] by (metis set_mset_mset)
    then show ?thesis
      using names_loaded [OF loads] keys_score_dict [of idx "loaded h imgs"] by auto
  qed
  moreover from eq have "s' = s" and "st' = st(p \<mapsto> c @ subject_report h idx imgs)"
    by simp_all
  ultimately show ?thesis
    by (intro conjI exI [where x = ?items]) simp_all
qed

text \<open>C9: scoring the template against its own index set (the template itself given as a candidate) writes the sum of the template values greater than 0.\<close>

theorem process_subject_self_match:
  assumes tmpl: "load_data (image_at h) tp = Inr t" "tp \<noteq> ''''" "affine_ok (aff t)"
    and out: "res_fullpath r = Some p" "writable h p" "st p = Some c"
    and sess: "components s = []" "indexes s = Some (select_indices (Crit Gt 0) t)"
    and ok: "host_ok h"
  shows "process_subject h r sub [tp] s st =
    (Inr s, st(p \<mapsto> c @ tp @ [tab] @
       show_score h (sum_list (map (voxel (vol t)) (select_vox (Crit Gt 0) (vol t)))) @ [nl]))"
proof -
  have loads: "list_all (loads h) [tp]" and ld: "loaded h [tp] = [t]"
    using tmpl by (simp_all add: loads_iff)
  have nm: "name t = tp" using tmpl(1) by (rule load_data_name)
  let ?v = "sum_list (map (voxel (vol t)) (select_vox (Crit Gt 0) (vol t)))"
  have sd: "score_dict (select_indices (Crit Gt 0) t) [t] = [(tp, ?v)]"
    using score_self_pos [OF tmpl(3)] nm by (simp add: score_dict_def)
  have "score_order h [(tp, ?v)] = [(tp, ?v)]"
    using host_ok_score_order [OF ok, of "[(tp, ?v)]"] by simp
  then have "subject_report h (select_indices (Crit Gt 0) t) [tp] = tp @ [tab] @ show_score h ?v @ [nl]"
    using ld sd by (simp add: subject_report_def result_lines_def)
  with process_subject_ok [where st = st and p = p and c = c, OF out sess(2) sess(1) loads]
  show ?thesis by simp
qed

lemma run_subjects_append:
  "run_subjects h r (xs @ ys) = (\<lambda>s. io_bind (run_subjects h r xs s) (run_subjects h r ys))"
proof (induction xs)
  case Nil
  then show ?case by (simp add: fun_eq_iff)
next
  case (Cons x xs)
  then show ?case
    by (cases x) (simp add: io_bind_assoc)
qed

text \<open>C10: a candidate that fails to load ends the run with exit status 0 (not a failure status), after the lines of every earlier subject have been appended to the report.\<close>

theorem run_subjects_candidate_fail:
  assumes out: "res_fullpath r = Some p" "writable h p" "st p = Some c"
    and sess: "indexes s = Some idx" "components s = []"
    and pre: "\<forall>(sub, imgs) \<in> set pre. list_all (loads h) imgs"
    and bad: "\<not> list_all (loads h) imgs"
  shows "run_subjects h r (pre @ (sub, imgs) # post) s st =
           (Inl (SysExit 0), st(p \<mapsto> c @ concat (map (\<lambda>(sub, imgs). subject_report h idx imgs) pre)))"
proof -
  let ?st1 = "st(p \<mapsto> c @ concat (map (\<lambda>(sub, imgs). subject_report h idx imgs) pre))"
  have first: "run_subjects h r pre s st = (Inr s, ?st1)"
    using out sess pre by (rule run_subjects_ok)
  have "process_images h imgs s = Inl (SysExit 0)"
    using bad by (rule process_images_fail)
  then have "process_subject h r sub imgs s ?st1 = (Inl (SysExit 0), ?st1)"
    by (simp add: process_subject_def io_stop_def)
  with first show ?thesis
    by (simp add: run_subjects_append io_bind_apply)
qed

text \<open>C5: the matching phase of main runs the subject loop from a session whose index set is the template voxels with value greater than 0, in lexicographic voxel order, mapped to millimetres through the template affine.\<close>

theorem run_matching_index_set:
  "run_matching h r t found =
     io_bind (run_subjects h r (sub_order h found)
       (fresh_session t (Crit Gt 0)
          (map (mm_of_vox (aff t)) (sorted_list_of_set (passing (Crit Gt 0) (vol t))))))
       (\<lambda>_. io_return ())"
  by (simp add: run_matching_def gen_index_mni_def set_index_crit_def new_session_def
      fresh_session_def select_indices_def select_vox_reference)

text \<open>C12: when no listed subject holds any listed candidate file, main exits with status 32 before it opens the template or any output file.\<close>

theorem main_no_candidates:
  assumes opts: "collect_opts os unbound_vars = Inr v"
    and vars: "v_sublist v = Some sl" "v_input2 v = Some il"
    and reads: "read_input h sl st = (Inr subs, st)" "read_input h il st = (Inr comps, st)"
    and none: "\<forall>sub \<in> set subs. sub \<noteq> '''' \<longrightarrow> existing h sub comps = []"
  shows "main h (Some os) st = (Inl (SysExit 32), st)"
  using opts vars reads none by (simp add: main_def io_bind_apply check_input_eq)

text \<open>C13: when the template has no usable volume, main stops with the Image Provider error before any output file is opened or any candidate is read.\<close>

theorem main_template_error:
  assumes opts: "collect_opts os unbound_vars = Inr v"
    and vars: "v_sublist v = Some sl" "v_input2 v = Some il" "v_input1 v = Some tp"
    and reads: "read_input h sl st = (Inr subs, st)" "read_input h il st = (Inr comps, st)"
    and some: "\<exists>sub \<in> set subs. sub \<noteq> '''' \<and> existing h sub comps \<noteq> []"
    and tmpl: "load_data (image_at h) tp = Inl e"
  shows "main h (Some os) st = (Inl (Raised (MRtoolsError e)), st)"
  using opts vars reads tmpl check_input_ok [OF some]
  by (simp add: main_def io_bind_apply load_template_def)

text \<open>C14: without an output option, main raises UnboundLocalError on output instead of defaulting to the working directory, before any file is written.\<close>

theorem main_missing_output:
  assumes opts: "collect_opts os unbound_vars = Inr v"
    and vars: "v_sublist v = Some sl" "v_input2 v = Some il" "v_input1 v = Some tp"
      "v_output v = None"
    and reads: "read_input h sl st = (Inr subs, st)" "read_input h il st = (Inr comps, st)"
    and some: "\<exists>sub \<in> set subs. sub \<noteq> '''' \<and> existing h sub comps \<noteq> []"
    and tmpl: "load_data (image_at h) tp = Inr t"
  shows "main h (Some os) st = (Inl (Raised (UnboundLocalError ''output'')), st)"
  using opts vars reads tmpl check_input_ok [OF some]
  by (simp add: main_def io_bind_apply load_template_ok)

lemma last_opt_Nil [simp]: "last_opt names [] d = d"
  by (simp add: last_opt_def)

lemma last_opt_Cons [simp]:
  "last_opt names ((opt, a) # os) d = last_opt names os (if opt \<in> set names then Some a else d)"
  by (simp add: last_opt_def split: list.splits)

lemma collect_opts_help:
  "list_ex (\<lambda>(opt, _). opt \<in> set [''-h'', ''--help'']) os \<Longrightarrow> collect_opts os v = Inl (SysExit 0)"
proof (induction os v rule: collect_opts.induct)
  case (2 opt arg opts v)
  show ?case
  proof (cases "opt \<in> set [''-h'', ''--help'']")
    case True
    then show ?thesis by (simp only: collect_opts.simps(2) if_P)
  next
    case False
    with "2.prems" have "list_ex (\<lambda>(opt, _). opt \<in> set [''-h'', ''--help'']) opts"
      by (simp only: list_ex_Cons_iff prod.case simp_thms)
    with False show ?thesis
      by (simp only: collect_opts.simps(2) if_False simp_thms "2.IH")
  qed
qed simp

text \<open>C18: the option loop exits with status 0 when any option is -h or --help; otherwise each of the four variables holds the argument of the last option that names it, and keeps its earlier value (unbound) when no option names it.\<close>

theorem collect_opts_last:
  "collect_opts os v =
     (if list_ex (\<lambda>(opt, _). opt \<in> set [''-h'', ''--help'']) os then Inl (SysExit 0)
      else Inr (v\<lparr>v_input1 := last_opt [''-t'', ''--template''] os (v_input1 v),
                 v_input2 := last_opt [''-i'', ''--images''] os (v_input2 v),
                 v_sublist := last_opt [''-s'', ''--subs''] os (v_sublist v),
                 v_output := last_opt [''-o'', ''--output''] os (v_output v)\<rparr>))"
proof (induction os v rule: collect_opts.induct)
  case (1 v)
  then show ?case by simp
next
  case (2 opt arg opts v)
  show ?case
  proof (cases "opt \<in> set [''-h'', ''--help'']")
    case True
    then show ?thesis by simp
  next
    case False
    let ?v' = "v\<lparr>v_input1 := if opt \<in> set [''-t'', ''--template''] then Some arg else v_input1 v,
                 v_input2 := if opt \<in> set [''-i'', ''--images''] then Some arg else v_input2 v,
                 v_sublist := if opt \<in> set [''-s'', ''--subs''] then Some arg else v_sublist v,
                 v_output := if opt \<in> set [''-o'', ''--output''] then Some arg else v_output v\<rparr>"
    have step: "collect_opts ((opt, arg) # opts) v = collect_opts opts ?v'"
      by (simp only: collect_opts.simps(2) if_not_P [OF False])
    have lx: "list_ex (\<lambda>(opt, _). opt \<in> set [''-h'', ''--help'']) ((opt, arg) # opts) =
        list_ex (\<lambda>(opt, _). opt \<in> set [''-h'', ''--help'']) opts"
      using False by (simp only: list_ex_Cons_iff prod.case simp_thms)
    have "?v'\<lparr>v_input1 := last_opt [''-t'', ''--template''] opts (v_input1 ?v'),
               v_input2 := last_opt [''-i'', ''--images''] opts (v_input2 ?v'),
               v_sublist := last_opt [''-s'', ''--subs''] opts (v_sublist ?v'),
               v_output := last_opt [''-o'', ''--output''] opts (v_output ?v')\<rparr> =
          v\<lparr>v_input1 := last_opt [''-t'', ''--template''] ((opt, arg) # opts) (v_input1 v),
            v_input2 := last_opt [''-i'', ''--images''] ((opt, arg) # opts) (v_input2 v),
            v_sublist := last_opt [''-s'', ''--subs''] ((opt, arg) # opts) (v_sublist v),
            v_output := last_opt [''-o'', ''--output''] ((opt, arg) # opts) (v_output v)\<rparr>"
      by (simp del: list.set split del: if_split)
    with step lx 2 [OF False] show ?thesis by (simp only:)
  qed
qed

text \<open>C19: main exits with status 2 when getopt rejects the command line, and with status 0 when the options ask for help, in both cases before any file is read or written.\<close>

theorem main_early_exit:
  "main h None st = (Inl (SysExit 2), st) \<and>
   (list_ex (\<lambda>(opt, _). opt \<in> set [''-h'', ''--help'']) os \<longrightarrow> main h (Some os) st = (Inl (SysExit 0), st))"
proof (intro conjI impI)
  show "main h None st = (Inl (SysExit 2), st)"
    by (simp only: main_def option.case io_stop_def)
next
  assume "list_ex (\<lambda>(opt, _). opt \<in> set [''-h'', ''--help'']) os"
  then have "collect_opts os unbound_vars = Inl (SysExit 0)" by (rule collect_opts_help)
  then show "main h (Some os) st = (Inl (SysExit 0), st)"
    by (simp only: main_def option.case sum.case io_stop_def)
qed

lemma subject_report_single:
  assumes img: "load_data (image_at h) i = Inr d" and ne: "i \<noteq> ''''" and ok: "host_ok h"
  shows "subject_report h idx [i] = i @ [tab] @ show_score h (score Absolute idx d) @ [nl]"
proof -
  have ld: "loaded h [i] = [d]" using img ne by simp
  have nm: "name d = i" using img by (rule load_data_name)
  have "mset (score_order h [(i, score Absolute idx d)]) = {#(i, score Absolute idx d)#}"
    using host_ok_score_order [OF ok] by simp
  then have "score_order h [(i, score Absolute idx d)] = [(i, score Absolute idx d)]"
    by (simp add: mset_single_iff)
  with ld nm show ?thesis
    by (simp add: subject_report_def score_dict_def result_lines_def)
qed

text \<open>C20: checkInput joins subject and candidate name with a slash and nothing else, so one file can belong to two subjects: with subjects a and a/b and candidate names b/c and c, when a/b/c is the only one of the four joined paths that exists, it is listed under both subjects, and the subject loop scores it and appends its line to the report twice.\<close>

theorem check_input_path_collision:
  assumes files: "isfile h ''a/b/c''" "\<not> isfile h ''a/c''" "\<not> isfile h ''a/b/b/c''"
    and img: "load_data (image_at h) ''a/b/c'' = Inr d" and ok: "host_ok h"
    and out: "res_fullpath r = Some p" "writable h p" "st p = Some c"
    and sess: "indexes s = Some idx" "components s = []"
  shows "\<exists>found. check_input h [''a'', ''a/b''] [''b/c'', ''c''] st = (Inr found, st) \<and>
    run_subjects h r (sub_order h found) s st =
      (Inr s, st(p \<mapsto> c @ (''a/b/c'' @ [tab] @ show_score h (score Absolute idx d) @ [nl])
                       @ (''a/b/c'' @ [tab] @ show_score h (score Absolute idx d) @ [nl])))"
proof -
  let ?l = "''a/b/c'' @ [tab] @ show_score h (score Absolute idx d) @ [nl]"
  let ?found = "[(''a'', [''a/b/c'']), (''a/b'', [''a/b/c''])]"
  have ea: "existing h ''a'' [''b/c'', ''c''] = [''a/b/c'']"
    using files by (simp add: existing_def)
  have eb: "existing h ''a/b'' [''b/c'', ''c''] = [''a/b/c'']"
    using files by (simp add: existing_def)
  have ci: "check_input h [''a'', ''a/b''] [''b/c'', ''c''] st = (Inr ?found, st)"
    using ea eb by (simp add: check_input_eq scan_comps_eq)
  have perm: "mset (sub_order h ?found) = mset ?found"
    using host_ok_sub_order [OF ok] .
  have "length (sub_order h ?found) = length ?found"
    using perm by (metis size_mset)
  then have len: "length (sub_order h ?found) = 2" by simp
  have "set (sub_order h ?found) = set ?found"
    using perm by (metis set_mset_mset)
  then have imgs: "\<forall>(sub, imgs) \<in> set (sub_order h ?found). imgs = [''a/b/c'']"
    by auto
  have ld: "list_all (loads h) [''a/b/c'']"
    using img by (simp add: loads_def)
  have rep: "subject_report h idx [''a/b/c''] = ?l"
    by (rule subject_report_single [OF img _ ok]) simp
  have "map (\<lambda>(sub, imgs). subject_report h idx imgs) (sub_order h ?found) = [?l, ?l]"
  proof -
    have "map (\<lambda>(sub, imgs). subject_report h idx imgs) (sub_order h ?found) =
        map (\<lambda>_. ?l) (sub_order h ?found)"
      using imgs rep by (auto intro: map_cong)
    with len show ?thesis by (simp add: map_replicate_const numeral_2_eq_2)
  qed
  moreover have "run_subjects h r (sub_order h ?found) s st =
      (Inr s, st(p \<mapsto> c @ concat (map (\<lambda>(sub, imgs). subject_report h idx imgs) (sub_order h ?found))))"
    using out sess imgs ld by (intro run_subjects_ok) auto
  ultimately show ?thesis using ci by simp
qed

lemma filter_name_loaded:
  "filter (\<lambda>d. name d = i) (loaded h imgs) =
     (if i = '''' then []
      else (case load_data (image_at h) i of Inl _ \<Rightarrow> [] | Inr d \<Rightarrow> replicate (count_list imgs i) d))"
  by (induction imgs) (auto simp: load_data_name split: sum.splits)

lemma mem_score_dict:
  "(i, sc) \<in> set (score_dict idx ds) \<longleftrightarrow>
     (case filter (\<lambda>d. name d = i) (rev ds) of [] \<Rightarrow> False | d # _ \<Rightarrow> sc = score Absolute idx d)"
proof -
  have "(i, sc) \<in> set (score_dict idx ds) \<longleftrightarrow> map_of (score_dict idx ds) i = Some sc"
    using distinct_score_dict [of idx ds] by simp
  also have "\<dots> \<longleftrightarrow> (case filter (\<lambda>d. name d = i) (rev ds) of [] \<Rightarrow> False | d # _ \<Rightarrow> sc = score Absolute idx d)"
    by (auto simp: map_of_score_dict split: list.splits)
  finally show ?thesis .
qed

lemma mem_loaded:
  "i \<in> set imgs \<Longrightarrow> i \<noteq> '''' \<Longrightarrow> load_data (image_at h) i = Inr d \<Longrightarrow> d \<in> set (loaded h imgs)"
  by (induction imgs) auto

lemma mem_score_dict_loaded:
  "(i, sc) \<in> set (score_dict idx (loaded h imgs)) \<longleftrightarrow>
     i \<in> set imgs \<and> i \<noteq> '''' \<and> (\<exists>d. load_data (image_at h) i = Inr d \<and> sc = score Absolute idx d)"
proof -
  have f: "filter (\<lambda>d. name d = i) (rev (loaded h imgs)) =
     (if i = '''' then []
      else (case load_data (image_at h) i of Inl _ \<Rightarrow> [] | Inr d \<Rightarrow> replicate (count_list imgs i) d))"
    by (simp add: rev_filter [symmetric] filter_name_loaded split: sum.split)
  show ?thesis
    by (simp add: mem_score_dict f case_replicate count_list_0_iff split: sum.split)
qed

text \<open>C16: a subject processed from an empty session writes one line per distinct non-empty candidate path it lists, holding the absolute score of the image at that path; a path listed twice is written once.\<close>

theorem process_subject_one_line_per_path:
  assumes run: "process_subject h r sub imgs s st = (Inr s', st')"
    and empty: "components s = []" and idx: "indexes s = Some idx"
    and out: "res_fullpath r = Some p" "writable h p" "st p = Some c"
    and ok: "host_ok h"
  shows "\<exists>items. st' = st(p \<mapsto> c @ result_lines h items) \<and> distinct (map fst items) \<and>
    (\<forall>i sc. (i, sc) \<in> set items \<longleftrightarrow>
       i \<in> set imgs \<and> i \<noteq> '''' \<and> (\<exists>d. load_data (image_at h) i = Inr d \<and> sc = score Absolute idx d))"
proof -
  have loads: "list_all (loads h) imgs"
    using run by (rule process_subject_Inr_loads)
  have st': "st' = st(p \<mapsto> c @ subject_report h idx imgs)"
    using run process_subject_ok [where st = st and p = p and c = c, OF out idx empty loads]
    by simp
  let ?d = "score_dict idx (loaded h imgs)"
  let ?items = "if loaded h imgs = [] then [] else score_order h ?d"
  have perm: "mset (score_order h ?d) = mset ?d"
    using host_ok_score_order [OF ok] .
  have rep: "subject_report h idx imgs = result_lines h ?items"
    by (simp add: subject_report_def result_lines_def)
  have "distinct (map fst (score_order h ?d))"
    using mset_eq_imp_distinct_iff [of "map fst (score_order h ?d)" "map fst ?d"] perm
      distinct_score_dict [of idx "loaded h imgs"] by (simp add: mset_map)
  then have dist: "distinct (map fst ?items)" by simp
  have "set (score_order h ?d) = set ?d"
    using perm by (metis set_mset_mset)
  then have mem: "(i, sc) \<in> set ?items \<longleftrightarrow>
      i \<in> set imgs \<and> i \<noteq> '''' \<and> (\<exists>d. load_data (image_at h) i = Inr d \<and> sc = score Absolute idx d)"
    for i sc
    using mem_loaded [of i imgs h] by (auto simp: mem_score_dict_loaded)
  show ?thesis
    using st' rep dist mem by (intro exI [where x = ?items]) simp
qed
end
