(* ===== verification/Getopt.thy ===== *)
theory Getopt
  imports Prelude "HOL-Library.While_Combinator" "HOL-Library.Sublist"
begin

text \<open>
  Command-line parsing: \<open>getopt.getopt(args, shortopts, longopts)\<close> of the
  Python 2.7 standard library, which \<open>main\<close> calls at src/pyMatch.py line 142
  with \<open>"ht:s:i:o:"\<close> and \<open>["help", "template=", "subs=", "images=", "output="]\<close>.
  Each definition follows the function of \<open>Lib/getopt.py\<close> with the same name:
  \<open>short_has_arg\<close>, \<open>do_shorts\<close>, \<open>long_has_args\<close>, \<open>do_longs\<close>, and the
  \<open>while\<close> loop of \<open>getopt\<close> itself, kept as a loop (\<open>while_option\<close>) over its
  state: the options found so far, the arguments left, whether \<open>--\<close> broke the
  loop, and the \<open>GetoptError\<close> raised, if any. The lemmas show that the loop
  always stops (a measure that every iteration decreases), that with pyMatch's
  option specification it only ever yields pyMatch's option names and a suffix
  of the command line (an invariant of the loop, by \<open>while_option_rule\<close>),
  and that rendering a list of pyMatch options on a command line and parsing it
  gives the list back.
\<close>

section \<open>Definitions\<close>

text \<open>The four messages of \<open>GetoptError\<close>, with the option they name.\<close>

datatype getopt_error =
    OptNotRecognized string
  | OptRequiresArg string
  | OptMustNotHaveArg string
  | OptNotUniquePrefix string

type_synonym opt_list = "(string \<times> string) list"

text \<open>
  \<open>short_has_arg(opt, shortopts)\<close>: whether the option letter takes an argument
  (it is followed by a colon in \<open>shortopts\<close>); \<open>None\<close> raises "not recognized".
\<close>

fun short_has_arg :: "char \<Rightarrow> char list \<Rightarrow> bool option" where
  "short_has_arg c [] = None"
| "short_has_arg c (x # rest) =
     (if c = x \<and> x \<noteq> CHR '':'' then Some (take 1 rest = '':'') else short_has_arg c rest)"

text \<open>
  \<open>do_shorts(opts, optstring, shortopts, args)\<close>: the letters of one \<open>-xyz\<close>
  argument. A letter that takes an argument takes the rest of the string, or the
  next argument when the string is used up.
\<close>

fun do_shorts ::
  "opt_list \<Rightarrow> string \<Rightarrow> char list \<Rightarrow> string list \<Rightarrow> getopt_error + (opt_list \<times> string list)" where
  "do_shorts opts [] shortopts args = Inr (opts, args)"
| "do_shorts opts (c # cs) shortopts args =
     (case short_has_arg c shortopts of
        None \<Rightarrow> Inl (OptNotRecognized [c])
      | Some True \<Rightarrow>
          (if cs = [] then
             (case args of
                [] \<Rightarrow> Inl (OptRequiresArg [c])
              | a # as \<Rightarrow> Inr (opts @ [([CHR ''-'', c], a)], as))
           else Inr (opts @ [([CHR ''-'', c], cs)], args))
      | Some False \<Rightarrow> do_shorts (opts @ [([CHR ''-'', c], [])]) cs shortopts args)"

text \<open>
  \<open>long_has_args(opt, longopts)\<close>: the long options that \<open>opt\<close> is a prefix of;
  an exact match wins, otherwise the prefix must be unique. The result is whether
  the option takes an argument and its full name.
\<close>

definition long_has_args :: "string \<Rightarrow> string list \<Rightarrow> getopt_error + (bool \<times> string)" where
  "long_has_args opt longopts =
     (let possibilities = filter (\<lambda>l. take (length opt) l = opt) longopts
      in if possibilities = [] then Inl (OptNotRecognized opt)
         else if opt \<in> set possibilities then Inr (False, opt)
         else if opt @ ''='' \<in> set possibilities then Inr (True, opt)
         else if 1 < length possibilities then Inl (OptNotUniquePrefix opt)
         else (let u = hd possibilities
               in if u \<noteq> [] \<and> last u = CHR ''='' then Inr (True, butlast u) else Inr (False, u)))"

text \<open>\<open>opt.index('=')\<close> and the split around it: the name and, after the first \<open>=\<close>, the argument.\<close>

definition split_eq :: "string \<Rightarrow> string \<times> string option" where
  "split_eq s =
     (if CHR ''='' \<in> set s
      then (takeWhile (\<lambda>ch. ch \<noteq> CHR ''='') s, Some (tl (dropWhile (\<lambda>ch. ch \<noteq> CHR ''='') s)))
      else (s, None))"

text \<open>\<open>do_longs(opts, opt, longopts, args)\<close>: one \<open>--name[=value]\<close> argument.\<close>

definition do_longs ::
  "opt_list \<Rightarrow> string \<Rightarrow> string list \<Rightarrow> string list \<Rightarrow> getopt_error + (opt_list \<times> string list)" where
  "do_longs opts optstr longopts args =
     (case split_eq optstr of
        (opt, optarg) \<Rightarrow>
          (case long_has_args opt longopts of
             Inl e \<Rightarrow> Inl e
           | Inr (has_arg, name) \<Rightarrow>
               (if has_arg then
                  (case optarg of
                     None \<Rightarrow>
                       (case args of
                          [] \<Rightarrow> Inl (OptRequiresArg name)
                        | a # as \<Rightarrow> Inr (opts @ [(''--'' @ name, a)], as))
                   | Some v \<Rightarrow> Inr (opts @ [(''--'' @ name, v)], args))
                else
                  (case optarg of
                     None \<Rightarrow> Inr (opts @ [(''--'' @ name, [])], args)
                   | Some _ \<Rightarrow> Inl (OptMustNotHaveArg name)))))"

text \<open>The state of the loop of \<open>getopt\<close>.\<close>

record gstate =
  g_opts :: opt_list
  g_args :: "string list"
  g_break :: bool
  g_err :: "getopt_error option"

text \<open>\<open>while args and args[0].startswith('-') and args[0] != '-'\<close>, and no exception yet.\<close>

definition getopt_guard :: "gstate \<Rightarrow> bool" where
  "getopt_guard g =
     (g_err g = None \<and> \<not> g_break g \<and>
      (case g_args g of [] \<Rightarrow> False | a # _ \<Rightarrow> take 1 a = ''-'' \<and> a \<noteq> ''-''))"

text \<open>One iteration: \<open>--\<close> ends the options, \<open>--name\<close> goes to \<open>do_longs\<close>, \<open>-xyz\<close> to \<open>do_shorts\<close>.\<close>

definition getopt_body :: "char list \<Rightarrow> string list \<Rightarrow> gstate \<Rightarrow> gstate" where
  "getopt_body shortopts longopts g =
     (case g_args g of
        [] \<Rightarrow> g
      | a # rest \<Rightarrow>
          (if a = ''--'' then g\<lparr>g_args := rest, g_break := True\<rparr>
           else
             (case (if take 2 a = ''--'' then do_longs (g_opts g) (drop 2 a) longopts rest
                    else do_shorts (g_opts g) (drop 1 a) shortopts rest) of
                Inl e \<Rightarrow> g\<lparr>g_err := Some e\<rparr>
              | Inr (opts', args') \<Rightarrow> g\<lparr>g_opts := opts', g_args := args'\<rparr>)))"

definition getopt_start :: "string list \<Rightarrow> gstate" where
  "getopt_start args = \<lparr>g_opts = [], g_args = args, g_break = False, g_err = None\<rparr>"

definition getopt_result :: "gstate \<Rightarrow> getopt_error + (opt_list \<times> string list)" where
  "getopt_result g = (case g_err g of Some e \<Rightarrow> Inl e | None \<Rightarrow> Inr (g_opts g, g_args g))"

text \<open>
  \<open>getopt.getopt\<close>: \<open>GetoptError\<close> as \<open>Inl\<close>, otherwise the options and the
  arguments left over. The loop is a \<open>while_option\<close>, so not stopping would be
  \<open>None\<close>; \<open>getopt_terminates\<close> shows it always stops.
\<close>

definition getopt :: "string list \<Rightarrow> char list \<Rightarrow> string list \<Rightarrow> (getopt_error + (opt_list \<times> string list)) option" where
  "getopt args shortopts longopts =
     map_option getopt_result (while_option getopt_guard (getopt_body shortopts longopts) (getopt_start args))"

text \<open>The option specification of pyMatch (line 142).\<close>

definition pm_shortopts :: "char list" where
  "pm_shortopts = ''ht:s:i:o:''"

definition pm_longopts :: "string list" where
  "pm_longopts = [''help'', ''template='', ''subs='', ''images='', ''output='']"

text \<open>How a user writes one pyMatch option on the command line: \<open>-t value\<close> or \<open>--template=value\<close>.\<close>

definition render_opt :: "string \<times> string \<Rightarrow> string list" where
  "render_opt fv = (case fv of (f, v) \<Rightarrow> if take 2 f = ''--'' then [f @ ''='' @ v] else [f, v])"

definition pm_flags :: "string list" where
  "pm_flags = [''-t'', ''-s'', ''-i'', ''-o'', ''--template'', ''--subs'', ''--images'', ''--output'']"

text \<open>What each iteration of the loop decreases: two per argument left, one while it may still run.\<close>

definition gmeasure :: "gstate \<Rightarrow> nat" where
  "gmeasure g = 2 * length (g_args g) + (if g_err g = None \<and> \<not> g_break g then 1 else 0)"

text \<open>What the loop hands on: each option is a letter of \<open>shortopts\<close> or a long name (without \<open>=\<close>) of \<open>longopts\<close>, and the arguments left are a suffix of the command line.\<close>

definition valid_opt :: "char list \<Rightarrow> string list \<Rightarrow> string \<times> string \<Rightarrow> bool" where
  "valid_opt so lo fv \<longleftrightarrow>
     (\<exists>c \<in> set so. c \<noteq> CHR '':'' \<and> fst fv = [CHR ''-'', c]) \<or>
     (\<exists>name. CHR ''='' \<notin> set name \<and> (name \<in> set lo \<or> name @ ''='' \<in> set lo) \<and> fst fv = ''--'' @ name)"

definition getopt_inv :: "char list \<Rightarrow> string list \<Rightarrow> string list \<Rightarrow> gstate \<Rightarrow> bool" where
  "getopt_inv so lo args g \<longleftrightarrow> list_all (valid_opt so lo) (g_opts g) \<and> suffix (g_args g) args"

text \<open>The option names pyMatch's loop of lines 149-160 can receive.\<close>

definition pm_option_names :: "string list" where
  "pm_option_names = [''-h'', ''-t'', ''-s'', ''-i'', ''-o'', ''--help'', ''--template'', ''--subs'', ''--images'', ''--output'']"

section \<open>Lemmas\<close>

lemma do_shorts_args:
  "do_shorts opts s so args = Inr (opts', args') \<Longrightarrow> length args' \<le> length args"
  by (induction opts s so args rule: do_shorts.induct)
     (auto split: option.splits bool.splits if_splits list.splits)

lemma do_longs_args:
  "do_longs opts s lo args = Inr (opts', args') \<Longrightarrow> length args' \<le> length args"
  by (auto simp: do_longs_def split: prod.splits sum.splits if_splits option.splits list.splits)

lemma getopt_body_measure:
  "getopt_guard g \<Longrightarrow> gmeasure (getopt_body so lo g) < gmeasure g"
proof -
  assume gd: "getopt_guard g"
  then obtain a rest where args: "g_args g = a # rest" and ok: "g_err g = None" "\<not> g_break g"
    by (auto simp: getopt_guard_def split: list.splits)
  show ?thesis
  proof (cases "a = ''--''")
    case True
    then show ?thesis using args ok by (simp add: getopt_body_def gmeasure_def)
  next
    case False
    let ?r = "if take 2 a = ''--'' then do_longs (g_opts g) (drop 2 a) lo rest
              else do_shorts (g_opts g) (drop 1 a) so rest"
    have "\<And>o' a'. ?r = Inr (o', a') \<Longrightarrow> length a' \<le> length rest"
      by (auto split: if_splits dest: do_shorts_args do_longs_args)
    then show ?thesis using args ok False
      by (auto simp: getopt_body_def gmeasure_def split: sum.splits)
  qed
qed

text \<open>The loop stops on every argument list and option specification.\<close>

lemma getopt_terminates: "\<exists>r. getopt args so lo = Some r"
proof -
  have "\<exists>t. while_option getopt_guard (getopt_body so lo) (getopt_start args) = Some t"
    by (rule measure_while_option_Some [where P = "\<lambda>_. True" and f = gmeasure])
       (simp_all add: getopt_body_measure)
  then show ?thesis by (auto simp: getopt_def)
qed

lemma split_eq_name: "CHR ''='' \<notin> set n \<Longrightarrow> split_eq (n @ CHR ''='' # v) = (n, Some v)"
proof -
  assume n: "CHR ''='' \<notin> set n"
  then have "takeWhile (\<lambda>ch. ch \<noteq> CHR ''='') (n @ CHR ''='' # v) = n"
    and "dropWhile (\<lambda>ch. ch \<noteq> CHR ''='') (n @ CHR ''='' # v) = CHR ''='' # v"
    by (induction n) auto
  then show ?thesis by (simp add: split_eq_def)
qed

lemma long_has_args_pm:
  "n \<in> set [''template'', ''subs'', ''images'', ''output''] \<Longrightarrow> long_has_args n pm_longopts = Inr (True, n)"
  by (auto simp: long_has_args_def pm_longopts_def)

lemma short_has_arg_pm: "c \<in> set ''tsio'' \<Longrightarrow> short_has_arg c pm_shortopts = Some True"
  by (auto simp: pm_shortopts_def)

lemma getopt_body_short:
  "c \<in> set ''tsio'' \<Longrightarrow>
   getopt_body pm_shortopts lo \<lparr>g_opts = ops0, g_args = [CHR ''-'', c] # v # rest, g_break = False, g_err = None\<rparr> =
     \<lparr>g_opts = ops0 @ [([CHR ''-'', c], v)], g_args = rest, g_break = False, g_err = None\<rparr>"
  by (auto simp: getopt_body_def short_has_arg_pm)

lemma getopt_body_long:
  "n \<in> set [''template'', ''subs'', ''images'', ''output''] \<Longrightarrow>
   getopt_body so pm_longopts \<lparr>g_opts = ops0, g_args = (''--'' @ n @ CHR ''='' # v) # rest, g_break = False, g_err = None\<rparr> =
     \<lparr>g_opts = ops0 @ [(''--'' @ n, v)], g_args = rest, g_break = False, g_err = None\<rparr>"
proof -
  assume n: "n \<in> set [''template'', ''subs'', ''images'', ''output'']"
  then have "CHR ''='' \<notin> set n" and "n \<noteq> []" by auto
  then show ?thesis
    using n by (simp add: getopt_body_def do_longs_def split_eq_name long_has_args_pm)
qed

lemma pm_flags_shape:
  "f \<in> set pm_flags \<Longrightarrow>
   (\<exists>c \<in> set ''tsio''. f = [CHR ''-'', c]) \<or>
   (\<exists>n \<in> set [''template'', ''subs'', ''images'', ''output'']. f = ''--'' @ n)"
  by (auto simp: pm_flags_def)

lemma getopt_step_render:
  assumes f: "f \<in> set pm_flags"
  shows "getopt_guard \<lparr>g_opts = ops0, g_args = render_opt (f, v) @ rest, g_break = False, g_err = None\<rparr> \<and>
    getopt_body pm_shortopts pm_longopts
      \<lparr>g_opts = ops0, g_args = render_opt (f, v) @ rest, g_break = False, g_err = None\<rparr> =
    \<lparr>g_opts = ops0 @ [(f, v)], g_args = rest, g_break = False, g_err = None\<rparr>"
  using pm_flags_shape [OF f]
proof (elim disjE bexE)
  fix c assume c: "c \<in> set ''tsio''" and fc: "f = [CHR ''-'', c]"
  then have "render_opt (f, v) @ rest = [CHR ''-'', c] # v # rest" by (auto simp: render_opt_def)
  with c fc show ?thesis by (auto simp: getopt_guard_def getopt_body_short)
next
  fix n assume n: "n \<in> set [''template'', ''subs'', ''images'', ''output'']" and fn: "f = ''--'' @ n"
  have r: "render_opt (f, v) @ rest = (''--'' @ n @ CHR ''='' # v) # rest"
    by (simp add: render_opt_def fn)
  have b: "getopt_body pm_shortopts pm_longopts
      \<lparr>g_opts = ops0, g_args = (''--'' @ n @ CHR ''='' # v) # rest, g_break = False, g_err = None\<rparr> =
      \<lparr>g_opts = ops0 @ [(''--'' @ n, v)], g_args = rest, g_break = False, g_err = None\<rparr>"
    by (rule getopt_body_long [OF n])
  have "getopt_guard \<lparr>g_opts = ops0, g_args = (''--'' @ n @ CHR ''='' # v) # rest, g_break = False, g_err = None\<rparr>"
    by (simp add: getopt_guard_def)
  with r b fn show ?thesis by simp
qed

lemma getopt_loop_render:
  "\<forall>(f, v) \<in> set ops. f \<in> set pm_flags \<Longrightarrow>
   while_option getopt_guard (getopt_body pm_shortopts pm_longopts)
     \<lparr>g_opts = ops0, g_args = concat (map render_opt ops) @ rest, g_break = False, g_err = None\<rparr> =
   while_option getopt_guard (getopt_body pm_shortopts pm_longopts)
     \<lparr>g_opts = ops0 @ ops, g_args = rest, g_break = False, g_err = None\<rparr>"
proof (induction ops arbitrary: ops0)
  case Nil
  then show ?case by simp
next
  case (Cons fv ops)
  obtain f v where fv: "fv = (f, v)" by (cases fv)
  with Cons.prems have f: "f \<in> set pm_flags" by auto
  have "concat (map render_opt (fv # ops)) @ rest = render_opt (f, v) @ (concat (map render_opt ops) @ rest)"
    by (simp add: fv)
  with getopt_step_render [OF f, of ops0 v "concat (map render_opt ops) @ rest"] Cons fv
  show ?case by (simp add: while_option_unfold [of _ _ "\<lparr>g_opts = ops0, g_args = _, g_break = False, g_err = None\<rparr>"])
qed

lemma short_has_arg_Some: "short_has_arg c so = Some b \<Longrightarrow> c \<in> set so \<and> c \<noteq> CHR '':''"
  by (induction c so rule: short_has_arg.induct) (auto split: if_splits)

lemma do_shorts_valid:
  "do_shorts opts s so args = Inr (opts', args') \<Longrightarrow> list_all (valid_opt so lo) opts \<Longrightarrow>
   list_all (valid_opt so lo) opts' \<and> suffix args' args"
proof (induction opts s so args rule: do_shorts.induct)
  case (1 opts so args)
  then show ?case by simp
next
  case (2 opts c cs so args)
  then obtain b where b: "short_has_arg c so = Some b"
    by (auto split: option.splits)
  then have v: "valid_opt so lo ([CHR ''-'', c], x)" for x
    by (auto simp: valid_opt_def dest: short_has_arg_Some)
  show ?case
  proof (cases b)
    case True
    with 2 b v show ?thesis by (auto split: if_splits list.splits intro: suffix_ConsI)
  next
    case False
    with "2.prems"(1) b have "do_shorts (opts @ [([CHR ''-'', c], [])]) cs so args = Inr (opts', args')"
      by simp
    moreover have bF: "b = False" using False by simp
    ultimately show ?thesis using "2.IH" [OF b bF] "2.prems"(2) v by simp
  qed
qed

lemma long_has_args_name:
  assumes l: "long_has_args opt lo = Inr (b, name)" and ne: "CHR ''='' \<notin> set opt"
    and lo: "\<forall>x \<in> set lo. CHR ''='' \<notin> set (butlast x)"
  shows "CHR ''='' \<notin> set name \<and> (name \<in> set lo \<or> name @ ''='' \<in> set lo)"
proof -
  let ?P = "filter (\<lambda>l. take (length opt) l = opt) lo"
  show ?thesis
  proof (cases "opt \<in> set ?P \<or> opt @ ''='' \<in> set ?P")
    case True
    with l ne show ?thesis by (auto simp: long_has_args_def Let_def split: if_splits)
  next
    case False
    with l have ne2: "?P \<noteq> []"
      and nm: "name = (if hd ?P \<noteq> [] \<and> last (hd ?P) = CHR ''='' then butlast (hd ?P) else hd ?P)"
      by (auto simp: long_has_args_def Let_def split: if_splits)
    have u: "hd ?P \<in> set lo" using ne2 hd_in_set by fastforce
    with lo have nb: "CHR ''='' \<notin> set (butlast (hd ?P))" by blast
    show ?thesis
    proof (cases "hd ?P \<noteq> [] \<and> last (hd ?P) = CHR ''=''")
      case True
      then have "butlast (hd ?P) @ ''='' = hd ?P" by (metis append_butlast_last_id append_Cons append_Nil)
      with True nm nb u show ?thesis by simp
    next
      case c: False
      have "CHR ''='' \<notin> set (hd ?P)"
      proof (cases "hd ?P = []")
        case False
        with c have "last (hd ?P) \<noteq> CHR ''=''" by simp
        moreover have "set (hd ?P) = set (butlast (hd ?P)) \<union> {last (hd ?P)}"
          using False by (metis append_butlast_last_id set_append empty_set list.simps(15))
        ultimately show ?thesis using nb by auto
      qed simp
      moreover from c nm have "name = hd ?P" by auto
      ultimately show ?thesis using u by simp
    qed
  qed
qed

lemma do_longs_valid:
  "do_longs opts s lo args = Inr (opts', args') \<Longrightarrow> list_all (valid_opt so lo) opts \<Longrightarrow>
   \<forall>x \<in> set lo. CHR ''='' \<notin> set (butlast x) \<Longrightarrow>
   list_all (valid_opt so lo) opts' \<and> suffix args' args"
proof -
  assume d: "do_longs opts s lo args = Inr (opts', args')" and v: "list_all (valid_opt so lo) opts"
    and lo: "\<forall>x \<in> set lo. CHR ''='' \<notin> set (butlast x)"
  obtain opt optarg where sp: "split_eq s = (opt, optarg)" by (cases "split_eq s")
  have ne: "CHR ''='' \<notin> set opt"
    using sp by (auto simp: split_eq_def split: if_splits dest: set_takeWhileD)
  from d sp obtain b name where l: "long_has_args opt lo = Inr (b, name)"
    by (auto simp: do_longs_def split: sum.splits)
  have "valid_opt so lo (''--'' @ name, x)" for x
    using long_has_args_name [OF l ne lo] by (auto simp: valid_opt_def)
  with d sp l v show ?thesis
    by (auto simp: do_longs_def split: if_splits option.splits list.splits intro: suffix_ConsI)
qed

lemma getopt_body_inv:
  assumes inv: "getopt_inv so lo args g" and gd: "getopt_guard g"
    and lo: "\<forall>x \<in> set lo. CHR ''='' \<notin> set (butlast x)"
  shows "getopt_inv so lo args (getopt_body so lo g)"
proof -
  from gd obtain a rest where ar: "g_args g = a # rest"
    by (auto simp: getopt_guard_def split: list.splits)
  with inv have sfx: "suffix rest args" and v: "list_all (valid_opt so lo) (g_opts g)"
    by (auto simp: getopt_inv_def dest: suffix_ConsD)
  show ?thesis
  proof (cases "a = ''--''")
    case True
    with ar sfx v show ?thesis by (simp add: getopt_body_def getopt_inv_def)
  next
    case False
    let ?r = "if take 2 a = ''--'' then do_longs (g_opts g) (drop 2 a) lo rest
              else do_shorts (g_opts g) (drop 1 a) so rest"
    have step: "list_all (valid_opt so lo) o' \<and> suffix a' args" if r: "?r = Inr (o', a')" for o' a'
    proof -
      have "list_all (valid_opt so lo) o' \<and> suffix a' rest"
        using r v lo by (auto split: if_splits dest: do_longs_valid do_shorts_valid)
      with sfx show ?thesis by (auto intro: suffix_order.trans)
    qed
    show ?thesis
    proof (cases ?r)
      case (Inl e)
      with ar False inv show ?thesis by (simp add: getopt_body_def getopt_inv_def)
    next
      case (Inr oa)
      obtain o' a' where "oa = (o', a')" by (cases oa)
      with Inr ar False step [of o' a'] show ?thesis
        by (simp add: getopt_body_def getopt_inv_def)
    qed
  qed
qed

lemma getopt_while_Some: "\<exists>t. while_option getopt_guard (getopt_body so lo) (getopt_start args) = Some t"
  using getopt_terminates [of args so lo] by (auto simp: getopt_def)

lemma getopt_while_inv:
  assumes t: "while_option getopt_guard (getopt_body so lo) (getopt_start args) = Some t"
    and lo: "\<forall>x \<in> set lo. CHR ''='' \<notin> set (butlast x)"
  shows "getopt_inv so lo args t"
proof (rule while_option_rule [where P = "getopt_inv so lo args", OF _ t])
  fix g assume "getopt_inv so lo args g" and "getopt_guard g"
  then show "getopt_inv so lo args (getopt_body so lo g)" using lo by (rule getopt_body_inv)
next
  show "getopt_inv so lo args (getopt_start args)"
    by (simp add: getopt_inv_def getopt_start_def)
qed

lemma pm_short_name: "c \<in> set pm_shortopts \<Longrightarrow> c \<noteq> CHR '':'' \<Longrightarrow> [CHR ''-'', c] \<in> set pm_option_names"
  by (auto simp: pm_shortopts_def pm_option_names_def)

lemma pm_long_name: "name \<in> set pm_longopts \<Longrightarrow> CHR ''='' \<notin> set name \<Longrightarrow> ''--'' @ name \<in> set pm_option_names"
proof -
  assume "name \<in> set pm_longopts" "CHR ''='' \<notin> set name"
  then have "name = ''help''" by (auto simp: pm_longopts_def)
  then show ?thesis by (simp add: pm_option_names_def)
qed

lemma pm_long_arg_name: "name @ ''='' \<in> set pm_longopts \<Longrightarrow> ''--'' @ name \<in> set pm_option_names"
proof -
  assume m: "name @ ''='' \<in> set pm_longopts"
  have "x \<in> set pm_longopts \<Longrightarrow> last x = CHR ''='' \<Longrightarrow> butlast x \<in> set [''template'', ''subs'', ''images'', ''output'']" for x
    by (auto simp: pm_longopts_def)
  from this [OF m] have "name \<in> set [''template'', ''subs'', ''images'', ''output'']" by simp
  then show ?thesis by (auto simp: pm_option_names_def)
qed

lemma valid_opt_pm: "valid_opt pm_shortopts pm_longopts fv \<Longrightarrow> fst fv \<in> set pm_option_names"
  unfolding valid_opt_def by (metis pm_short_name pm_long_name pm_long_arg_name)

text \<open>C22: the getopt call of main (line 142) returns on every command line (its while loop stops: each iteration consumes an argument or ends the loop), and when it succeeds every option it hands to the option loop is one of pyMatch's ten option names and the arguments left over are a suffix of the command line.\<close>

theorem getopt_call_returns:
  "\<exists>r. getopt argv pm_shortopts pm_longopts = Some r \<and>
     (\<forall>opts rest. r = Inr (opts, rest) \<longrightarrow> set (map fst opts) \<subseteq> set pm_option_names \<and> suffix rest argv)"
proof -
  obtain t where t: "while_option getopt_guard (getopt_body pm_shortopts pm_longopts) (getopt_start argv) = Some t"
    using getopt_while_Some by blast
  have "\<forall>x \<in> set pm_longopts. CHR ''='' \<notin> set (butlast x)"
    by (simp add: pm_longopts_def)
  with t have "getopt_inv pm_shortopts pm_longopts argv t" by (rule getopt_while_inv)
  then have la: "list_all (valid_opt pm_shortopts pm_longopts) (g_opts t)" and sfx: "suffix (g_args t) argv"
    by (simp_all add: getopt_inv_def)
  from la have v: "\<forall>fv \<in> set (g_opts t). fst fv \<in> set pm_option_names"
    by (metis list_all_iff valid_opt_pm)
  have g: "getopt argv pm_shortopts pm_longopts = Some (getopt_result t)"
    using t by (simp add: getopt_def)
  have "set (map fst opts) \<subseteq> set pm_option_names \<and> suffix rest argv"
    if r: "getopt_result t = Inr (opts, rest)" for opts rest
  proof -
    from r have "opts = g_opts t" and "rest = g_args t"
      by (auto simp: getopt_result_def split: option.splits)
    with v sfx show ?thesis by auto
  qed
  with g show ?thesis by blast
qed

lemma getopt_call_returns_witness:
  "getopt [''-t'', ''x'', ''run''] pm_shortopts pm_longopts = Some (Inr ([(''-t'', ''x'')], [''run''])) \<and>
   set (map fst [(''-t'', ''x'')]) \<subseteq> set pm_option_names \<and> suffix [''run''] [''-t'', ''x'', ''run'']"
proof -
  have g: "getopt [''-t'', ''x'', ''run''] pm_shortopts pm_longopts = Some (Inr ([(''-t'', ''x'')], [''run'']))"
    by code_simp
  from getopt_call_returns [of "[''-t'', ''x'', ''run'']"] g show ?thesis by simp
qed

text \<open>C23: parsing a command line made of pyMatch options, each written as -x value or --name=value (values arbitrary, even empty or starting with a dash), followed by arguments that are not options, gives back exactly those options in order and the arguments left over.\<close>

theorem getopt_roundtrip:
  "\<forall>(f, v) \<in> set ops. f \<in> set pm_flags \<Longrightarrow>
   (case rest of [] \<Rightarrow> True | a # _ \<Rightarrow> take 1 a \<noteq> ''-'' \<or> a = ''-'') \<Longrightarrow>
   getopt (concat (map render_opt ops) @ rest) pm_shortopts pm_longopts = Some (Inr (ops, rest))"
proof -
  assume ops: "\<forall>(f, v) \<in> set ops. f \<in> set pm_flags"
    and rest: "case rest of [] \<Rightarrow> True | a # _ \<Rightarrow> take 1 a \<noteq> ''-'' \<or> a = ''-''"
  have "\<not> getopt_guard \<lparr>g_opts = ops, g_args = rest, g_break = False, g_err = None\<rparr>"
    using rest by (auto simp: getopt_guard_def split: list.splits)
  then have "while_option getopt_guard (getopt_body pm_shortopts pm_longopts)
      \<lparr>g_opts = ops, g_args = rest, g_break = False, g_err = None\<rparr> =
      Some \<lparr>g_opts = ops, g_args = rest, g_break = False, g_err = None\<rparr>"
    by (subst while_option_unfold) simp
  with getopt_loop_render [OF ops, of "[]" rest] show ?thesis
    by (simp add: getopt_def getopt_start_def getopt_result_def)
qed

lemma getopt_roundtrip_witness:
  "getopt (concat (map render_opt [(''-t'', ''/t.nii''), (''--subs'', ''s=1.txt''), (''-o'', ''-x'')]) @ [''run'', ''-h''])
     pm_shortopts pm_longopts =
   Some (Inr ([(''-t'', ''/t.nii''), (''--subs'', ''s=1.txt''), (''-o'', ''-x'')], [''run'', ''-h'']))"
  by (rule getopt_roundtrip) (simp_all add: pm_flags_def)

end
