(* ===== verification/Entry.thy ===== *)
theory Entry
  imports Driver Getopt
begin

text \<open>
  The script's entry point, \<open>main(sys.argv[1:])\<close> (src/pyMatch.py lines
  268-269), with the \<open>getopt\<close> call of \<open>main\<close> (lines 141-147) now modelled:
  \<open>GetoptError\<close> becomes \<open>None\<close>, which \<open>main\<close> turns into exit status 2, and
  otherwise \<open>main\<close> receives the parsed options (the left-over arguments are
  ignored, as in the code). The lemmas show that exit status 2 means exactly a
  malformed command line (no later step of \<open>main\<close> exits with status 2,
  shown step by step with the rules \<open>never_exit2_*\<close>), and what happens
  when the command line starts with a non-option.
\<close>

section \<open>Definitions\<close>

text \<open>
  \<open>getopt\<close> always returns (\<open>Getopt.getopt_terminates\<close>), so its \<open>None\<close>
  (not returning) never arises; it is sent to the \<open>GetoptError\<close> branch.
\<close>

definition pymatch_entry :: "'v::linordered_idom host \<Rightarrow> string list \<Rightarrow> unit io" where
  "pymatch_entry h argv =
     main h (case getopt argv pm_shortopts pm_longopts of
               Some (Inr (opts, args)) \<Rightarrow> Some opts
             | _ \<Rightarrow> None)"

text \<open>
  The reference predicate for the exit status: a computation that, from no
  store, ends the run with \<open>sys.exit(2)\<close>.
\<close>

definition never_exit2 :: "'a io \<Rightarrow> bool" where
  "never_exit2 m \<longleftrightarrow> (\<forall>st. fst (m st) \<noteq> Inl (SysExit 2))"

section \<open>Lemmas\<close>

lemma getopt_not_option:
  "(case argv of [] \<Rightarrow> True | a # _ \<Rightarrow> take 1 a \<noteq> ''-'' \<or> a = ''-'') \<Longrightarrow>
   getopt argv so lo = Some (Inr ([], argv))"
proof -
  assume a: "case argv of [] \<Rightarrow> True | a # _ \<Rightarrow> take 1 a \<noteq> ''-'' \<or> a = ''-''"
  then have "\<not> getopt_guard (getopt_start argv)"
    by (auto simp: getopt_guard_def getopt_start_def split: list.splits)
  then have "while_option getopt_guard (getopt_body so lo) (getopt_start argv) = Some (getopt_start argv)"
    by (subst while_option_unfold) simp
  then show ?thesis by (simp add: getopt_def getopt_result_def getopt_start_def)
qed

subsection \<open>Exit status 2 comes only from getopt\<close>

lemma never_exit2_return [inv_intros]: "never_exit2 (io_return x)"
  by (simp add: never_exit2_def io_return_def)

lemma never_exit2_stop [inv_intros]: "r \<noteq> SysExit 2 \<Longrightarrow> never_exit2 (io_stop r)"
  by (simp add: never_exit2_def io_stop_def)

lemma never_exit2_bind [inv_intros]:
  "never_exit2 m \<Longrightarrow> (\<And>x. never_exit2 (f x)) \<Longrightarrow> never_exit2 (io_bind m f)"
  unfolding never_exit2_def
proof (intro allI)
  fix st
  assume m: "\<forall>st. fst (m st) \<noteq> Inl (SysExit 2)" and f: "\<And>x. \<forall>st. fst (f x st) \<noteq> Inl (SysExit 2)"
  show "fst (io_bind m f st) \<noteq> Inl (SysExit 2)"
  proof (cases "m st")
    case (Pair res st1)
    with m [rule_format, of st] f show ?thesis by (cases res) (auto simp: io_bind_def)
  qed
qed

lemma never_exit2_read_input [inv_intros]: "never_exit2 (read_input h f)"
  by (simp add: never_exit2_def read_input_def split: option.split)

lemma never_exit2_local_var [inv_intros]: "never_exit2 (local_var x v)"
  by (simp add: never_exit2_def local_var_def split: option.split)

lemma never_exit2_check_input [inv_intros]: "never_exit2 (check_input h subs comps)"
  by (simp add: never_exit2_def check_input_def split: prod.split)

lemma never_exit2_load_template [inv_intros]: "never_exit2 (load_template h p)"
  by (simp add: never_exit2_def load_template_def split: sum.split)

lemma never_exit2_write_header [inv_intros]: "never_exit2 (write_header h r hdr)"
  by (simp add: never_exit2_def write_header_def Let_def split: option.split sum.split pyval.split)

lemma never_exit2_add_result [inv_intros]: "never_exit2 (add_result h r l)"
  by (simp add: never_exit2_def add_result_def split: option.split)

lemma never_exit2_write_results [inv_intros]: "never_exit2 (write_results h r items)"
  by (induction h r items rule: write_results.induct) (simp_all add: inv_intros)

lemma never_exit2_process_subject [inv_intros]: "never_exit2 (process_subject h r sub imgs s)"
proof (cases "process_images h imgs s")
  case (Inl res)
  then have "res = SysExit 0" by (rule process_images_Inl [THEN conjunct1])
  with Inl show ?thesis by (simp add: process_subject_def inv_intros)
next
  case (Inr s')
  then show ?thesis
    by (simp add: process_subject_def inv_intros split: sum.split)
qed

lemma never_exit2_run_subjects [inv_intros]: "never_exit2 (run_subjects h r subs s)"
  by (induction h r subs s rule: run_subjects.induct) (simp_all add: inv_intros)

lemma never_exit2_run_matching [inv_intros]: "never_exit2 (run_matching h r t found)"
  unfolding run_matching_def by (simp add: inv_intros split: sum.split)

lemma collect_opts_Inl: "collect_opts os v = Inl res \<Longrightarrow> res = SysExit 0"
  by (induction os v rule: collect_opts.induct) (auto split: if_splits)

lemma never_exit2_main [inv_intros]: "never_exit2 (main h (Some os))"
proof (cases "collect_opts os unbound_vars")
  case (Inl res)
  then have "res = SysExit 0" by (rule collect_opts_Inl)
  with Inl show ?thesis by (simp add: main_def inv_intros)
next
  case (Inr v)
  then show ?thesis
    unfolding main_def Let_def by simp (intro inv_intros)
qed

text \<open>C24: the run ends with exit status 2 exactly when getopt rejects the command line (an unknown option, a missing argument, an argument given to --help, an ambiguous prefix), and then before any file is read or written: no later step of main exits with status 2.\<close>

theorem entry_exit2_iff:
  "pymatch_entry h argv st = (Inl (SysExit 2), st') \<longleftrightarrow>
   st' = st \<and> (\<exists>e. getopt argv pm_shortopts pm_longopts = Some (Inl e))"
proof -
  obtain g where g: "getopt argv pm_shortopts pm_longopts = Some g"
    using getopt_terminates by blast
  show ?thesis
  proof (cases g)
    case (Inl e)
    with g show ?thesis by (auto simp: pymatch_entry_def main_def io_stop_def)
  next
    case (Inr oa)
    obtain opts args where oa: "oa = (opts, args)" by (cases oa)
    have "fst (main h (Some opts) st) \<noteq> Inl (SysExit 2)"
      using never_exit2_main [of h opts] by (simp add: never_exit2_def)
    with g Inr oa show ?thesis by (auto simp: pymatch_entry_def)
  qed
qed

text \<open>C25: when the command line is empty or starts with an argument that is not an option, getopt stops at once, every later option is ignored, and main raises UnboundLocalError on sublist before reading any file.\<close>

theorem entry_positional:
  "(case argv of [] \<Rightarrow> True | a # _ \<Rightarrow> take 1 a \<noteq> ''-'' \<or> a = ''-'') \<Longrightarrow>
   pymatch_entry h argv st = (Inl (Raised (UnboundLocalError ''sublist'')), st)"
  by (simp add: pymatch_entry_def getopt_not_option main_def io_bind_apply unbound_vars_def)

end
