(* ===== verification/ConsoleIO.thy ===== *)
theory ConsoleIO
  imports PyRuntime
begin

text \<open>
  Standard output. Python 2's \<open>print e\<close> writes \<open>str(e)\<close> and a newline to
  \<open>sys.stdout\<close>; nothing the script does reads it back. A computation that
  prints is therefore a computation of \<open>PyRuntime\<close> that also returns the
  arguments of its \<open>print\<close> statements, in order (a writer layered over the
  state-and-exception monad \<open>io\<close>). \<open>c_erase\<close> forgets the printed lines;
  the lemmas of this theory push it through the monad's operations, so that
  each printing definition of \<open>Console\<close> can be shown to erase to the
  silent definition of \<open>Driver\<close> and \<open>PyMatchRes\<close> it instruments. The
  theory also holds the two values the script prints that are not built from
  its inputs: the module docstring that \<open>usage()\<close> prints (lines 3-35) and
  \<open>str\<close> of a count (line 132).
\<close>

section \<open>Printing computations\<close>

type_synonym 'a cio = "store \<Rightarrow> (outcome + 'a) \<times> store \<times> string list"

definition c_return :: "'a \<Rightarrow> 'a cio" where
  "c_return x st = (Inr x, st, [])"

definition c_stop :: "outcome \<Rightarrow> 'a cio" where
  "c_stop r st = (Inl r, st, [])"

text \<open>\<open>print s\<close>: one line of output, the newline left implicit.\<close>

definition c_print :: "string \<Rightarrow> unit cio" where
  "c_print s st = (Inr (), st, [s])"

text \<open>A computation that prints nothing.\<close>

definition c_lift :: "'a io \<Rightarrow> 'a cio" where
  "c_lift m st = (case m st of (r, st') \<Rightarrow> (r, st', []))"

text \<open>A loop that touches no file, with the lines it printed.\<close>

definition c_from :: "(outcome + 'a) \<times> string list \<Rightarrow> 'a cio" where
  "c_from ro st = (fst ro, st, snd ro)"

definition c_bind :: "'a cio \<Rightarrow> ('a \<Rightarrow> 'b cio) \<Rightarrow> 'b cio" where
  "c_bind m f st =
     (case m st of
        (Inl r, st', out) \<Rightarrow> (Inl r, st', out)
      | (Inr x, st', out) \<Rightarrow> (case f x st' of (r, st'', out') \<Rightarrow> (r, st'', out @ out')))"

text \<open>What the computation does, without its output; and its output.\<close>

definition c_erase :: "'a cio \<Rightarrow> 'a io" where
  "c_erase m st = (case m st of (r, st', _) \<Rightarrow> (r, st'))"

definition c_out :: "'a cio \<Rightarrow> store \<Rightarrow> string list" where
  "c_out m st = snd (snd (m st))"

text \<open>The text the terminal shows: each printed line followed by a newline.\<close>

definition console_text :: "string list \<Rightarrow> string" where
  "console_text out = concat (map (\<lambda>l. l @ [nl]) out)"

section \<open>usage()\<close>

text \<open>\<open>__doc__\<close>: the module docstring (lines 3-35), line by line, starting with the newline after the opening quotes.\<close>

definition usage_doc :: string where
  "usage_doc = concat (map (\<lambda>l. l @ [nl])
     ['''',
      '''',
      ''pyMatch Component --> Template Matching in Python'',
      '''',
      ''This python script uses MRtools to read in a nifti image template (Data class), and match'',
      ''a list of user specified images to the template (Match class).  Usage could be to match'',
      ''components (individual functional networks) from an individual ica analysis to the '',
      ''most similar component from a group ica (group networks) analysis, OR to match a group '',
      ''significant result from one modality to group networks.  The images used for matching'',
      ''will first be filtered (getting rid of high frequency components) and then matched.'',
      ''Inputs should be as follows:'',
      '''',
      ''INPUT:'',
      ''-h, --help      Print this usage'',
      ''-s --subs=      Single column text file w/ list of subject (or group) folders containing components'',
      ''-t --template=  The template image to match, such as a group network'',
      ''-i --images =   Single column text file with a list of component images in folders'',
      ''-o --output=    Name of output folder.  If not specified, will use pwd'',
      '''',
      ''If you input a list of subjects longer than one, keep in mind that each should have the'',
      ''corresponding component images in the designated folder.  Whether 3D or 4D, the first'',
      ''timepoint will be used by default to extract data.  If an image's first timepoint is'',
      ''empty, the script will try the second.  If the second is also empty, it will exit with'',
      ''error, because there is something wrong with your template or image!'',
      '''',
      ''USAGE: python pyMatch.py --subs=sublist.txt --template=/path/to/image.nii.gz --images=imagelist.txt --output=/path/for/outfile'',
      '''',
      ''Intended usage is for one template for 1+ subjects/groups with a list of component images.  '',
      ''Currently only supports matching 3D images (if 4D input, first timepoint will be used)'',
      '''',
      ''OUTPUT: (template_name)_bestcomps.txt and (template_name)_beststats.txt w/ top 3 components for each subject/group'',
      ''''])"

text \<open>\<open>usage()\<close> (lines 101-102): \<open>print __doc__\<close>.\<close>

definition usage :: "unit cio" where
  "usage = c_print usage_doc"

section \<open>str of a count\<close>

text \<open>\<open>str(n)\<close> for a non-negative integer: its decimal digits, most significant first.\<close>

fun py_str_nat :: "nat \<Rightarrow> string" where
  "py_str_nat n =
     (if n < 10 then [char_of (48 + n)] else py_str_nat (n div 10) @ [char_of (48 + n mod 10)])"

declare py_str_nat.simps [simp del]

text \<open>The reference: the number a string of decimal digits denotes, as \<open>int(s)\<close> reads it.\<close>

definition dec_value :: "string \<Rightarrow> nat" where
  "dec_value s = foldl (\<lambda>acc c. 10 * acc + (of_char c - 48)) 0 s"

definition is_digit :: "char \<Rightarrow> bool" where
  "is_digit c = (48 \<le> (of_char c :: nat) \<and> (of_char c :: nat) < 58)"

section \<open>Lemmas\<close>

named_theorems c_erase_simps

lemma c_erase_return [c_erase_simps]: "c_erase (c_return x) = io_return x"
  by (simp add: c_erase_def c_return_def io_return_def fun_eq_iff)

lemma c_erase_stop [c_erase_simps]: "c_erase (c_stop r) = io_stop r"
  by (simp add: c_erase_def c_stop_def io_stop_def fun_eq_iff)

lemma c_erase_print [c_erase_simps]: "c_erase (c_print s) = io_return ()"
  by (simp add: c_erase_def c_print_def io_return_def fun_eq_iff)

lemma c_erase_lift [c_erase_simps]: "c_erase (c_lift m) = m"
  by (simp add: c_erase_def c_lift_def fun_eq_iff split: prod.splits)

lemma c_erase_from [c_erase_simps]: "c_erase (c_from ro) = (\<lambda>st. (fst ro, st))"
  by (simp add: c_erase_def c_from_def fun_eq_iff)

lemma c_erase_bind [c_erase_simps]: "c_erase (c_bind m f) = io_bind (c_erase m) (\<lambda>x. c_erase (f x))"
  by (rule ext) (simp add: c_erase_def c_bind_def io_bind_def split: prod.split sum.split)

lemma c_erase_usage [c_erase_simps]: "c_erase usage = io_return ()"
  by (simp add: usage_def c_erase_print)

lemma c_erase_if [c_erase_simps]: "c_erase (if b then m else n) = (if b then c_erase m else c_erase n)"
  by simp

lemma c_erase_case_sum [c_erase_simps]:
  "c_erase (case x of Inl a \<Rightarrow> f a | Inr b \<Rightarrow> g b) = (case x of Inl a \<Rightarrow> c_erase (f a) | Inr b \<Rightarrow> c_erase (g b))"
  by (cases x) simp_all

lemma c_erase_case_option [c_erase_simps]:
  "c_erase (case x of None \<Rightarrow> m | Some a \<Rightarrow> f a) = (case x of None \<Rightarrow> c_erase m | Some a \<Rightarrow> c_erase (f a))"
  by (cases x) simp_all

lemma c_erase_Let [c_erase_simps]: "c_erase (Let x f) = Let x (\<lambda>y. c_erase (f y))"
  by simp

lemma io_bind_pure: "io_bind (\<lambda>st. (x, st)) f = (case x of Inl r \<Rightarrow> io_stop r | Inr y \<Rightarrow> f y)"
  by (simp add: io_bind_def io_stop_def fun_eq_iff split: sum.splits)

lemma c_bind_return [simp]: "c_bind (c_return x) f = f x"
  by (simp add: c_bind_def c_return_def fun_eq_iff split: prod.splits)

lemma c_bind_stop [simp]: "c_bind (c_stop r) f = c_stop r"
  by (simp add: c_bind_def c_stop_def fun_eq_iff)

lemma c_bind_print:
  "c_bind (c_print s) f st = (case f () st of (r, st', out) \<Rightarrow> (r, st', s # out))"
  by (simp add: c_bind_def c_print_def)

lemma c_bind_lift:
  "c_bind (c_lift m) f st =
     (case m st of (Inl r, st') \<Rightarrow> (Inl r, st', []) | (Inr x, st') \<Rightarrow> f x st')"
  by (simp add: c_bind_def c_lift_def split: prod.splits sum.splits)

lemma c_bind_from:
  "c_bind (c_from (r, out)) f st =
     (case r of Inl e \<Rightarrow> (Inl e, st, out) | Inr x \<Rightarrow> (case f x st of (r', st', out') \<Rightarrow> (r', st', out @ out')))"
  by (simp add: c_bind_def c_from_def split: sum.splits)

lemma c_bind_Inr:
  "m st = (Inr x, st', out) \<Longrightarrow> c_bind m f st = (case f x st' of (r, st'', out') \<Rightarrow> (r, st'', out @ out'))"
  by (simp add: c_bind_def)

lemma c_bind_assoc: "c_bind (c_bind m f) g = c_bind m (\<lambda>x. c_bind (f x) g)"
  by (rule ext) (simp add: c_bind_def split: prod.split sum.split)

lemma console_text_append [simp]: "console_text (xs @ ys) = console_text xs @ console_text ys"
  by (simp add: console_text_def)

lemma console_text_Cons [simp]: "console_text (x # xs) = x @ nl # console_text xs"
  by (simp add: console_text_def)

lemma is_digit_py_str_nat: "\<forall>c \<in> set (py_str_nat n). is_digit c"
proof (induction n rule: py_str_nat.induct)
  case (1 n)
  then show ?case
    by (subst py_str_nat.simps) (auto simp: is_digit_def)
qed

lemma dec_value_snoc: "dec_value (s @ [c]) = 10 * dec_value s + (of_char c - 48)"
  by (simp add: dec_value_def)

lemma dec_value_py_str_nat: "dec_value (py_str_nat n) = n"
proof (induction n rule: py_str_nat.induct)
  case (1 n)
  show ?case
  proof (cases "n < 10")
    case True
    then show ?thesis by (subst py_str_nat.simps) (simp add: dec_value_def)
  next
    case False
    then have "dec_value (py_str_nat n) = 10 * (n div 10) + n mod 10"
      using "1.IH" by (subst py_str_nat.simps) (simp add: dec_value_snoc)
    then show ?thesis by simp
  qed
qed

lemma py_str_nat_inj: "py_str_nat m = py_str_nat n \<longleftrightarrow> m = n"
  by (metis dec_value_py_str_nat)

lemma py_str_nat_ne [simp]: "py_str_nat n \<noteq> []"
  by (subst py_str_nat.simps) simp

end
