(* ===== verification/Console.thy ===== *)
theory Console
  imports Entry ConsoleIO
begin

text \<open>
  Console output of src/pyMatch.py: every \<open>print\<close> statement of the script
  and \<open>usage()\<close>. Each definition here is the definition of \<open>PyMatchRes\<close>,
  \<open>Driver\<close> or \<open>Entry\<close> with the same name and the suffix \<open>_c\<close>, with the
  script's \<open>print\<close> statements put back in at the places the code has them;
  the loops that touch no file return the lines they print beside their
  result. The lemmas show that erasing the output gives back the silent
  definitions (printing changes nothing the script does), and what a run
  prints: the usage text on a bad command line or \<open>--help\<close>, one count per
  subject in \<open>checkInput\<close>, the line the report gets echoed for every score,
  the message a run that hits the \<open>writeHeader\<close> defect ends with, and what a
  candidate that fails to load prints before the run exits.
\<close>

section \<open>Result Sink\<close>

text \<open>The bare \<open>except\<close> of \<open>writeHeader\<close> and \<open>addResult\<close> (lines 76-78, 88-90).\<close>

definition exit_cannot_write :: "path \<Rightarrow> 'a cio" where
  "exit_cannot_write p st = (Inl (SysExit 0), st, [''Cannot write file '' @ p @ ''. Exiting''])"

definition write_header_c :: "'v host \<Rightarrow> pymatchres \<Rightarrow> pyval \<Rightarrow> unit cio" where
  "write_header_c h r header st =
     (case res_fullpath r of
        None \<Rightarrow> (Inl (SysExit 0), st, [])
      | Some p \<Rightarrow>
          if \<not> writable h p then exit_cannot_write p st
          else
            (let st1 = truncate_file p st
             in case py_add header (PyStr [nl]) of
                  Inr (PyStr s) \<Rightarrow> (Inr (), append_file p s st1, [])
                | _ \<Rightarrow> exit_cannot_write p st1))"

definition add_result_c :: "'v host \<Rightarrow> pymatchres \<Rightarrow> string \<Rightarrow> unit cio" where
  "add_result_c h r result st =
     (case res_fullpath r of
        None \<Rightarrow> (Inl (SysExit 0), st, [])
      | Some p \<Rightarrow>
          if \<not> writable h p then exit_cannot_write p st
          else (Inr (), append_file p [nl] (append_file p result st), []))"

section \<open>Reading and checking the input\<close>

text \<open>\<open>readInput\<close> (lines 105-117).\<close>

definition read_input_c :: "'v host \<Rightarrow> path \<Rightarrow> path list cio" where
  "read_input_c h readfile =
     c_bind (c_print (''Reading input file '' @ readfile)) (\<lambda>_ st.
       case file_text h readfile of
         None \<Rightarrow> (Inl (SysExit 0), st, [''Cannot open file '' @ readfile @ ''. Exiting''])
       | Some txt \<Rightarrow> (Inr (map (\<lambda>line. py_rstrip (py_rstrip_chars [nl] line)) (py_lines txt)), st, []))"

text \<open>The subject loop of \<open>checkInput\<close> (lines 125-133), with the count it prints for each subject.\<close>

fun scan_subs_c ::
  "'v host \<Rightarrow> path list \<Rightarrow> path list \<Rightarrow> (path, path list) pydict \<times> nat
     \<Rightarrow> ((path, path list) pydict \<times> nat) \<times> string list" where
  "scan_subs_c h [] compinput acc = (acc, [])"
| "scan_subs_c h (sub # subs) compinput (found, cnt) =
     (if sub \<noteq> ''''
      then (case scan_comps h sub compinput ([], cnt) of
              (tmp, cnt') \<Rightarrow>
                (case scan_subs_c h subs compinput (dict_set found sub tmp, cnt') of
                   (acc, out) \<Rightarrow>
                     (acc, (''Found '' @ py_str_nat (length tmp) @ '' components for subject '' @ sub @ ''!'') # out)))
      else scan_subs_c h subs compinput (found, cnt))"

text \<open>\<open>checkInput\<close> (lines 121-137).\<close>

definition check_input_c :: "'v host \<Rightarrow> path list \<Rightarrow> path list \<Rightarrow> (path, path list) pydict cio" where
  "check_input_c h subinput compinput =
     c_bind (c_print ''Checking for all components images for each output/subject...'') (\<lambda>_ st.
       case scan_subs_c h subinput compinput ([], 0) of
         ((found, cnt), out) \<Rightarrow>
           if cnt = 0
           then (Inl (SysExit 32), st, out @ [''No subject images found - analysis will not be continued.''])
           else (Inr found, st, out))"

section \<open>The subject loop\<close>

text \<open>The candidate loop (lines 207-221): each non-empty path is printed before it is loaded.\<close>

fun process_images_c ::
  "'v::linordered_idom host \<Rightarrow> path list \<Rightarrow> 'v session \<Rightarrow> (outcome + 'v session) \<times> string list" where
  "process_images_c h [] s = (Inr s, [])"
| "process_images_c h (img # imgs) s =
     (if img = '''' then process_images_c h imgs s
      else (case load_data (image_at h) img of
              Inl _ \<Rightarrow> (Inl (SysExit 0), [img, ''Problem with '' @ img @ ''. Exiting!''])
            | Inr contender \<Rightarrow>
                (case process_images_c h imgs (add_comp contender s) of (res, out) \<Rightarrow> (res, img # out))))"

text \<open>The result loop (lines 260-262).\<close>

fun write_results_c :: "'v host \<Rightarrow> pymatchres \<Rightarrow> (path \<times> 'v) list \<Rightarrow> unit cio" where
  "write_results_c h r [] = c_return ()"
| "write_results_c h r ((i, sc) # rest) =
     c_bind (c_print (''Adding '' @ i @ '' '' @ show_score h sc)) (\<lambda>_.
     c_bind (add_result_c h r (i @ [tab] @ show_score h sc)) (\<lambda>_. write_results_c h r rest))"

text \<open>One subject (lines 202-266).\<close>

definition process_subject_c ::
  "'v::linordered_idom host \<Rightarrow> pymatchres \<Rightarrow> path \<Rightarrow> path list \<Rightarrow> 'v session \<Rightarrow> 'v session cio" where
  "process_subject_c h r subject images s =
     c_bind (c_print (''Processing images for subject '' @ subject @ ''...'')) (\<lambda>_.
     c_bind (c_from (process_images_c h images s)) (\<lambda>s'.
       if 0 < length (components s') then
         (case match_overlap_matrix s' of
            Inl e \<Rightarrow> c_stop (Raised (MatchError e))
          | Inr resultitem \<Rightarrow>
              c_bind (write_results_c h r (score_order h resultitem)) (\<lambda>_. c_return (reset s')))
       else c_bind (c_print (''No matches for '' @ subject @ ''!'')) (\<lambda>_. c_return s')))"

fun run_subjects_c ::
  "'v::linordered_idom host \<Rightarrow> pymatchres \<Rightarrow> (path \<times> path list) list \<Rightarrow> 'v session \<Rightarrow> 'v session cio" where
  "run_subjects_c h r [] s = c_return s"
| "run_subjects_c h r ((subject, images) # rest) s =
     c_bind (process_subject_c h r subject images s) (run_subjects_c h r rest)"

text \<open>Lines 179-266: the index set is built (lines 181-183) before line 200 prints.\<close>

definition run_matching_c ::
  "'v::linordered_idom host \<Rightarrow> pymatchres \<Rightarrow> 'v data \<Rightarrow> (path, path list) pydict \<Rightarrow> unit cio" where
  "run_matching_c h r template found =
     (case gen_index_mni (set_index_crit (Crit Gt 0) (new_session template)) of
        Inl e \<Rightarrow> c_stop (Raised (MatchError e))
      | Inr m \<Rightarrow>
          c_bind (c_print ''Computing similarity scores...'') (\<lambda>_.
          c_bind (run_subjects_c h r (sub_order h found) m) (\<lambda>_. c_return ())))"

section \<open>main\<close>

text \<open>\<open>main\<close> (lines 140-266): \<open>usage()\<close> before \<open>sys.exit(2)\<close> and before the \<open>sys.exit()\<close> of \<open>--help\<close>.\<close>

definition main_c :: "'v::linordered_idom host \<Rightarrow> (string \<times> string) list option \<Rightarrow> unit cio" where
  "main_c h opts =
     (case opts of
        None \<Rightarrow> c_bind usage (\<lambda>_. c_stop (SysExit 2))
      | Some os \<Rightarrow>
          (case collect_opts os unbound_vars of
             Inl res \<Rightarrow> c_bind usage (\<lambda>_. c_stop res)
           | Inr v \<Rightarrow>
               c_bind (c_lift (local_var ''sublist'' (v_sublist v))) (\<lambda>sublist.
               c_bind (read_input_c h sublist) (\<lambda>subfile.
               c_bind (c_lift (local_var ''input2'' (v_input2 v))) (\<lambda>input2.
               c_bind (read_input_c h input2) (\<lambda>imgfiles.
               c_bind (check_input_c h subfile imgfiles) (\<lambda>found.
               c_bind (c_lift (local_var ''input1'' (v_input1 v))) (\<lambda>input1.
               c_bind (c_lift (load_template h input1)) (\<lambda>template.
               c_bind (c_lift (local_var ''output'' (v_output v))) (\<lambda>output.
               (let output' = (if output = '''' then cwd h else output);
                    result = new_pymatchres output' (name template)
                in c_bind (write_header_c h result (PyList [PyStr (input1 @ '':template'')])) (\<lambda>_.
                   run_matching_c h result template found))))))))))))"

text \<open>\<open>main(sys.argv[1:])\<close> (lines 268-269).\<close>

definition pymatch_entry_c :: "'v::linordered_idom host \<Rightarrow> string list \<Rightarrow> unit cio" where
  "pymatch_entry_c h argv =
     main_c h (case getopt argv pm_shortopts pm_longopts of
                 Some (Inr (opts, args)) \<Rightarrow> Some opts
               | _ \<Rightarrow> None)"

section \<open>Lemmas\<close>

subsection \<open>Printing changes nothing else\<close>

lemma write_header_c_erase [c_erase_simps]: "c_erase (write_header_c h r hdr) = write_header h r hdr"
  by (rule ext)
    (simp add: c_erase_def write_header_c_def write_header_def exit_cannot_write_def Let_def
      split: option.split sum.split pyval.split)

lemma add_result_c_erase [c_erase_simps]: "c_erase (add_result_c h r l) = add_result h r l"
  by (rule ext) (simp add: c_erase_def add_result_c_def add_result_def exit_cannot_write_def split: option.split)

lemma read_input_c_erase [c_erase_simps]: "c_erase (read_input_c h f) = read_input h f"
  by (rule ext) (simp add: c_erase_def read_input_c_def read_input_def c_bind_print split: option.split)

lemma scan_subs_c_fst: "fst (scan_subs_c h subs comps acc) = scan_subs h subs comps acc"
  by (induction h subs comps acc rule: scan_subs_c.induct) (simp_all add: case_prod_beta)

lemma check_input_c_erase [c_erase_simps]: "c_erase (check_input_c h subs comps) = check_input h subs comps"
proof (rule ext)
  fix st
  obtain acc out where sc: "scan_subs_c h subs comps ([], 0) = (acc, out)"
    by (cases "scan_subs_c h subs comps ([], 0)")
  then have "scan_subs h subs comps ([], 0) = acc"
    using scan_subs_c_fst [of h subs comps "([], 0)"] by simp
  with sc show "c_erase (check_input_c h subs comps) st = check_input h subs comps st"
    by (cases acc) (simp add: c_erase_def check_input_c_def check_input_def c_bind_print)
qed

lemma process_images_c_fst: "fst (process_images_c h imgs s) = process_images h imgs s"
  by (induction h imgs s rule: process_images_c.induct) (simp_all add: case_prod_beta split: sum.split)

lemma write_results_c_erase [c_erase_simps]: "c_erase (write_results_c h r items) = write_results h r items"
  by (induction h r items rule: write_results_c.induct) (simp_all add: c_erase_simps)

lemma process_subject_c_erase [c_erase_simps]:
  "c_erase (process_subject_c h r sub imgs s) = process_subject h r sub imgs s"
  by (simp add: process_subject_c_def process_subject_def c_erase_simps io_bind_pure process_images_c_fst
      split: sum.split)

lemma run_subjects_c_erase [c_erase_simps]: "c_erase (run_subjects_c h r subs s) = run_subjects h r subs s"
  by (induction h r subs s rule: run_subjects_c.induct) (simp_all add: c_erase_simps)

lemma run_matching_c_erase [c_erase_simps]: "c_erase (run_matching_c h r t found) = run_matching h r t found"
  by (simp add: run_matching_c_def run_matching_def c_erase_simps split: sum.split)

lemma main_c_erase [c_erase_simps]: "c_erase (main_c h opts) = main h opts"
  by (simp add: main_c_def main_def c_erase_simps split: option.split sum.split)

subsection \<open>What a run prints\<close>

lemma scan_subs_c_out:
  "snd (scan_subs_c h subs comps (found, n)) =
     map (\<lambda>sub. ''Found '' @ py_str_nat (length (existing h sub comps)) @ '' components for subject '' @ sub @ ''!'')
       (filter (\<lambda>sub. sub \<noteq> '''') subs)"
  by (induction subs arbitrary: found n) (simp_all add: scan_comps_eq case_prod_beta)

lemma check_input_c_apply:
  "check_input_c h subs comps st =
     (fst (check_input h subs comps st), st,
      ''Checking for all components images for each output/subject...'' #
      map (\<lambda>sub. ''Found '' @ py_str_nat (length (existing h sub comps)) @ '' components for subject '' @ sub @ ''!'')
        (filter (\<lambda>sub. sub \<noteq> '''') subs) @
      (if \<forall>sub \<in> set subs. sub \<noteq> '''' \<longrightarrow> existing h sub comps = []
       then [''No subject images found - analysis will not be continued.''] else []))"
proof -
  obtain fd n out where sc: "scan_subs_c h subs comps ([], 0) = ((fd, n), out)"
    by (metis prod.collapse)
  have ss: "scan_subs h subs comps ([], 0) = (fd, n)"
    using scan_subs_c_fst [of h subs comps "([], 0)"] sc by simp
  have n0: "n = 0 \<longleftrightarrow> (\<forall>sub \<in> set subs. sub \<noteq> '''' \<longrightarrow> existing h sub comps = [])"
    using scan_subs_count [of h subs comps "[]" 0] ss by (auto simp: sum_list_eq_0_iff)
  have "out = map (\<lambda>sub. ''Found '' @ py_str_nat (length (existing h sub comps)) @ '' components for subject '' @ sub @ ''!'')
        (filter (\<lambda>sub. sub \<noteq> '''') subs)"
    using scan_subs_c_out [of h subs comps "[]" 0] sc by simp
  with sc ss n0 show ?thesis
    by (auto simp: check_input_c_def check_input_def c_bind_print)
qed

lemma read_input_c_apply:
  "read_input_c h f st =
     (fst (read_input h f st), st,
      (''Reading input file '' @ f) # (if file_text h f = None then [''Cannot open file '' @ f @ ''. Exiting''] else []))"
  by (simp add: read_input_c_def read_input_def c_bind_print split: option.split)

lemma write_header_c_list:
  "res_fullpath r = Some p \<Longrightarrow> writable h p \<Longrightarrow>
   write_header_c h r (PyList xs) st = (Inl (SysExit 0), st(p \<mapsto> ''''), [''Cannot write file '' @ p @ ''. Exiting''])"
  by (simp add: write_header_c_def exit_cannot_write_def truncate_file_def)

lemma process_images_c_ok:
  "list_all (loads h) imgs \<Longrightarrow>
   process_images_c h imgs s =
     (Inr (s\<lparr>components := components s @ loaded h imgs\<rparr>), filter (\<lambda>p. p \<noteq> '''') imgs)"
  by (induction imgs arbitrary: s) (auto simp: loads_iff add_comp_def)

lemma add_result_c_ok:
  "res_fullpath r = Some p \<Longrightarrow> writable h p \<Longrightarrow>
   add_result_c h r l st = (Inr (), append_file p [nl] (append_file p l st), [])"
  by (simp add: add_result_c_def)

lemma write_results_c_ok:
  "res_fullpath r = Some p \<Longrightarrow> writable h p \<Longrightarrow> st p = Some c \<Longrightarrow>
   write_results_c h r items st =
     (Inr (), st(p \<mapsto> c @ result_lines h items),
      map (\<lambda>(i, sc). ''Adding '' @ i @ '' '' @ show_score h sc) items)"
proof (induction items arbitrary: c st)
  case Nil
  then show ?case by (simp add: c_return_def result_lines_def fun_upd_idem)
next
  case (Cons it items)
  obtain i sc where it: "it = (i, sc)" by (cases it)
  let ?st1 = "st(p \<mapsto> c @ i @ [tab] @ show_score h sc @ [nl])"
  have add: "add_result_c h r (i @ tab # show_score h sc) st = (Inr (), ?st1, [])"
    using Cons.prems by (simp add: add_result_c_ok append_file_def)
  moreover have "write_results_c h r items ?st1 =
      (Inr (), ?st1(p \<mapsto> (c @ i @ [tab] @ show_score h sc @ [nl]) @ result_lines h items),
       map (\<lambda>(i, sc). ''Adding '' @ i @ '' '' @ show_score h sc) items)"
    using Cons.prems by (intro Cons.IH) simp_all
  ultimately show ?case
    using it by (simp add: c_bind_print c_bind_Inr [where m = "add_result_c h r (i @ tab # show_score h sc)", OF add] fun_eq_iff)
qed

text \<open>C29: when getopt rejects the command line, and when an option asks for help, the only thing main prints is the module docstring (usage()), once, before it exits with status 2 or 0 and without touching a file.\<close>

theorem main_usage:
  "main_c h None st = (Inl (SysExit 2), st, [usage_doc]) \<and>
   (list_ex (\<lambda>(opt, _). opt \<in> set [''-h'', ''--help'']) os \<longrightarrow>
    main_c h (Some os) st = (Inl (SysExit 0), st, [usage_doc]))"
  by (simp add: main_c_def usage_def c_bind_print c_stop_def collect_opts_help)

text \<open>C30: checkInput prints its opening line, then one line per non-empty subject in list order (a subject listed twice is counted twice, though the dictionary keeps it once) giving the number of its candidate files that exist, and, when there are none at all, the message before exit status 32.\<close>

theorem check_input_console:
  "c_out (check_input_c h subs comps) st =
     ''Checking for all components images for each output/subject...'' #
     map (\<lambda>sub. ''Found '' @ py_str_nat (length (existing h sub comps)) @ '' components for subject '' @ sub @ ''!'')
       (filter (\<lambda>sub. sub \<noteq> '''') subs) @
     (if \<forall>sub \<in> set subs. sub \<noteq> '''' \<longrightarrow> existing h sub comps = []
      then [''No subject images found - analysis will not be continued.''] else [])"
  by (simp add: c_out_def check_input_c_apply)

text \<open>C31: on a run where every step before writeHeader succeeds, the console shows the two input files being read, the checkInput lines, and then "Cannot write file" for a report path that is writable: the message blames the file for the TypeError that the list passed to writeHeader raises; the run ends with exit status 0 and an empty report.\<close>

theorem main_console_header:
  assumes opts: "collect_opts os unbound_vars = Inr v"
    and vars: "v_sublist v = Some sl" "v_input2 v = Some il" "v_input1 v = Some tp"
      "v_output v = Some out"
    and reads: "read_input h sl st = (Inr subs, st)" "read_input h il st = (Inr comps, st)"
    and some: "\<exists>sub \<in> set subs. sub \<noteq> '''' \<and> existing h sub comps \<noteq> []"
    and tmpl: "load_data (image_at h) tp = Inr t"
    and path: "res_fullpath (new_pymatchres (if out = '''' then cwd h else out) tp) = Some p"
    and wr: "writable h p"
  shows "main_c h (Some os) st =
    (Inl (SysExit 0), st(p \<mapsto> ''''),
     [''Reading input file '' @ sl, ''Reading input file '' @ il,
      ''Checking for all components images for each output/subject...''] @
     map (\<lambda>sub. ''Found '' @ py_str_nat (length (existing h sub comps)) @ '' components for subject '' @ sub @ ''!'')
       (filter (\<lambda>sub. sub \<noteq> '''') subs) @
     [''Cannot write file '' @ p @ ''. Exiting''])"
proof -
  have ft: "file_text h sl \<noteq> None" "file_text h il \<noteq> None"
    using reads by (auto simp: read_input_def split: option.splits)
  have rd: "read_input_c h sl st = (Inr subs, st, [''Reading input file '' @ sl])"
    "read_input_c h il st = (Inr comps, st, [''Reading input file '' @ il])"
    using reads ft by (simp_all add: read_input_c_apply)
  obtain found where fd: "check_input h subs comps st = (Inr found, st)"
    using check_input_ok [OF some] by blast
  have ci: "check_input_c h subs comps st =
      (Inr found, st, ''Checking for all components images for each output/subject...'' #
        map (\<lambda>sub. ''Found '' @ py_str_nat (length (existing h sub comps)) @ '' components for subject '' @ sub @ ''!'')
          (filter (\<lambda>sub. sub \<noteq> '''') subs))"
    using fd some by (auto simp: check_input_c_apply)
  have nm: "name t = tp" using tmpl by (rule load_data_name)
  show ?thesis
    using opts vars rd ci tmpl path wr nm
    by (simp add: main_c_def c_bind_def c_lift_def load_template_ok write_header_c_list Let_def)
qed


text \<open>C32: a subject whose candidates all load, processed from an empty session into a writable report, prints its heading, then each non-empty candidate path in list order, then either "No matches" or, for every score in the order the dictionary yields them, an "Adding" line naming the same path and score as the report line appended for it; the session is left as it was.\<close>

theorem process_subject_console:
  assumes fp: "res_fullpath r = Some p" and wr: "writable h p" and sp: "st p = Some c"
    and ix: "indexes s = Some idx" and nc: "components s = []" and ld: "list_all (loads h) imgs"
  shows "process_subject_c h r sub imgs s st =
    (Inr s, st(p \<mapsto> c @ subject_report h idx imgs),
     (''Processing images for subject '' @ sub @ ''...'') # filter (\<lambda>p. p \<noteq> '''') imgs @
     (if loaded h imgs = [] then [''No matches for '' @ sub @ ''!'']
      else map (\<lambda>(i, sc). ''Adding '' @ i @ '' '' @ show_score h sc)
             (score_order h (score_dict idx (loaded h imgs)))))"
proof (cases "loaded h imgs = []")
  case True
  with nc ld show ?thesis
    by (simp add: process_subject_c_def process_images_c_ok subject_report_def c_bind_print
        c_bind_from c_return_def fun_upd_idem sp)
next
  case False
  let ?s' = "s\<lparr>components := loaded h imgs\<rparr>"
  have "match_overlap_matrix ?s' = Inr (score_dict idx (loaded h imgs))"
    using ix by (simp add: match_overlap_matrix_def)
  moreover have "reset ?s' = s"
    using nc by (simp add: reset_def)
  moreover note wro = c_bind_Inr [where m = "write_results_c h r (score_order h (score_dict idx (loaded h imgs)))",
      OF write_results_c_ok [where st = st, OF fp wr sp]]
  ultimately show ?thesis
    using False fp wr sp nc ld
    by (simp add: process_subject_c_def process_images_c_ok subject_report_def c_bind_print
        c_bind_from wro c_return_def)
qed



text \<open>C33: when a subject's candidate fails to load, after candidates that all load, the subject prints its heading, the non-empty paths before it, then the failing path and "Problem with" it, and the run ends with exit status 0 without writing anything for that subject.\<close>

theorem process_subject_console_fail:
  assumes pre: "list_all (loads h) pre" and ne: "img \<noteq> ''''" and bad: "load_data (image_at h) img = Inl e"
  shows "process_subject_c h r sub (pre @ img # post) s st =
    (Inl (SysExit 0), st,
     (''Processing images for subject '' @ sub @ ''...'') # filter (\<lambda>p. p \<noteq> '''') pre @
     [img, ''Problem with '' @ img @ ''. Exiting!''])"
proof -
  have "process_images_c h (pre @ img # post) s' =
      (Inl (SysExit 0), filter (\<lambda>p. p \<noteq> '''') pre @ [img, ''Problem with '' @ img @ ''. Exiting!''])" for s'
    using pre
  proof (induction pre arbitrary: s')
    case Nil
    with ne bad show ?case by simp
  next
    case (Cons q qs)
    then show ?case by (auto simp: loads_iff split: prod.split)
  qed
  then show ?thesis
    by (simp add: process_subject_c_def c_bind_print c_bind_from)
qed

end
