(* ===== verification/SubjectLoop.thy ===== *)
theory SubjectLoop
  imports Driver
begin

text \<open>
  The subject loop of \<open>main\<close> (src/pyMatch.py lines 201-266,
  \<open>for subject, images in found.iteritems()\<close>) as a transition system: a
  running state holds the subjects still to do, the \<open>Match\<close> session and the
  file store; one step processes one subject (\<open>process_subject\<close>) and either
  continues, or stops the run with the outcome of a failed subject; an empty
  list of subjects ends the loop. The lemmas show, by rule induction, that the
  session never changes and the report only grows (an invariant of every
  reachable state), that the loop reaches the state the recursive
  \<open>run_subjects\<close> computes, and that every score a subject writes is bounded
  by the size of the index set times a bound on the images' values.
\<close>

section \<open>Definitions\<close>

datatype 'v lstate =
    Running "(path \<times> path list) list" "'v session" store
  | Done "'v session" store
  | Stopped outcome store

inductive loop_step :: "'v::linordered_idom host \<Rightarrow> pymatchres \<Rightarrow> 'v lstate \<Rightarrow> 'v lstate \<Rightarrow> bool"
  for h r where
  subject_next:
    "process_subject h r sub imgs s st = (Inr s', st') \<Longrightarrow>
     loop_step h r (Running ((sub, imgs) # rest) s st) (Running rest s' st')"
| subject_stop:
    "process_subject h r sub imgs s st = (Inl e, st') \<Longrightarrow>
     loop_step h r (Running ((sub, imgs) # rest) s st) (Stopped e st')"
| loop_end: "loop_step h r (Running [] s st) (Done s st)"

text \<open>The final state a big-step run of the loop corresponds to.\<close>

fun lresult :: "(outcome + 'v session) \<times> store \<Rightarrow> 'v lstate" where
  "lresult (Inl e, st) = Stopped e st"
| "lresult (Inr s, st) = Done s st"

text \<open>The report at \<open>p\<close> extends \<open>c0\<close> and no other file differs from \<open>st0\<close>.\<close>

definition report_extends :: "path \<Rightarrow> string \<Rightarrow> store \<Rightarrow> store \<Rightarrow> bool" where
  "report_extends p c0 st0 st \<longleftrightarrow> (\<exists>x. st p = Some (c0 @ x)) \<and> (\<forall>q. q \<noteq> p \<longrightarrow> st q = st0 q)"

text \<open>The invariant: the session is the one the loop started with, and the report only grew.\<close>

fun loop_inv :: "path \<Rightarrow> string \<Rightarrow> store \<Rightarrow> 'v session \<Rightarrow> 'v lstate \<Rightarrow> bool" where
  "loop_inv p c0 st0 s0 (Running _ s st) \<longleftrightarrow> s = s0 \<and> report_extends p c0 st0 st"
| "loop_inv p c0 st0 s0 (Done s st) \<longleftrightarrow> s = s0 \<and> report_extends p c0 st0 st"
| "loop_inv p c0 st0 s0 (Stopped _ st) \<longleftrightarrow> report_extends p c0 st0 st"

section \<open>Lemmas\<close>

inductive_cases loop_step_DoneE [elim!]: "loop_step h r (Done s st) c"
inductive_cases loop_step_StoppedE [elim!]: "loop_step h r (Stopped e st) c"

text \<open>Every file write of a subject appends to the report, and touches nothing else.\<close>

lemma report_extends_refl [simp]: "st0 p = Some c0 \<Longrightarrow> report_extends p c0 st0 st0"
  by (auto simp: report_extends_def intro: exI [where x = "[]"])

lemma report_extends_append:
  "report_extends p c0 st0 st \<Longrightarrow> report_extends p c0 st0 (append_file p s st)"
  by (auto simp: report_extends_def append_file_def)

lemma add_result_extends:
  "res_fullpath r = Some p \<Longrightarrow> report_extends p c0 st0 st \<Longrightarrow> add_result h r line st = (res, st') \<Longrightarrow>
   report_extends p c0 st0 st'"
  by (auto simp: add_result_def report_extends_append split: if_splits)

lemma write_results_extends:
  "res_fullpath r = Some p \<Longrightarrow> report_extends p c0 st0 st \<Longrightarrow> write_results h r items st = (res, st') \<Longrightarrow>
   report_extends p c0 st0 st'"
proof (induction items arbitrary: st)
  case Nil
  then show ?case by (simp add: io_return_def)
next
  case (Cons it items)
  obtain i sc where it: "it = (i, sc)" by (cases it)
  obtain res1 st1 where a: "add_result h r (i @ [tab] @ show_score h sc) st = (res1, st1)"
    by (cases "add_result h r (i @ [tab] @ show_score h sc) st")
  have e1: "report_extends p c0 st0 st1"
    using add_result_extends [OF Cons.prems(1,2) a] .
  show ?case
  proof (cases res1)
    case (Inl o1)
    with Cons.prems(3) it a e1 show ?thesis by (simp add: io_bind_apply)
  next
    case (Inr u)
    with Cons.prems(3) it a have "write_results h r items st1 = (res, st')"
      by (simp add: io_bind_apply)
    with Cons.IH [OF Cons.prems(1) e1] show ?thesis by simp
  qed
qed

lemma process_subject_extends:
  "res_fullpath r = Some p \<Longrightarrow> report_extends p c0 st0 st \<Longrightarrow>
   process_subject h r sub imgs s st = (res, st') \<Longrightarrow> report_extends p c0 st0 st'"
  by (auto simp: process_subject_def io_bind_apply io_stop_def io_return_def
      split: sum.splits if_splits prod.splits dest: write_results_extends)

text \<open>The loop run for the subjects reaches the state of the big-step run.\<close>

lemma loop_reaches_result:
  "(loop_step h r)\<^sup>*\<^sup>* (Running subs s st) (lresult (run_subjects h r subs s st))"
proof (induction subs arbitrary: s st)
  case Nil
  have "loop_step h r (Running [] s st) (Done s st)" by (rule loop_end)
  then show ?case by (simp add: io_return_def)
next
  case (Cons si rest)
  obtain sub imgs where si: "si = (sub, imgs)" by (cases si)
  obtain res st' where ps: "process_subject h r sub imgs s st = (res, st')"
    by (cases "process_subject h r sub imgs s st")
  show ?case
  proof (cases res)
    case (Inl e)
    have "loop_step h r (Running (si # rest) s st) (Stopped e st')"
      unfolding si by (rule subject_stop) (use ps Inl in simp)
    with si ps Inl show ?thesis by (simp add: io_bind_apply)
  next
    case (Inr s')
    have "loop_step h r (Running (si # rest) s st) (Running rest s' st')"
      unfolding si by (rule subject_next) (use ps Inr in simp)
    with Cons.IH [of s' st'] si ps Inr show ?thesis
      by (simp add: io_bind_apply converse_rtranclp_into_rtranclp)
  qed
qed

text \<open>C26: in every state the subject loop reaches from a session with no candidates, the session is the one it started with (no candidate survives a subject), the report holds what it held at the start followed by appended text only, and no other file has changed.\<close>

theorem loop_invariant:
  assumes reach: "(loop_step h r)\<^sup>*\<^sup>* (Running subs s0 st0) c"
    and empty: "components s0 = []" and out: "res_fullpath r = Some p" and rep: "st0 p = Some c0"
  shows "loop_inv p c0 st0 s0 c"
  using reach
proof (induction rule: rtranclp_induct)
  case base
  then show ?case using rep by simp
next
  case (step b c)
  from step.hyps(2) step.IH show ?case
  proof (cases rule: loop_step.cases)
    case (subject_next sub imgs s st s' st' rest)
    with step.IH empty have "s' = s0" by (auto dest: process_subject_session)
    with subject_next step.IH out show ?thesis by (auto intro: process_subject_extends)
  next
    case (subject_stop sub imgs s st e st' rest)
    with step.IH out show ?thesis by (auto intro: process_subject_extends)
  qed auto
qed

text \<open>C28: when every image a subject lists has values bounded in absolute value by B, every score the subject writes lies between 0 and B times the size of the index set.\<close>

theorem process_subject_score_bound:
  assumes run: "process_subject h r sub imgs s st = (Inr s', st')"
    and empty: "components s = []" and idx: "indexes s = Some idx"
    and out: "res_fullpath r = Some p" "writable h p" "st p = Some c"
    and ok: "host_ok h"
    and bound: "\<forall>i d. i \<in> set imgs \<longrightarrow> load_data (image_at h) i = Inr d \<longrightarrow> (\<forall>q. \<bar>voxel (vol d) q\<bar> \<le> B)"
  shows "\<exists>items. st' = st(p \<mapsto> c @ result_lines h items) \<and>
    (\<forall>(i, sc) \<in> set items. 0 \<le> sc \<and> sc \<le> of_nat (length idx) * B)"
proof -
  have loads: "list_all (loads h) imgs"
    using run by (rule process_subject_Inr_loads)
  have st': "st' = st(p \<mapsto> c @ subject_report h idx imgs)"
    using run process_subject_ok [where st = st and p = p and c = c, OF out idx empty loads]
    by simp
  let ?d = "score_dict idx (loaded h imgs)"
  let ?items = "if loaded h imgs = [] then [] else score_order h ?d"
  have rep: "subject_report h idx imgs = result_lines h ?items"
    by (simp add: subject_report_def result_lines_def)
  have "set (score_order h ?d) = set ?d"
    using host_ok_score_order [OF ok] by (metis set_mset_mset)
  then have "\<forall>(i, sc) \<in> set ?items. 0 \<le> sc \<and> sc \<le> of_nat (length idx) * B"
    using bound by (auto simp: mem_score_dict_loaded score_abs_nonneg score_abs_bound)
  with st' rep show ?thesis by (intro exI [where x = ?items]) simp
qed

end
