(* ===== verification/Spec2Isabelle.thy ===== *)
theory Spec2Isabelle
  imports Console SubjectLoop
begin

text \<open>
  \<^bold>\<open>A verification library for pyMatch (src/pyMatch.py).\<close>

  pyMatch matches component images against a template image: it reads a list of
  subject folders and a list of candidate file names, finds the candidate files
  that exist (\<open>checkInput\<close>), loads the template, selects the template voxels
  with value greater than 0 as millimetre coordinates, and for each subject
  loads its candidates into an MRtools \<open>Match\<close> session, scores them against the
  selected coordinates, appends one line \<open>path TAB score\<close> per candidate to the
  report \<open><template>_beststats.txt\<close>, and resets the session.

  \<^bold>\<open>Parts and theories.\<close> Each theory models one part.
  \<^item> \<open>Prelude\<close>: type names (paths, voxel indices, millimetre coordinates, Python
    dictionaries as association lists in insertion order, \<open>dict_set\<close> for
    \<open>d[k] = v\<close>), and shared lemmas on sums over lists as multisets, absolute
    values, and the lexicographic order of nested ranges.
  \<^item> \<open>Volume\<close>: the Image Provider, \<open>MRtools.Data(path, '3D')\<close> (MRtools is not
    under src/; modelled from spec sections 3 and 4.1): images as lists of
    timepoints with an axis-aligned integer affine, \<open>resolve_volume\<close> (first
    non-empty timepoint, else the second, else an error), \<open>load_data\<close>, the
    affine and its inverse (\<open>mm_of_vox\<close>, \<open>vox_of_mm\<close>), \<open>value_at\<close> (zero off
    the volume). Lemmas: the inverse undoes the affine exactly on the volume
    (\<open>vox_of_mm_iff\<close>),
    loaded volumes are not empty, a loaded object is named by its path.
  \<^item> \<open>IndexSelector\<close>: \<open>setIndexCrit\<close>/\<open>genIndexMNI\<close> (spec 4.1): \<open>select_vox\<close>
    filters the voxels in numpy's C order, \<open>select_indices\<close> maps them to
    millimetres. Lemmas: the traversal equals the sorted enumeration of the
    passing voxels (\<open>select_vox_reference\<close>), the result is duplicate-free and
    each point reads back a passing value.
  \<^item> \<open>Scorer\<close>: the overlap score (spec 4.2), signed or absolute sum of the
    candidate's values at the index points. Lemmas: the score is the multiset
    sum (order invariance), absolute dominates signed, linear scaling, the
    template's score against its own index set.
  \<^item> \<open>Matcher\<close>: the \<open>MRtools.Match\<close> session (spec 4.3): record of template,
    criterion, index set, candidates; \<open>add_comp\<close>, \<open>match_overlap_matrix\<close>
    (a dictionary path to absolute score), \<open>reset\<close>; the same operations as an
    event machine \<open>session_step\<close> with its reachable states and their invariant.
  \<^item> \<open>PyRuntime\<close>: what the script's lines rely on in Python 2: \<open>str\<close> versus
    \<open>list\<close> in \<open>+\<close> (\<open>py_add\<close>), exceptions and exit statuses (\<open>outcome\<close>),
    \<open>rstrip\<close>, \<open>os.path.basename\<close>, \<open>os.path.splitext\<close>, line iteration of a
    text file, the environment of a run (\<open>host\<close>: file system, \<open>getcwd\<close>,
    \<open>str\<close> of a score, dictionary iteration orders), and a state-and-exception
    monad \<open>io\<close> over the store of written files.
  \<^item> \<open>PyMatchRes\<close>: class \<open>pyMatchRes\<close> (lines 51-97): \<open>set_path\<close>,
    \<open>write_header\<close>, \<open>add_result\<close>, \<open>add_images\<close>, each on the store.
  \<^item> \<open>Driver\<close>: \<open>readInput\<close> (105-117), \<open>checkInput\<close> (121-137, as the loops
    \<open>scan_subs\<close>/\<open>scan_comps\<close>), and \<open>main\<close> (140-266): the option loop
    \<open>collect_opts\<close>, the candidate loop \<open>process_images\<close>, the result loop
    \<open>write_results\<close>, one subject \<open>process_subject\<close>, the subject loop
    \<open>run_subjects\<close>, the matching phase \<open>run_matching\<close> and \<open>main\<close> itself.
  \<^item> \<open>Getopt\<close>: \<open>getopt.getopt\<close> of the Python 2.7 library, called at line 142
    (not under src/; translated from \<open>Lib/getopt.py\<close>): \<open>short_has_arg\<close>,
    \<open>do_shorts\<close>, \<open>long_has_args\<close> (unique prefixes), \<open>do_longs\<close>, and the
    argument loop as a \<open>while_option\<close> over the record \<open>gstate\<close>.
  \<^item> \<open>Entry\<close>: \<open>main(sys.argv[1:])\<close> (lines 268-269) as \<open>pymatch_entry\<close>:
    \<open>getopt\<close> feeding \<open>main\<close>.
  \<^item> \<open>SubjectLoop\<close>: the subject loop (lines 201-266) as an inductive
    transition system \<open>loop_step\<close> over running, done and stopped states.
  \<^item> \<open>ConsoleIO\<close>: standard output: a writer layered over \<open>io\<close> (\<open>'a cio\<close>:
    a computation that also returns the arguments of its \<open>print\<close> statements,
    \<open>c_print\<close>, \<open>c_bind\<close>, \<open>c_erase\<close>), the module docstring \<open>usage_doc\<close>
    (lines 3-35) that \<open>usage()\<close> (lines 101-102) prints, and \<open>str\<close> of a count
    (\<open>py_str_nat\<close>, with \<open>dec_value_py_str_nat\<close>: the digits read back as
    the number).
  \<^item> \<open>Console\<close>: every \<open>print\<close> of the script. Each printing definition has the
    name of the silent one it instruments with the suffix \<open>_c\<close>
    (\<open>write_header_c\<close>, \<open>add_result_c\<close>, \<open>read_input_c\<close>, \<open>scan_subs_c\<close>,
    \<open>check_input_c\<close>, \<open>process_images_c\<close>, \<open>write_results_c\<close>,
    \<open>process_subject_c\<close>, \<open>run_subjects_c\<close>, \<open>run_matching_c\<close>, \<open>main_c\<close>,
    \<open>pymatch_entry_c\<close>) and the \<open>print\<close> statements at the lines where the
    code has them; \<open>*_c_erase\<close> shows that erasing the output gives back the
    silent definition, so every theorem about the silent model holds of the
    printing one.
  The theories import each other in the order listed, except that \<open>Getopt\<close>
  needs only \<open>Prelude\<close>, \<open>Entry\<close> and \<open>SubjectLoop\<close> both build on \<open>Driver\<close>,
  \<open>ConsoleIO\<close> on \<open>PyRuntime\<close>, and \<open>Console\<close> on \<open>Entry\<close> and \<open>ConsoleIO\<close>.
  This theory adds a concrete environment (the end-to-end scenario of spec
  section 8) and the witnesses of the theorems with hypotheses.

  \<^bold>\<open>What is proved.\<close> \<open>main\<close> as written never reaches the matching phase:
  \<open>writeHeader\<close> is called with a list, so \<open>header + "\n"\<close> raises
  \<open>TypeError\<close>, caught by a bare \<open>except\<close> that exits with status 0 after the
  report was truncated (C1). The matching phase itself, the part the
  specification describes, is verified on its own: its index set (C5), the
  report it appends (C2), that the long-lived session with resets is the
  fresh-session design (C3), that no candidate leaks between subjects (C4),
  that the reset placement is harmless (C11), the self-match score (C9), one
  line per distinct candidate path with that image's score (C16), its failure
  on an unreadable candidate (C10), and, as a transition system, that every
  reachable state keeps the session and only appends to the report (C26, by
  rule induction) and that every score written is bounded by the size of the
  index set times a bound on the candidate's values (C28). The input side:
  \<open>checkInput\<close> (C6, C7), \<open>readInput\<close> round trip (C8). The error paths of
  \<open>main\<close> (C12-C14); the broken \<open>addImages\<close> (C15); \<open>setPath\<close> strips the
  directory and only the last extension of any template path (C17); the
  option loop keeps the last occurrence of each option and exits on help
  (C18); \<open>main\<close> exits early on a \<open>getopt\<close> error or a help request (C19);
  one file can be found under two subjects, because identities are
  \<open>sub + "/" + comp\<close>, and is then scored and reported twice (C20); a report
  that cannot be appended to ends the run with status 0 (C21);
  \<open>writeHeader\<close> succeeds exactly on a \<open>str\<close> (C27).

  The command line: the \<open>getopt\<close> call always returns and yields only
  pyMatch's option names (C22, a termination proof by a measure on the
  \<open>while_option\<close> and a loop invariant), and parsing rendered pyMatch
  options gives them back (C23); the run ends with exit status 2 exactly when
  getopt rejects the command line, since no later step exits with status 2
  (C24); a command line starting with a non-option raises
  \<open>UnboundLocalError\<close> (C25).

  The console: a rejected command line or a help request prints the docstring
  and nothing else (C29); \<open>checkInput\<close> prints one count per non-empty
  subject, duplicates included (C30); a run that reaches \<open>writeHeader\<close> ends
  by printing "Cannot write file" for a writable report, the only sign on the
  console of the \<open>TypeError\<close> of C1 (C31); a subject echoes, for every
  score, the path and score of the line appended to the report, in the same
  order (C32); a candidate that fails to load is printed and reported as a
  problem before the run exits with status 0 (C33). The erasure lemmas
  \<open>*_c_erase\<close> show that printing changes nothing else.

  The component theories also prove, as lemmas the claims build on, that the
  inverse affine undoes the affine exactly on the volume (\<open>vox_of_mm_iff\<close>),
  that \<open>genIndexMNI\<close> returns each passing voxel once
  (\<open>select_indices_spec\<close>), that the signed score is bounded by the absolute
  one, that scores scale linearly (\<open>score_scale\<close>), that reachable sessions
  satisfy \<open>session_inv\<close>, and that the subject loop as a transition system
  reaches the state \<open>run_subjects\<close> computes (\<open>loop_reaches_result\<close>).

  \<^bold>\<open>Modelling choices.\<close> Voxel values are any \<open>linordered_idom\<close> (the witnesses
  use \<open>int\<close>); Python floats are not modelled: scores are exact sums, so
  effects of the order of float additions are out of scope. Dictionary iteration order and \<open>str()\<close> of a score are
  parameters of the host; theorems that need it assume the order is a
  permutation (\<open>host_ok\<close>). \<open>main\<close> takes the result of \<open>getopt\<close>, and
  \<open>pymatch_entry\<close> composes the two.
  All loops of the script are structural recursion on lists, so every
  definition is total and executable; no fuel is needed. The loop of \<open>getopt\<close>
  is a \<open>while_option\<close> whose termination is proved (C22).

  \<^bold>\<open>Not modelled.\<close> The module metadata and imports (lines 37-48), which
  compute nothing; the locals \<open>matrix\<close> and \<open>rowLabels\<close>, which are filled
  and never read; the commented-out top-three ranking (lines 225-251), which
  never runs; MRtools itself beyond the contract of the specification (its
  code is not in the repository); the interleaving of standard output with
  Python's traceback on standard error (an uncaught exception is the outcome
  \<open>Raised\<close>, its text is not modelled).

  \<^bold>\<open>Plan for later work.\<close> The top-three ranking the docstring promises, as a
  reference specification of what \<open>_bestcomps.txt\<close> should hold; a
  signed/absolute \<open>matchOverlap\<close> pair; a general (non-diagonal) affine.
\<close>

section \<open>A concrete environment\<close>

definition demo_aff :: affine where
  "demo_aff = \<lparr>sx = 2, ox = -2, sy = 1, oy = 0, sz = 1, oz = 0\<rparr>"

text \<open>A 2x1x1 volume with value \<open>a\<close> at voxel 0 and \<open>b\<close> at voxel 1.\<close>

definition demo_vol :: "int \<Rightarrow> int \<Rightarrow> int volume" where
  "demo_vol a b = \<lparr>dims = (2, 1, 1), voxel = (\<lambda>(i, j, k). if i = 0 then a else b)\<rparr>"

definition demo_image :: "int volume list \<Rightarrow> int image" where
  "demo_image vs = \<lparr>timepoints = vs, img_affine = demo_aff\<rparr>"

definition demo_files :: "path \<Rightarrow> int image option" where
  "demo_files p =
     (if p = ''/tmpl.nii.gz'' then Some (demo_image [demo_vol 3 (-1)])
      else if p = ''/s1/compA.nii'' \<or> p = ''/s2/compA.nii'' then Some (demo_image [demo_vol 5 7])
      else if p = ''/s2/compB.nii'' then Some (demo_image [demo_vol (-4) 0])
      else None)"

text \<open>The empty-template scenario of spec section 8: both timepoints of the template are zero.\<close>

definition demo_files_empty_tmpl :: "path \<Rightarrow> int image option" where
  "demo_files_empty_tmpl p =
     (if p = ''/tmpl.nii.gz'' then Some (demo_image [demo_vol 0 0, demo_vol 0 0]) else demo_files p)"

definition demo_text :: "path \<Rightarrow> string option" where
  "demo_text p =
     (if p = ''subs.txt'' then Some ''/s1\<newline>/s2\<newline>''
      else if p = ''imgs.txt'' then Some ''compA.nii\<newline>compB.nii\<newline>'' else None)"

text \<open>The scenario of spec section 8: /s1 holds compA, /s2 holds compA and compB.\<close>

definition demo_host :: "int host" where
  "demo_host =
     \<lparr>isfile = (\<lambda>p. p \<in> set [''/s1/compA.nii'', ''/s2/compA.nii'', ''/s2/compB.nii'']),
      image_at = demo_files, file_text = demo_text, writable = (\<lambda>_. True), cwd = ''/work'',
      show_score = (\<lambda>x. py_str_nat (nat x)), sub_order = id, score_order = id\<rparr>"

definition demo_opts :: "(string \<times> string) list" where
  "demo_opts = [(''--template'', ''/tmpl.nii.gz''), (''--subs'', ''subs.txt''),
                (''--images'', ''imgs.txt''), (''--output'', ''/out'')]"

definition demo_res :: pymatchres where
  "demo_res = new_pymatchres ''/out'' ''/tmpl.nii.gz''"

definition demo_tmpl :: "int data" where
  "demo_tmpl = \<lparr>name = ''/tmpl.nii.gz'', vol = demo_vol 3 (-1), aff = demo_aff\<rparr>"

definition demo_found :: "(path, path list) pydict" where
  "demo_found = [(''/s1'', [''/s1/compA.nii'']), (''/s2'', [''/s2/compA.nii'', ''/s2/compB.nii''])]"

text \<open>The session after \<open>genIndexMNI\<close>: the one template voxel above 0 is at -2 mm.\<close>

definition demo_session :: "int session" where
  "demo_session = fresh_session demo_tmpl (Crit Gt 0) [(-2, 0, 0)]"

section \<open>Evaluation facts of the concrete environment\<close>

lemma demo_opts_collect:
  "collect_opts demo_opts unbound_vars =
     Inr \<lparr>v_input1 = Some ''/tmpl.nii.gz'', v_input2 = Some ''imgs.txt'',
          v_sublist = Some ''subs.txt'', v_output = Some ''/out''\<rparr>"
  by (simp add: demo_opts_def unbound_vars_def)

lemma demo_read_subs: "read_input demo_host ''subs.txt'' st = (Inr [''/s1'', ''/s2''], st)"
  by (simp add: read_input_def demo_host_def demo_text_def py_lines_def py_rstrip_def
      py_rstrip_chars_def py_isspace_def)

lemma demo_read_imgs:
  "read_input demo_host ''imgs.txt'' st = (Inr [''compA.nii'', ''compB.nii''], st)"
  by (simp add: read_input_def demo_host_def demo_text_def py_lines_def py_rstrip_def
      py_rstrip_chars_def py_isspace_def)

lemma demo_existing_s1: "existing demo_host ''/s1'' [''compA.nii'', ''compB.nii''] = [''/s1/compA.nii'']"
  by (simp add: existing_def demo_host_def)

lemma demo_load_tmpl: "load_data (image_at demo_host) ''/tmpl.nii.gz'' = Inr demo_tmpl"
  by (simp add: load_data_def demo_host_def demo_files_def demo_image_def vol_empty_def
      demo_vol_def demo_tmpl_def upt_rec)

lemma demo_report_path:
  "res_fullpath (new_pymatchres (if ''/out'' = [] then cwd demo_host else ''/out'') ''/tmpl.nii.gz'')
     = Some ''/out/tmpl.nii_beststats.txt''"
  by code_simp

lemma demo_res_path: "res_fullpath demo_res = Some ''/out/tmpl.nii_beststats.txt''"
  by (simp add: demo_res_def) code_simp

lemma demo_loads: "list_all (loads demo_host) [''/s1/compA.nii'', ''/s2/compA.nii'', ''/s2/compB.nii'', ''/tmpl.nii.gz'']"
  by (simp add: loads_def load_data_def demo_host_def demo_files_def demo_image_def vol_empty_def
      demo_vol_def upt_rec)

lemma demo_load_empty:
  "load_data demo_files_empty_tmpl ''/tmpl.nii.gz'' = Inl (ImageEmpty ''/tmpl.nii.gz'')"
  by (simp add: load_data_def demo_files_empty_tmpl_def demo_image_def vol_empty_def demo_vol_def upt_rec)

lemma demo_host_ok: "host_ok demo_host"
  by (simp add: host_ok_def demo_host_def)

lemma demo_affine_ok: "affine_ok (aff demo_tmpl)"
  by (simp add: affine_ok_def demo_tmpl_def demo_aff_def)

section \<open>Witnesses\<close>

lemma read_input_other_fields:
  "read_input (h\<lparr>isfile := f, image_at := g\<rparr>) = read_input h"
  by (simp add: read_input_def fun_eq_iff)

lemma demo_session_fields:
  "indexes demo_session = Some [(-2, 0, 0)]" "components demo_session = []"
  by (simp_all add: demo_session_def fresh_session_def)

lemma demo_select_tmpl: "select_indices (Crit Gt 0) demo_tmpl = [(-2, 0, 0)]"
  by (simp add: select_indices_def select_vox_def demo_tmpl_def demo_vol_def mm_of_vox_def
      demo_aff_def upt_rec)

lemma demo_writable: "writable demo_host p"
  by (simp add: demo_host_def)

lemma demo_process_s2:
  "process_subject demo_host demo_res ''/s2'' [''/s2/compA.nii'', ''/s2/compB.nii''] demo_session
      [''/out/tmpl.nii_beststats.txt'' \<mapsto> ''h''] =
    (Inr demo_session, [''/out/tmpl.nii_beststats.txt'' \<mapsto> ''h''](''/out/tmpl.nii_beststats.txt'' \<mapsto>
        ''h'' @ subject_report demo_host [(-2, 0, 0)] [''/s2/compA.nii'', ''/s2/compB.nii'']))"
  by (rule process_subject_ok [OF demo_res_path demo_writable _ demo_session_fields])
     (use demo_loads in simp_all)


theorem main_header_exit_witness:
  "main demo_host (Some demo_opts) Map.empty = (Inl (SysExit 0), [''/out/tmpl.nii_beststats.txt'' \<mapsto> ''''])"
  by (rule main_header_exit [OF demo_opts_collect _ _ _ _ demo_read_subs demo_read_imgs _
        demo_load_tmpl demo_report_path demo_writable])
     (simp_all add: demo_existing_s1)

theorem run_subjects_report_witness:
  "run_subjects demo_host demo_res demo_found demo_session [''/out/tmpl.nii_beststats.txt'' \<mapsto> ''h''] =
     (Inr demo_session, [''/out/tmpl.nii_beststats.txt'' \<mapsto> ''h''](''/out/tmpl.nii_beststats.txt'' \<mapsto>
        ''h'' @ concat (map (\<lambda>(sub, imgs). subject_report demo_host [(-2, 0, 0)] imgs) demo_found)))"
  by (rule run_subjects_report [OF demo_res_path demo_writable _ demo_session_fields])
     (use demo_loads in \<open>simp_all add: demo_found_def\<close>)

theorem run_subjects_fresh_witness:
  "run_subjects demo_host demo_res demo_found demo_session =
     io_bind (run_fresh demo_host demo_res demo_session demo_found) (\<lambda>_. io_return demo_session)"
  by (rule run_subjects_fresh) (simp add: demo_session_fields)

theorem process_subject_no_leak_witness:
  "demo_session = demo_session \<and>
   (\<exists>items. [''/out/tmpl.nii_beststats.txt'' \<mapsto> ''h''](''/out/tmpl.nii_beststats.txt'' \<mapsto>
        ''h'' @ subject_report demo_host [(-2, 0, 0)] [''/s2/compA.nii'', ''/s2/compB.nii'']) =
      [''/out/tmpl.nii_beststats.txt'' \<mapsto> ''h''](''/out/tmpl.nii_beststats.txt'' \<mapsto> ''h'' @ result_lines demo_host items) \<and>
      fst ` set items = set (filter (\<lambda>q. q \<noteq> '''') [''/s2/compA.nii'', ''/s2/compB.nii'']))"
proof -
  note eq = demo_process_s2
  show ?thesis
    by (rule process_subject_no_leak [OF eq demo_session_fields(2) demo_session_fields(1)
          demo_res_path demo_writable _ demo_host_ok]) simp
qed

theorem check_input_found_witness:
  "Map.empty = Map.empty \<and> distinct (map fst (fst (scan_subs demo_host [''/s1'', ''/s2''] [''compA.nii'', ''compB.nii''] ([], 0)))) \<and>
   (\<forall>sub. map_of (fst (scan_subs demo_host [''/s1'', ''/s2''] [''compA.nii'', ''compB.nii''] ([], 0))) sub =
      (if sub \<in> set [''/s1'', ''/s2''] \<and> sub \<noteq> '''' then Some (existing demo_host sub [''compA.nii'', ''compB.nii''])
       else None)) \<and>
   (\<exists>sub \<in> set [''/s1'', ''/s2'']. sub \<noteq> '''' \<and> existing demo_host sub [''compA.nii'', ''compB.nii''] \<noteq> [])"
proof -
  have ok: "check_input demo_host [''/s1'', ''/s2''] [''compA.nii'', ''compB.nii''] Map.empty =
      (Inr (fst (scan_subs demo_host [''/s1'', ''/s2''] [''compA.nii'', ''compB.nii''] ([], 0))), Map.empty)"
    by (rule check_input_ok) (simp add: demo_existing_s1)
  show ?thesis using check_input_found [OF ok] by simp
qed

theorem check_input_exit_witness:
  "check_input (demo_host\<lparr>isfile := (\<lambda>_. False)\<rparr>) [''/s1'', ''/s2''] [''compA.nii'', ''compB.nii''] Map.empty =
     (Inl (SysExit 32), Map.empty)"
  by (rule check_input_exit [THEN iffD2]) (simp add: existing_def)

theorem read_input_roundtrip_witness:
  "read_input demo_host ''subs.txt'' Map.empty = (Inr [''/s1'', ''/s2''], Map.empty)"
  by (rule read_input_roundtrip) (simp_all add: demo_host_def demo_text_def py_isspace_def)
theorem process_subject_self_match_witness:
  "process_subject demo_host demo_res ''/s3'' [''/tmpl.nii.gz''] demo_session
      [''/out/tmpl.nii_beststats.txt'' \<mapsto> ''h''] =
    (Inr demo_session, [''/out/tmpl.nii_beststats.txt'' \<mapsto> ''h''](''/out/tmpl.nii_beststats.txt'' \<mapsto> ''h'' @
       ''/tmpl.nii.gz'' @ [tab] @ show_score demo_host
         (sum_list (map (voxel (vol demo_tmpl)) (select_vox (Crit Gt 0) (vol demo_tmpl)))) @ [nl]))"
  by (rule process_subject_self_match [OF demo_load_tmpl _ demo_affine_ok demo_res_path demo_writable _
        demo_session_fields(2) _ demo_host_ok])
     (simp_all add: demo_session_fields demo_select_tmpl)

theorem run_subjects_candidate_fail_witness:
  "run_subjects demo_host demo_res ([(''/s1'', [''/s1/compA.nii''])] @ (''/s2'', [''/s2/compX.nii'']) # [])
      demo_session [''/out/tmpl.nii_beststats.txt'' \<mapsto> ''h''] =
    (Inl (SysExit 0), [''/out/tmpl.nii_beststats.txt'' \<mapsto> ''h''](''/out/tmpl.nii_beststats.txt'' \<mapsto>
       ''h'' @ concat (map (\<lambda>(sub, imgs). subject_report demo_host [(-2, 0, 0)] imgs)
                   [(''/s1'', [''/s1/compA.nii''])])))"
  by (rule run_subjects_candidate_fail [OF demo_res_path demo_writable _ demo_session_fields])
     (use demo_loads in \<open>simp_all add: loads_def load_data_def demo_host_def demo_files_def\<close>)

theorem process_subject_reset_equiv_witness:
  "process_subject demo_host demo_res ''/s1'' [''/s1/compA.nii''] demo_session =
   process_subject_always_reset demo_host demo_res ''/s1'' [''/s1/compA.nii''] demo_session"
  by (rule process_subject_reset_equiv) (simp add: demo_session_fields)

theorem main_no_candidates_witness:
  "main (demo_host\<lparr>isfile := (\<lambda>_. False), image_at := demo_files\<rparr>) (Some demo_opts) Map.empty =
     (Inl (SysExit 32), Map.empty)"
  by (rule main_no_candidates [OF demo_opts_collect _ _
        demo_read_subs [folded read_input_other_fields [where h = demo_host and f = "\<lambda>_. False" and g = demo_files]]
        demo_read_imgs [folded read_input_other_fields [where h = demo_host and f = "\<lambda>_. False" and g = demo_files]]])
     (simp_all add: existing_def)

theorem main_template_error_witness:
  "main (demo_host\<lparr>isfile := isfile demo_host,
           image_at := demo_files_empty_tmpl\<rparr>)
        (Some demo_opts) Map.empty =
     (Inl (Raised (MRtoolsError (ImageEmpty ''/tmpl.nii.gz''))), Map.empty)"
proof -
  let ?h = "demo_host\<lparr>isfile := isfile demo_host, image_at := demo_files_empty_tmpl\<rparr>"
  have l: "load_data (image_at ?h) ''/tmpl.nii.gz'' = Inl (ImageEmpty ''/tmpl.nii.gz'')"
    using demo_load_empty by simp
  have e: "\<exists>sub \<in> set [''/s1'', ''/s2'']. sub \<noteq> [] \<and> existing ?h sub [''compA.nii'', ''compB.nii''] \<noteq> []"
    by (simp add: existing_def demo_host_def)
  show ?thesis
    by (rule main_template_error [OF demo_opts_collect _ _ _
        demo_read_subs [folded read_input_other_fields [where h = demo_host and f = "isfile demo_host"
          and g = "demo_files_empty_tmpl"]]
        demo_read_imgs [folded read_input_other_fields [where h = demo_host and f = "isfile demo_host"
          and g = "demo_files_empty_tmpl"]] e l]) simp_all
qed

theorem main_missing_output_witness:
  "main demo_host (Some [(''-t'', ''/tmpl.nii.gz''), (''-s'', ''subs.txt''), (''-i'', ''imgs.txt'')]) Map.empty =
     (Inl (Raised (UnboundLocalError ''output'')), Map.empty)"
proof -
  have opts: "collect_opts [(''-t'', ''/tmpl.nii.gz''), (''-s'', ''subs.txt''), (''-i'', ''imgs.txt'')]
      unbound_vars = Inr \<lparr>v_input1 = Some ''/tmpl.nii.gz'', v_input2 = Some ''imgs.txt'',
        v_sublist = Some ''subs.txt'', v_output = None\<rparr>"
    by (simp add: unbound_vars_def)
  show ?thesis
    by (rule main_missing_output [OF opts _ _ _ _ demo_read_subs demo_read_imgs _ demo_load_tmpl])
       (simp_all add: demo_existing_s1)
qed

lemma main_early_exit_witness:
  "main demo_host None Map.empty = (Inl (SysExit 2), Map.empty) \<and>
   main demo_host (Some [(''-t'', ''x''), (''-h'', '''')]) Map.empty = (Inl (SysExit 0), Map.empty)"
  using Driver.main_early_exit [of demo_host Map.empty "[(''-t'', ''x''), (''-h'', '''')]"] by simp

theorem process_subject_one_line_per_path_witness:
  "\<exists>items.
     [''/out/tmpl.nii_beststats.txt'' \<mapsto> ''h''](''/out/tmpl.nii_beststats.txt'' \<mapsto>
        ''h'' @ subject_report demo_host [(-2, 0, 0)] [''/s2/compA.nii'', ''/s2/compB.nii'']) =
     [''/out/tmpl.nii_beststats.txt'' \<mapsto> ''h''](''/out/tmpl.nii_beststats.txt'' \<mapsto> ''h'' @ result_lines demo_host items) \<and>
     distinct (map fst items) \<and>
     (\<forall>i sc. (i, sc) \<in> set items \<longleftrightarrow>
        i \<in> set [''/s2/compA.nii'', ''/s2/compB.nii''] \<and> i \<noteq> '''' \<and>
        (\<exists>d. load_data (image_at demo_host) i = Inr d \<and> sc = score Absolute [(-2, 0, 0)] d))"
  by (rule process_subject_one_line_per_path [OF demo_process_s2 demo_session_fields(2) demo_session_fields(1)
        demo_res_path demo_writable _ demo_host_ok]) simp
theorem entry_exit2_iff_witness:
  "getopt [''-t'', ''/tmpl.nii.gz'', ''--bogus''] pm_shortopts pm_longopts = Some (Inl (OptNotRecognized ''bogus'')) \<and>
   pymatch_entry demo_host [''-t'', ''/tmpl.nii.gz'', ''--bogus''] Map.empty = (Inl (SysExit 2), Map.empty)"
proof -
  have g: "getopt [''-t'', ''/tmpl.nii.gz'', ''--bogus''] pm_shortopts pm_longopts =
      Some (Inl (OptNotRecognized ''bogus''))"
    by code_simp
  show ?thesis
    using g Entry.entry_exit2_iff [of demo_host "[''-t'', ''/tmpl.nii.gz'', ''--bogus'']" Map.empty Map.empty]
    by simp
qed

text \<open>The collision scenario: only a/b/c exists, holding the values 5 and 7.\<close>

definition collide_host :: "int host" where
  "collide_host =
     demo_host\<lparr>isfile := (\<lambda>p. p = ''a/b/c''),
               image_at := (\<lambda>p. if p = ''a/b/c'' then Some (demo_image [demo_vol 5 7]) else None)\<rparr>"

theorem check_input_path_collision_witness:
  "\<exists>found. check_input collide_host [''a'', ''a/b''] [''b/c'', ''c''] [''/out/tmpl.nii_beststats.txt'' \<mapsto> ''h''] =
      (Inr found, [''/out/tmpl.nii_beststats.txt'' \<mapsto> ''h'']) \<and>
    run_subjects collide_host demo_res (sub_order collide_host found) demo_session
      [''/out/tmpl.nii_beststats.txt'' \<mapsto> ''h''] =
      (Inr demo_session, [''/out/tmpl.nii_beststats.txt'' \<mapsto> ''h''](''/out/tmpl.nii_beststats.txt'' \<mapsto> ''h'' @
         (''a/b/c'' @ [tab] @ show_score collide_host
            (score Absolute [(-2, 0, 0)] \<lparr>name = ''a/b/c'', vol = demo_vol 5 7, aff = demo_aff\<rparr>) @ [nl]) @
         (''a/b/c'' @ [tab] @ show_score collide_host
            (score Absolute [(-2, 0, 0)] \<lparr>name = ''a/b/c'', vol = demo_vol 5 7, aff = demo_aff\<rparr>) @ [nl])))"
proof (rule Driver.check_input_path_collision)
  show "load_data (image_at collide_host) ''a/b/c'' = Inr \<lparr>name = ''a/b/c'', vol = demo_vol 5 7, aff = demo_aff\<rparr>"
    by (simp add: collide_host_def load_data_def demo_image_def vol_empty_def demo_vol_def upt_rec)
  show "host_ok collide_host" by (simp add: host_ok_def collide_host_def demo_host_def)
  show "res_fullpath demo_res = Some ''/out/tmpl.nii_beststats.txt''" by (rule demo_res_path)
qed (simp_all add: collide_host_def demo_host_def demo_session_fields)

theorem entry_positional_witness:
  "pymatch_entry demo_host [''run'', ''--subs=subs.txt''] Map.empty =
     (Inl (Raised (UnboundLocalError ''sublist'')), Map.empty)"
  by (rule Entry.entry_positional) simp

theorem loop_invariant_witness:
  "loop_inv ''/out/tmpl.nii_beststats.txt'' ''h'' [''/out/tmpl.nii_beststats.txt'' \<mapsto> ''h''] demo_session
     (lresult (run_subjects demo_host demo_res demo_found demo_session [''/out/tmpl.nii_beststats.txt'' \<mapsto> ''h'']))"
  by (rule SubjectLoop.loop_invariant [OF loop_reaches_result demo_session_fields(2) demo_res_path]) simp

theorem write_header_type_witness:
  "(\<exists>st'. write_header demo_host demo_res (PyList [PyStr ''/tmpl.nii.gz:template'']) Map.empty = (Inr (), st')) \<longleftrightarrow>
   (\<exists>s. PyList [PyStr ''/tmpl.nii.gz:template''] = PyStr s)"
  by (rule PyMatchRes.write_header_type [OF demo_res_path demo_writable])

theorem process_subject_score_bound_witness:
  "\<exists>items.
     [''/out/tmpl.nii_beststats.txt'' \<mapsto> ''h''](''/out/tmpl.nii_beststats.txt'' \<mapsto>
        ''h'' @ subject_report demo_host [(-2, 0, 0)] [''/s2/compA.nii'', ''/s2/compB.nii'']) =
     [''/out/tmpl.nii_beststats.txt'' \<mapsto> ''h''](''/out/tmpl.nii_beststats.txt'' \<mapsto> ''h'' @ result_lines demo_host items) \<and>
     (\<forall>(i, sc) \<in> set items. 0 \<le> sc \<and> sc \<le> of_nat (length [(-2 :: int, 0 :: int, 0 :: int)]) * 7)"
proof (rule SubjectLoop.process_subject_score_bound [OF demo_process_s2 demo_session_fields(2) demo_session_fields(1)
      demo_res_path demo_writable _ demo_host_ok])
  show "[''/out/tmpl.nii_beststats.txt'' \<mapsto> ''h''] ''/out/tmpl.nii_beststats.txt'' = Some ''h''" by simp
  show "\<forall>i d. i \<in> set [''/s2/compA.nii'', ''/s2/compB.nii''] \<longrightarrow> load_data (image_at demo_host) i = Inr d \<longrightarrow>
      (\<forall>q. \<bar>voxel (vol d) q\<bar> \<le> 7)"
    by (auto simp: load_data_def demo_host_def demo_files_def demo_image_def demo_vol_def vol_empty_def upt_rec
        split: if_splits)
qed

lemma demo_existing_s2:
  "existing demo_host ''/s2'' [''compA.nii'', ''compB.nii''] = [''/s2/compA.nii'', ''/s2/compB.nii'']"
  by (simp add: existing_def demo_host_def)

lemma demo_str_counts:
  "py_str_nat (Suc 0) = ''1''" "py_str_nat (Suc (Suc 0)) = ''2''"
  "py_str_nat 5 = ''5''" "py_str_nat 4 = ''4''"
  by code_simp+

lemma demo_show: "show_score demo_host = (\<lambda>x. py_str_nat (nat x))"
  by (simp add: demo_host_def)

lemma demo_items_s2:
  "score_order demo_host (score_dict [(-2, 0, 0)] (loaded demo_host [''/s2/compA.nii'', '''', ''/s2/compB.nii''])) =
     [(''/s2/compA.nii'', 5), (''/s2/compB.nii'', 4)]"
  by code_simp

theorem main_usage_witness:
  "main_c demo_host None Map.empty = (Inl (SysExit 2), Map.empty, [usage_doc]) \<and>
   main_c demo_host (Some [(''-t'', ''x''), (''--help'', '''')]) Map.empty =
     (Inl (SysExit 0), Map.empty, [usage_doc])"
  using Console.main_usage [of demo_host Map.empty "[(''-t'', ''x''), (''--help'', '''')]"] by simp

theorem check_input_console_witness:
  "c_out (check_input_c demo_host [''/s1'', '''', ''/s2''] [''compA.nii'', ''compB.nii'']) Map.empty =
     [''Checking for all components images for each output/subject...'',
      ''Found 1 components for subject /s1!'', ''Found 2 components for subject /s2!'']"
  using Console.check_input_console [of demo_host "[''/s1'', '''', ''/s2'']" "[''compA.nii'', ''compB.nii'']" Map.empty]
  by (simp add: demo_existing_s1 demo_existing_s2 demo_str_counts)

theorem main_console_header_witness:
  "main_c demo_host (Some demo_opts) Map.empty =
     (Inl (SysExit 0), [''/out/tmpl.nii_beststats.txt'' \<mapsto> ''''],
      [''Reading input file subs.txt'', ''Reading input file imgs.txt'',
       ''Checking for all components images for each output/subject...'',
       ''Found 1 components for subject /s1!'', ''Found 2 components for subject /s2!'',
       ''Cannot write file /out/tmpl.nii_beststats.txt. Exiting''])"
proof -
  have "main_c demo_host (Some demo_opts) Map.empty =
     (Inl (SysExit 0), Map.empty(''/out/tmpl.nii_beststats.txt'' \<mapsto> ''''),
      [''Reading input file '' @ ''subs.txt'', ''Reading input file '' @ ''imgs.txt'',
       ''Checking for all components images for each output/subject...''] @
      map (\<lambda>sub. ''Found '' @ py_str_nat (length (existing demo_host sub [''compA.nii'', ''compB.nii''])) @
                  '' components for subject '' @ sub @ ''!'')
        (filter (\<lambda>sub. sub \<noteq> '''') [''/s1'', ''/s2'']) @
      [''Cannot write file '' @ ''/out/tmpl.nii_beststats.txt'' @ ''. Exiting''])"
    by (rule Console.main_console_header [OF demo_opts_collect _ _ _ _ demo_read_subs demo_read_imgs _
          demo_load_tmpl demo_report_path demo_writable])
       (simp_all add: demo_existing_s1)
  then show ?thesis by (simp add: demo_existing_s1 demo_existing_s2 demo_str_counts)
qed

theorem process_subject_console_witness:
  "process_subject_c demo_host demo_res ''/s2'' [''/s2/compA.nii'', '''', ''/s2/compB.nii''] demo_session
      [''/out/tmpl.nii_beststats.txt'' \<mapsto> ''h''] =
    (Inr demo_session,
     [''/out/tmpl.nii_beststats.txt'' \<mapsto> ''h''](''/out/tmpl.nii_beststats.txt'' \<mapsto>
        ''h'' @ subject_report demo_host [(-2, 0, 0)] [''/s2/compA.nii'', '''', ''/s2/compB.nii'']),
     [''Processing images for subject /s2...'', ''/s2/compA.nii'', ''/s2/compB.nii'',
      ''Adding /s2/compA.nii 5'', ''Adding /s2/compB.nii 4''])"
proof -
  have ld: "list_all (loads demo_host) [''/s2/compA.nii'', '''', ''/s2/compB.nii'']"
    using demo_loads by (simp add: loads_def)
  have ne: "loaded demo_host [''/s2/compA.nii'', '''', ''/s2/compB.nii''] \<noteq> []"
    using demo_items_s2 by (auto simp: demo_host_def score_dict_def)
  have "process_subject_c demo_host demo_res ''/s2'' [''/s2/compA.nii'', '''', ''/s2/compB.nii''] demo_session
      [''/out/tmpl.nii_beststats.txt'' \<mapsto> ''h''] =
    (Inr demo_session,
     [''/out/tmpl.nii_beststats.txt'' \<mapsto> ''h''](''/out/tmpl.nii_beststats.txt'' \<mapsto>
        ''h'' @ subject_report demo_host [(-2, 0, 0)] [''/s2/compA.nii'', '''', ''/s2/compB.nii'']),
     (''Processing images for subject '' @ ''/s2'' @ ''...'') #
       filter (\<lambda>p. p \<noteq> '''') [''/s2/compA.nii'', '''', ''/s2/compB.nii''] @
     map (\<lambda>(i, sc). ''Adding '' @ i @ '' '' @ show_score demo_host sc)
       [(''/s2/compA.nii'', 5), (''/s2/compB.nii'', 4)])"
    using Console.process_subject_console [OF demo_res_path demo_writable _ demo_session_fields ld,
        of "[''/out/tmpl.nii_beststats.txt'' \<mapsto> ''h'']" "''h''" "''/s2''"]
    by (simp only: ne if_False demo_items_s2 fun_upd_same)
  then show ?thesis
    by (simp add: demo_show demo_str_counts)
qed

theorem process_subject_console_fail_witness:
  "process_subject_c demo_host demo_res ''/s2'' [''/s2/compA.nii'', '''', ''/s2/missing.nii'', ''/s2/compB.nii'']
      demo_session Map.empty =
    (Inl (SysExit 0), Map.empty,
     [''Processing images for subject /s2...'', ''/s2/compA.nii'', ''/s2/missing.nii'',
      ''Problem with /s2/missing.nii. Exiting!''])"
proof -
  have pre: "list_all (loads demo_host) [''/s2/compA.nii'', '''']"
    using demo_loads by (simp add: loads_def)
  have bad: "load_data (image_at demo_host) ''/s2/missing.nii'' = Inl (ImageUnreadable ''/s2/missing.nii'')"
    by (simp add: load_data_def demo_host_def demo_files_def)
  show ?thesis
    using Console.process_subject_console_fail [OF pre _ bad, of demo_res "''/s2''" "[''/s2/compB.nii'']"
        demo_session Map.empty]
    by simp
qed

end
